theory Spec2Isabelle
  imports Main "HOL-Library.AList"
begin

section \<open>Python values\<close>

text \<open>
  The two scripts of the repository, \<^verbatim>\<open>build_catalog.py\<close> (stage 1) and
  \<^verbatim>\<open>generate_embeddings.py\<close> (stage 2), work on Python strings, lists and
  dictionaries. A Python string is a \<^typ>\<open>string\<close>, each \<^typ>\<open>char\<close> standing for the
  code point of the same number (U+0000 to U+00FF); every string literal of the source
  is ASCII, and stage 2 only concatenates the strings it reads and iterates over them.
  An exception is a value of \<open>exn\<close>, and a computation that may raise returns
  \<open>exn + 'a\<close>, with \<open>Inl\<close> for the exception. \<open>ImportError\<close> stands for the
  class with its subclasses (what \<^verbatim>\<open>except ImportError\<close> catches),
  \<open>LibraryError\<close> for any other exception that comes out of an external library.
\<close>

datatype exn = ImportError | KeyError string | TypeError | IndexError | LibraryError string

text \<open>
  What \<^verbatim>\<open>json.load\<close> returns and \<^verbatim>\<open>json.dump\<close> writes. The type \<open>'f\<close> is the
  type of numbers. A dictionary is an association list in insertion order, which is the
  order in which Python iterates over it and writes it.
\<close>

datatype 'f json =
  JNull
| JBool bool
| JNum 'f
| JStr string
| JArr "'f json list"
| JObj "(string \<times> 'f json) list"

type_synonym 'f dict = "(string \<times> 'f json) list"

text \<open>\<^verbatim>\<open>d[k]\<close>: a missing key raises \<^verbatim>\<open>KeyError(k)\<close>.\<close>

definition getitem :: "'f dict \<Rightarrow> string \<Rightarrow> exn + 'f json" where
  "getitem d k = (case map_of d k of None \<Rightarrow> Inl (KeyError k) | Some v \<Rightarrow> Inr v)"

text \<open>
  \<^verbatim>\<open>d[k] = v\<close>: a key that is present keeps its place and takes the new value, a new
  key goes to the end.
\<close>

definition setitem :: "'f dict \<Rightarrow> string \<Rightarrow> 'f json \<Rightarrow> 'f dict" where
  "setitem d k v = AList.update k v d"

text \<open>\<^verbatim>\<open>sep.join(xs)\<close> on a list of strings.\<close>

fun join :: "string \<Rightarrow> string list \<Rightarrow> string" where
  "join sep [] = []"
| "join sep [x] = x"
| "join sep (x # y # ys) = x @ sep @ join sep (y # ys)"

text \<open>
  \<^verbatim>\<open>s.lower()\<close>: on the code points up to U+00FF Python lowers the letters A to Z
  and the Latin-1 capitals U+00C0 to U+00DE (the multiplication sign U+00D7 apart) by
  adding 32, and leaves every other character as it is.
\<close>

definition lower_char :: "char \<Rightarrow> char" where
  "lower_char c =
     (let n = (of_char c :: nat)
      in if (65 \<le> n \<and> n \<le> 90) \<or> (192 \<le> n \<and> n \<le> 222 \<and> n \<noteq> 215)
         then char_of (n + 32) else c)"

definition lower :: "string \<Rightarrow> string" where
  "lower s = map lower_char s"

section \<open>Stage 1: the catalog builder\<close>

text \<open>
  \<^verbatim>\<open>build_catalog\<close> holds six dictionary literals, each from a sound's name to a
  dictionary of its data, and turns every entry into one record of the catalog. The
  data dictionaries have three shapes: \<^verbatim>\<open>description\<close> and \<^verbatim>\<open>tags\<close> (drum
  machines); with \<^verbatim>\<open>category\<close> (sample banks, sample-library instruments,
  wavetables); with \<^verbatim>\<open>category\<close> and \<^verbatim>\<open>example\<close> (soundfonts, built-in
  synths). Each shape is a record that extends the smaller one, so that one selector
  reads a key from every shape that has it. A table is the list of its entries in the
  order of the literal; no literal repeats a key.
\<close>

record machine_data =
  description :: string
  tags :: "string list"

record sample_data = machine_data +
  category :: string

record synth_data = sample_data +
  example :: string

text \<open>The General MIDI soundfonts: sampled acoustic instruments.\<close>

definition gm_soundfonts :: "(string \<times> synth_data) list" where
\<open>gm_soundfonts = [
  (''gm_acoustic_grand_piano'',
    \<lparr>description = ''Grand piano, realistic sampled acoustic piano. Best for classical, jazz, ballads. Warm, full-bodied tone with natural resonance.'', tags = [''piano'', ''acoustic'', ''classical'', ''jazz'', ''ballad'', ''warm'', ''orchestral''], category = ''keyboards'', example = ''note("c4 e4 g4").s("gm_acoustic_grand_piano")''\<rparr>),
  (''gm_bright_acoustic_piano'',
    \<lparr>description = ''Bright acoustic piano with more presence in high frequencies. Cuts through mixes well. Good for pop and contemporary.'', tags = [''piano'', ''acoustic'', ''bright'', ''pop'', ''contemporary''], category = ''keyboards'', example = ''note("c4 e4 g4").s("gm_bright_acoustic_piano")''\<rparr>),
  (''gm_electric_grand_piano'',
    \<lparr>description = ''Electric grand piano, hybrid between acoustic and electric. Vintage 70s sound.'', tags = [''piano'', ''electric'', ''vintage'', ''70s''], category = ''keyboards'', example = ''note("c4 e4 g4").s("gm_electric_grand_piano")''\<rparr>),
  (''gm_honky_tonk_piano'',
    \<lparr>description = ''Detuned saloon piano with ragtime character. Slightly out of tune for authentic honky-tonk feel.'', tags = [''piano'', ''honky-tonk'', ''ragtime'', ''detuned'', ''vintage'', ''saloon''], category = ''keyboards'', example = ''note("c4 e4 g4").s("gm_honky_tonk_piano")''\<rparr>),
  (''gm_epiano1'',
    \<lparr>description = ''Electric piano 1, Rhodes-like warm electric piano. Classic soul, R&B, jazz fusion sound. Smooth and bell-like.'', tags = [''piano'', ''electric'', ''rhodes'', ''soul'', ''r&b'', ''jazz'', ''warm'', ''bell-like''], category = ''keyboards'', example = ''note("c4 e4 g4").s("gm_epiano1")''\<rparr>),
  (''gm_epiano2'',
    \<lparr>description = ''Electric piano 2, brighter electric piano variant. More bite than epiano1. FM-style tines.'', tags = [''piano'', ''electric'', ''bright'', ''fm'', ''tines''], category = ''keyboards'', example = ''note("c4 e4 g4").s("gm_epiano2")''\<rparr>),
  (''gm_harpsichord'',
    \<lparr>description = ''Baroque harpsichord with plucked string character. Essential for baroque and renaissance music.'', tags = [''harpsichord'', ''baroque'', ''renaissance'', ''plucked'', ''classical'', ''historical''], category = ''keyboards'', example = ''note("c4 e4 g4").s("gm_harpsichord")''\<rparr>),
  (''gm_clavinet'',
    \<lparr>description = ''Funky clavinet, percussive keyboard. Classic funk and soul sound. Wah-wah compatible.'', tags = [''clavinet'', ''funk'', ''soul'', ''percussive'', ''wah''], category = ''keyboards'', example = ''note("c4 e4 g4").s("gm_clavinet")''\<rparr>),
  (''gm_celesta'',
    \<lparr>description = ''Celesta, magical bell-like keyboard. Sparkling, ethereal quality. Think Nutcracker Suite.'', tags = [''celesta'', ''bells'', ''magical'', ''ethereal'', ''orchestral'', ''christmas''], category = ''keyboards'', example = ''note("c5 e5 g5").s("gm_celesta")''\<rparr>),
  (''gm_music_box'',
    \<lparr>description = ''Music box, delicate mechanical bell sound. Nostalgic, toy-like, innocent quality.'', tags = [''music-box'', ''bells'', ''toy'', ''nostalgic'', ''innocent'', ''delicate''], category = ''keyboards'', example = ''note("c5 e5 g5").s("gm_music_box")''\<rparr>),
  (''gm_vibraphone'',
    \<lparr>description = ''Vibraphone, mellow mallet percussion with motor vibrato. Jazz standard, smooth and warm.'', tags = [''vibraphone'', ''vibes'', ''jazz'', ''mellow'', ''mallet'', ''smooth''], category = ''chromatic_percussion'', example = ''note("c4 e4 g4").s("gm_vibraphone")''\<rparr>),
  (''gm_marimba'',
    \<lparr>description = ''Marimba, warm wooden mallet percussion. African and Latin influences. Rich low end.'', tags = [''marimba'', ''mallet'', ''wooden'', ''african'', ''latin'', ''warm''], category = ''chromatic_percussion'', example = ''note("c4 e4 g4").s("gm_marimba")''\<rparr>),
  (''gm_xylophone'',
    \<lparr>description = ''Xylophone, bright wooden mallet percussion. Crisp attack, short decay. Cartoon-like.'', tags = [''xylophone'', ''mallet'', ''wooden'', ''bright'', ''crisp'', ''cartoon''], category = ''chromatic_percussion'', example = ''note("c5 e5 g5").s("gm_xylophone")''\<rparr>),
  (''gm_glockenspiel'',
    \<lparr>description = ''Glockenspiel, bright metallic bells. High-pitched, sparkling, orchestral.'', tags = [''glockenspiel'', ''bells'', ''metallic'', ''bright'', ''sparkling'', ''orchestral''], category = ''chromatic_percussion'', example = ''note("c6 e6 g6").s("gm_glockenspiel")''\<rparr>),
  (''gm_tubular_bells'',
    \<lparr>description = ''Tubular bells, orchestral chimes. Majestic, ceremonial, church-like.'', tags = [''tubular-bells'', ''chimes'', ''orchestral'', ''majestic'', ''church'', ''ceremonial''], category = ''chromatic_percussion'', example = ''note("c4 e4 g4").s("gm_tubular_bells")''\<rparr>),
  (''gm_church_organ'',
    \<lparr>description = ''Pipe organ, majestic church organ with full stops. Sacred, powerful, reverberant.'', tags = [''organ'', ''pipe'', ''church'', ''sacred'', ''majestic'', ''classical''], category = ''organ'', example = ''note("c3 e3 g3").s("gm_church_organ")''\<rparr>),
  (''gm_reed_organ'',
    \<lparr>description = ''Reed organ, harmonium-style pump organ. Vintage, folk, Americana.'', tags = [''organ'', ''reed'', ''harmonium'', ''vintage'', ''folk'', ''americana''], category = ''organ'', example = ''note("c4 e4 g4").s("gm_reed_organ")''\<rparr>),
  (''gm_accordion'',
    \<lparr>description = ''Accordion, bellows-driven free-reed instrument. French, tango, folk music.'', tags = [''accordion'', ''bellows'', ''french'', ''tango'', ''folk'', ''musette''], category = ''organ'', example = ''note("c4 e4 g4").s("gm_accordion")''\<rparr>),
  (''gm_harmonica'',
    \<lparr>description = ''Harmonica, blues harp. Expressive, bending notes, folk and blues essential.'', tags = [''harmonica'', ''blues'', ''harp'', ''folk'', ''expressive''], category = ''organ'', example = ''note("c4 e4 g4").s("gm_harmonica")''\<rparr>),
  (''gm_acoustic_guitar_nylon'',
    \<lparr>description = ''Classical nylon-string guitar. Soft, warm, fingerpicking. Spanish, classical, bossa nova.'', tags = [''guitar'', ''acoustic'', ''nylon'', ''classical'', ''spanish'', ''bossa-nova'', ''fingerpicking''], category = ''guitar'', example = ''note("c4 e4 g4").s("gm_acoustic_guitar_nylon")''\<rparr>),
  (''gm_acoustic_guitar_steel'',
    \<lparr>description = ''Steel-string acoustic guitar. Bright, strumming, folk and country. Singer-songwriter staple.'', tags = [''guitar'', ''acoustic'', ''steel'', ''folk'', ''country'', ''strumming'', ''bright''], category = ''guitar'', example = ''note("c4 e4 g4").s("gm_acoustic_guitar_steel")''\<rparr>),
  (''gm_electric_guitar_clean'',
    \<lparr>description = ''Clean electric guitar. Clear, bell-like, versatile. Funk, jazz, pop rhythm.'', tags = [''guitar'', ''electric'', ''clean'', ''funk'', ''jazz'', ''pop'', ''rhythm''], category = ''guitar'', example = ''note("c4 e4 g4").s("gm_electric_guitar_clean")''\<rparr>),
  (''gm_electric_guitar_jazz'',
    \<lparr>description = ''Jazz electric guitar. Warm, hollow-body tone. Smooth jazz, bebop.'', tags = [''guitar'', ''electric'', ''jazz'', ''warm'', ''hollow-body'', ''bebop''], category = ''guitar'', example = ''note("c4 e4 g4").s("gm_electric_guitar_jazz")''\<rparr>),
  (''gm_electric_guitar_muted'',
    \<lparr>description = ''Muted electric guitar. Palm-muted, chunky, rhythmic. Funk and rock rhythm.'', tags = [''guitar'', ''electric'', ''muted'', ''palm-mute'', ''funk'', ''rock'', ''rhythmic''], category = ''guitar'', example = ''note("c4 e4 g4").s("gm_electric_guitar_muted")''\<rparr>),
  (''gm_overdriven_guitar'',
    \<lparr>description = ''Overdriven electric guitar. Crunchy, warm distortion. Classic rock, blues rock.'', tags = [''guitar'', ''electric'', ''overdrive'', ''crunch'', ''rock'', ''blues''], category = ''guitar'', example = ''note("c4 e4 g4").s("gm_overdriven_guitar")''\<rparr>),
  (''gm_distortion_guitar'',
    \<lparr>description = ''Distorted electric guitar. Heavy, aggressive, saturated. Hard rock, metal.'', tags = [''guitar'', ''electric'', ''distortion'', ''heavy'', ''metal'', ''rock'', ''aggressive''], category = ''guitar'', example = ''note("c4 e4 g4").s("gm_distortion_guitar")''\<rparr>),
  (''gm_guitar_harmonics'',
    \<lparr>description = ''Guitar harmonics. Bell-like overtones, ethereal. Ambient textures.'', tags = [''guitar'', ''harmonics'', ''bell-like'', ''ethereal'', ''ambient'', ''overtones''], category = ''guitar'', example = ''note("c5 e5 g5").s("gm_guitar_harmonics")''\<rparr>),
  (''gm_acoustic_bass'',
    \<lparr>description = ''Upright acoustic bass, double bass. Jazz, orchestral, warm woody tone.'', tags = [''bass'', ''acoustic'', ''upright'', ''double-bass'', ''jazz'', ''orchestral'', ''woody''], category = ''bass'', example = ''note("c2 e2 g2").s("gm_acoustic_bass")''\<rparr>),
  (''gm_electric_bass_finger'',
    \<lparr>description = ''Electric bass, fingerstyle. Round, warm, versatile. Most common bass sound.'', tags = [''bass'', ''electric'', ''finger'', ''warm'', ''round'', ''versatile''], category = ''bass'', example = ''note("c2 e2 g2").s("gm_electric_bass_finger")''\<rparr>),
  (''gm_electric_bass_pick'',
    \<lparr>description = ''Electric bass, picked. Punchy, bright attack. Rock, punk.'', tags = [''bass'', ''electric'', ''pick'', ''punchy'', ''bright'', ''rock'', ''punk''], category = ''bass'', example = ''note("c2 e2 g2").s("gm_electric_bass_pick")''\<rparr>),
  (''gm_slap_bass_1'',
    \<lparr>description = ''Slap bass. Funky, percussive, thumb-slap technique. Funk, disco.'', tags = [''bass'', ''slap'', ''funk'', ''percussive'', ''disco'', ''thumb''], category = ''bass'', example = ''note("c2 e2 g2").s("gm_slap_bass_1")''\<rparr>),
  (''gm_slap_bass_2'',
    \<lparr>description = ''Slap bass variant. Different slap bass character, more aggressive.'', tags = [''bass'', ''slap'', ''funk'', ''aggressive''], category = ''bass'', example = ''note("c2 e2 g2").s("gm_slap_bass_2")''\<rparr>),
  (''gm_synth_bass_1'',
    \<lparr>description = ''Synth bass 1. Electronic, punchy, subby. EDM, electronic, pop.'', tags = [''bass'', ''synth'', ''electronic'', ''sub'', ''edm'', ''punchy''], category = ''bass'', example = ''note("c2 e2 g2").s("gm_synth_bass_1")''\<rparr>),
  (''gm_synth_bass_2'',
    \<lparr>description = ''Synth bass 2. Resonant, squelchy synth bass. Acid, electronic.'', tags = [''bass'', ''synth'', ''resonant'', ''squelchy'', ''acid'', ''electronic''], category = ''bass'', example = ''note("c2 e2 g2").s("gm_synth_bass_2")''\<rparr>),
  (''gm_violin'',
    \<lparr>description = ''Solo violin. Expressive, emotional, classical. Lead melodic instrument.'', tags = [''violin'', ''strings'', ''orchestral'', ''classical'', ''solo'', ''expressive'', ''emotional''], category = ''strings'', example = ''note("c5 e5 g5").s("gm_violin")''\<rparr>),
  (''gm_viola'',
    \<lparr>description = ''Solo viola. Warmer than violin, alto range. Rich, melancholic.'', tags = [''viola'', ''strings'', ''orchestral'', ''classical'', ''warm'', ''alto'', ''melancholic''], category = ''strings'', example = ''note("c4 e4 g4").s("gm_viola")''\<rparr>),
  (''gm_cello'',
    \<lparr>description = ''Solo cello. Deep, rich, emotional. Tenor/bass range strings. Cinematic.'', tags = [''cello'', ''strings'', ''orchestral'', ''classical'', ''deep'', ''rich'', ''cinematic'', ''emotional''], category = ''strings'', example = ''note("c3 e3 g3").s("gm_cello")''\<rparr>),
  (''gm_contrabass'',
    \<lparr>description = ''Double bass, contrabass. Deepest orchestral string. Foundation, gravitas.'', tags = [''contrabass'', ''double-bass'', ''strings'', ''orchestral'', ''deep'', ''foundation''], category = ''strings'', example = ''note("c2 e2 g2").s("gm_contrabass")''\<rparr>),
  (''gm_tremolo_strings'',
    \<lparr>description = ''Tremolo strings. Rapid bowing, tension, suspense. Film scores.'', tags = [''strings'', ''tremolo'', ''tension'', ''suspense'', ''film'', ''orchestral''], category = ''strings'', example = ''note("c4 e4 g4").s("gm_tremolo_strings")''\<rparr>),
  (''gm_pizzicato_strings'',
    \<lparr>description = ''Pizzicato strings. Plucked, playful, staccato. Light, whimsical.'', tags = [''strings'', ''pizzicato'', ''plucked'', ''playful'', ''staccato'', ''whimsical''], category = ''strings'', example = ''note("c4 e4 g4").s("gm_pizzicato_strings")''\<rparr>),
  (''gm_orchestral_harp'',
    \<lparr>description = ''Concert harp. Ethereal, sweeping, glissando. Angelic, classical, film.'', tags = [''harp'', ''orchestral'', ''ethereal'', ''glissando'', ''angelic'', ''classical''], category = ''strings'', example = ''note("c4 e4 g4").s("gm_orchestral_harp")''\<rparr>),
  (''gm_string_ensemble_1'',
    \<lparr>description = ''String ensemble, full section. Lush, cinematic, emotional pads. Film scores.'', tags = [''strings'', ''ensemble'', ''orchestral'', ''lush'', ''cinematic'', ''pads'', ''film''], category = ''strings'', example = ''note("<[c3,e3,g3] [f3,a3,c4]>").s("gm_string_ensemble_1")''\<rparr>),
  (''gm_string_ensemble_2'',
    \<lparr>description = ''String ensemble 2. Slower attack, more atmospheric. Ambient, cinematic.'', tags = [''strings'', ''ensemble'', ''atmospheric'', ''ambient'', ''slow-attack''], category = ''strings'', example = ''note("<[c3,e3,g3] [f3,a3,c4]>").s("gm_string_ensemble_2")''\<rparr>),
  (''gm_synth_strings_1'',
    \<lparr>description = ''Synth strings 1. Electronic string pad. 80s, synthwave, warm.'', tags = [''strings'', ''synth'', ''pad'', ''80s'', ''synthwave'', ''electronic'', ''warm''], category = ''strings'', example = ''note("<[c3,e3,g3] [f3,a3,c4]>").s("gm_synth_strings_1")''\<rparr>),
  (''gm_synth_strings_2'',
    \<lparr>description = ''Synth strings 2. Brighter synth strings. More presence.'', tags = [''strings'', ''synth'', ''bright'', ''electronic''], category = ''strings'', example = ''note("<[c3,e3,g3] [f3,a3,c4]>").s("gm_synth_strings_2")''\<rparr>),
  (''gm_trumpet'',
    \<lparr>description = ''Trumpet. Bright, powerful, cutting. Jazz, classical, fanfares, mariachi.'', tags = [''trumpet'', ''brass'', ''bright'', ''powerful'', ''jazz'', ''fanfare'', ''classical''], category = ''brass'', example = ''note("c5 e5 g5").s("gm_trumpet")''\<rparr>),
  (''gm_trombone'',
    \<lparr>description = ''Trombone. Warm, powerful, slide. Jazz, classical, big band.'', tags = [''trombone'', ''brass'', ''warm'', ''slide'', ''jazz'', ''big-band'', ''classical''], category = ''brass'', example = ''note("c3 e3 g3").s("gm_trombone")''\<rparr>),
  (''gm_tuba'',
    \<lparr>description = ''Tuba. Deep, powerful bass brass. Oom-pah, orchestral foundation.'', tags = [''tuba'', ''brass'', ''deep'', ''bass'', ''orchestral'', ''oom-pah''], category = ''brass'', example = ''note("c2 e2 g2").s("gm_tuba")''\<rparr>),
  (''gm_muted_trumpet'',
    \<lparr>description = ''Muted trumpet. Nasal, intimate, jazz. Harmon mute, smoky clubs.'', tags = [''trumpet'', ''muted'', ''brass'', ''jazz'', ''intimate'', ''harmon'', ''smoky''], category = ''brass'', example = ''note("c5 e5 g5").s("gm_muted_trumpet")''\<rparr>),
  (''gm_french_horn'',
    \<lparr>description = ''French horn. Noble, warm, orchestral. Romantic, cinematic, heroic.'', tags = [''french-horn'', ''brass'', ''noble'', ''warm'', ''orchestral'', ''heroic'', ''cinematic''], category = ''brass'', example = ''note("c4 e4 g4").s("gm_french_horn")''\<rparr>),
  (''gm_brass_section'',
    \<lparr>description = ''Brass section ensemble. Powerful, big band, orchestral hits. Fanfares.'', tags = [''brass'', ''section'', ''ensemble'', ''powerful'', ''big-band'', ''fanfare'', ''orchestral''], category = ''brass'', example = ''note("<[c4,e4,g4] [d4,f4,a4]>").s("gm_brass_section")''\<rparr>),
  (''gm_synth_brass_1'',
    \<lparr>description = ''Synth brass 1. Electronic brass stabs. 80s, disco, funk.'', tags = [''brass'', ''synth'', ''stabs'', ''80s'', ''disco'', ''funk'', ''electronic''], category = ''brass'', example = ''note("<[c4,e4,g4]>").s("gm_synth_brass_1")''\<rparr>),
  (''gm_synth_brass_2'',
    \<lparr>description = ''Synth brass 2. Softer synth brass. Pads, atmospheric.'', tags = [''brass'', ''synth'', ''soft'', ''pads'', ''atmospheric''], category = ''brass'', example = ''note("<[c4,e4,g4]>").s("gm_synth_brass_2")''\<rparr>),
  (''gm_flute'',
    \<lparr>description = ''Concert flute. Airy, bright, agile. Classical, jazz, folk, world.'', tags = [''flute'', ''woodwind'', ''airy'', ''bright'', ''classical'', ''folk''], category = ''woodwind'', example = ''note("c5 e5 g5").s("gm_flute")''\<rparr>),
  (''gm_piccolo'',
    \<lparr>description = ''Piccolo. Highest woodwind, piercing, brilliant. Marches, orchestral.'', tags = [''piccolo'', ''woodwind'', ''high'', ''piercing'', ''brilliant'', ''march''], category = ''woodwind'', example = ''note("c6 e6 g6").s("gm_piccolo")''\<rparr>),
  (''gm_recorder'',
    \<lparr>description = ''Recorder. Renaissance, folk, educational. Soft, pure tone.'', tags = [''recorder'', ''woodwind'', ''renaissance'', ''folk'', ''soft'', ''pure''], category = ''woodwind'', example = ''note("c5 e5 g5").s("gm_recorder")''\<rparr>),
  (''gm_pan_flute'',
    \<lparr>description = ''Pan flute. Breathy, ethnic, Andean. Mystical, world music.'', tags = [''pan-flute'', ''woodwind'', ''breathy'', ''andean'', ''mystical'', ''world''], category = ''woodwind'', example = ''note("c5 e5 g5").s("gm_pan_flute")''\<rparr>),
  (''gm_blown_bottle'',
    \<lparr>description = ''Blown bottle. Airy, hollow, ethereal. Ambient textures.'', tags = [''bottle'', ''blown'', ''airy'', ''hollow'', ''ethereal'', ''ambient''], category = ''woodwind'', example = ''note("c5 e5 g5").s("gm_blown_bottle")''\<rparr>),
  (''gm_shakuhachi'',
    \<lparr>description = ''Shakuhachi. Japanese bamboo flute. Zen, meditative, breathy.'', tags = [''shakuhachi'', ''japanese'', ''bamboo'', ''zen'', ''meditative'', ''breathy'', ''world''], category = ''woodwind'', example = ''note("c5 e5 g5").s("gm_shakuhachi")''\<rparr>),
  (''gm_whistle'',
    \<lparr>description = ''Tin whistle. Irish, Celtic, folk. Bright, agile, jigs and reels.'', tags = [''whistle'', ''tin-whistle'', ''irish'', ''celtic'', ''folk'', ''bright''], category = ''woodwind'', example = ''note("c5 e5 g5").s("gm_whistle")''\<rparr>),
  (''gm_ocarina'',
    \<lparr>description = ''Ocarina. Ancient wind instrument. Pure, innocent, video game nostalgia.'', tags = [''ocarina'', ''ancient'', ''pure'', ''innocent'', ''zelda'', ''game''], category = ''woodwind'', example = ''note("c5 e5 g5").s("gm_ocarina")''\<rparr>),
  (''gm_clarinet'',
    \<lparr>description = ''Clarinet. Warm, woody, agile. Jazz, classical, klezmer.'', tags = [''clarinet'', ''woodwind'', ''warm'', ''woody'', ''jazz'', ''classical'', ''klezmer''], category = ''woodwind'', example = ''note("c4 e4 g4").s("gm_clarinet")''\<rparr>),
  (''gm_oboe'',
    \<lparr>description = ''Oboe. Nasal, expressive, penetrating. Orchestral, pastoral.'', tags = [''oboe'', ''woodwind'', ''nasal'', ''expressive'', ''orchestral'', ''pastoral''], category = ''woodwind'', example = ''note("c5 e5 g5").s("gm_oboe")''\<rparr>),
  (''gm_english_horn'',
    \<lparr>description = ''English horn, cor anglais. Melancholic, warm oboe family. Romantic.'', tags = [''english-horn'', ''cor-anglais'', ''woodwind'', ''melancholic'', ''warm'', ''romantic''], category = ''woodwind'', example = ''note("c4 e4 g4").s("gm_english_horn")''\<rparr>),
  (''gm_bassoon'',
    \<lparr>description = ''Bassoon. Deep, reedy, sometimes comical. Orchestral bass woodwind.'', tags = [''bassoon'', ''woodwind'', ''deep'', ''reedy'', ''orchestral'', ''bass''], category = ''woodwind'', example = ''note("c3 e3 g3").s("gm_bassoon")''\<rparr>),
  (''gm_soprano_sax'',
    \<lparr>description = ''Soprano saxophone. Bright, penetrating, Kenny G. Jazz, smooth jazz.'', tags = [''saxophone'', ''soprano'', ''bright'', ''jazz'', ''smooth-jazz''], category = ''woodwind'', example = ''note("c5 e5 g5").s("gm_soprano_sax")''\<rparr>),
  (''gm_alto_sax'',
    \<lparr>description = ''Alto saxophone. Versatile, expressive. Jazz standard, R&B, pop.'', tags = [''saxophone'', ''alto'', ''versatile'', ''jazz'', ''r&b'', ''pop''], category = ''woodwind'', example = ''note("c4 e4 g4").s("gm_alto_sax")''\<rparr>),
  (''gm_tenor_sax'',
    \<lparr>description = ''Tenor saxophone. Rich, powerful, soulful. Jazz, rock, R&B solos.'', tags = [''saxophone'', ''tenor'', ''rich'', ''powerful'', ''soulful'', ''jazz'', ''rock''], category = ''woodwind'', example = ''note("c4 e4 g4").s("gm_tenor_sax")''\<rparr>),
  (''gm_baritone_sax'',
    \<lparr>description = ''Baritone saxophone. Deep, honking, powerful. Jazz, funk, rock.'', tags = [''saxophone'', ''baritone'', ''deep'', ''honking'', ''funk'', ''jazz''], category = ''woodwind'', example = ''note("c3 e3 g3").s("gm_baritone_sax")''\<rparr>),
  (''gm_lead_1_square'',
    \<lparr>description = ''Square wave lead. Retro, chiptune, 8-bit. Video game melodies.'', tags = [''synth'', ''lead'', ''square'', ''chiptune'', ''8-bit'', ''retro'', ''game''], category = ''synth_lead'', example = ''note("c5 e5 g5").s("gm_lead_1_square")''\<rparr>),
  (''gm_lead_2_sawtooth'',
    \<lparr>description = ''Sawtooth wave lead. Bright, buzzy, classic synth. Trance, EDM.'', tags = [''synth'', ''lead'', ''sawtooth'', ''bright'', ''buzzy'', ''trance'', ''edm''], category = ''synth_lead'', example = ''note("c5 e5 g5").s("gm_lead_2_sawtooth")''\<rparr>),
  (''gm_lead_3_calliope'',
    \<lparr>description = ''Calliope lead. Circus organ, carnival. Quirky, whimsical.'', tags = [''synth'', ''lead'', ''calliope'', ''circus'', ''carnival'', ''quirky''], category = ''synth_lead'', example = ''note("c5 e5 g5").s("gm_lead_3_calliope")''\<rparr>),
  (''gm_lead_4_chiff'',
    \<lparr>description = ''Chiff lead. Breathy attack, pan flute-like. Airy, new age.'', tags = [''synth'', ''lead'', ''chiff'', ''breathy'', ''airy'', ''new-age''], category = ''synth_lead'', example = ''note("c5 e5 g5").s("gm_lead_4_chiff")''\<rparr>),
  (''gm_lead_5_charang'',
    \<lparr>description = ''Charang lead. Distorted, aggressive synth. Rock, industrial.'', tags = [''synth'', ''lead'', ''charang'', ''distorted'', ''aggressive'', ''rock''], category = ''synth_lead'', example = ''note("c5 e5 g5").s("gm_lead_5_charang")''\<rparr>),
  (''gm_lead_6_voice'',
    \<lparr>description = ''Voice lead synth. Vocal-like, choir synth. Ethereal, dreamy.'', tags = [''synth'', ''lead'', ''voice'', ''vocal'', ''choir'', ''ethereal'', ''dreamy''], category = ''synth_lead'', example = ''note("c5 e5 g5").s("gm_lead_6_voice")''\<rparr>),
  (''gm_lead_7_fifths'',
    \<lparr>description = ''Fifths lead. Power chord synth, parallel fifths. Heavy, powerful.'', tags = [''synth'', ''lead'', ''fifths'', ''power-chord'', ''heavy'', ''powerful''], category = ''synth_lead'', example = ''note("c5 e5 g5").s("gm_lead_7_fifths")''\<rparr>),
  (''gm_lead_8_bass_lead'',
    \<lparr>description = ''Bass and lead combo. Thick, full range synth. Monophonic bass-lead.'', tags = [''synth'', ''lead'', ''bass'', ''thick'', ''full'', ''monophonic''], category = ''synth_lead'', example = ''note("c4 e4 g4").s("gm_lead_8_bass_lead")''\<rparr>),
  (''gm_pad_1_new_age'',
    \<lparr>description = ''New age pad. Warm, evolving, meditation. Ambient, relaxation.'', tags = [''synth'', ''pad'', ''new-age'', ''warm'', ''ambient'', ''meditation'', ''relaxation''], category = ''synth_pad'', example = ''note("<[c3,e3,g3] [f3,a3,c4]>").s("gm_pad_1_new_age")''\<rparr>),
  (''gm_pad_2_warm'',
    \<lparr>description = ''Warm pad. Analog-style warmth, rich harmonics. Lush, enveloping.'', tags = [''synth'', ''pad'', ''warm'', ''analog'', ''lush'', ''rich''], category = ''synth_pad'', example = ''note("<[c3,e3,g3] [f3,a3,c4]>").s("gm_pad_2_warm")''\<rparr>),
  (''gm_pad_3_polysynth'',
    \<lparr>description = ''Polysynth pad. Classic 80s pad. Synthwave, retro, detuned.'', tags = [''synth'', ''pad'', ''polysynth'', ''80s'', ''synthwave'', ''retro'', ''detuned''], category = ''synth_pad'', example = ''note("<[c3,e3,g3] [f3,a3,c4]>").s("gm_pad_3_polysynth")''\<rparr>),
  (''gm_pad_4_choir'',
    \<lparr>description = ''Choir pad. Vocal ensemble synth. Angelic, ethereal, sacred.'', tags = [''synth'', ''pad'', ''choir'', ''vocal'', ''angelic'', ''ethereal'', ''sacred''], category = ''synth_pad'', example = ''note("<[c3,e3,g3] [f3,a3,c4]>").s("gm_pad_4_choir")''\<rparr>),
  (''gm_pad_5_bowed'',
    \<lparr>description = ''Bowed pad. String-like attack, evolving. Cinematic, tension.'', tags = [''synth'', ''pad'', ''bowed'', ''string-like'', ''cinematic'', ''tension''], category = ''synth_pad'', example = ''note("<[c3,e3,g3] [f3,a3,c4]>").s("gm_pad_5_bowed")''\<rparr>),
  (''gm_pad_6_metallic'',
    \<lparr>description = ''Metallic pad. Bell-like, shimmering. Industrial, cold, futuristic.'', tags = [''synth'', ''pad'', ''metallic'', ''bell'', ''shimmering'', ''industrial'', ''cold''], category = ''synth_pad'', example = ''note("<[c3,e3,g3] [f3,a3,c4]>").s("gm_pad_6_metallic")''\<rparr>),
  (''gm_pad_7_halo'',
    \<lparr>description = ''Halo pad. Bright, airy, heavenly. Ambient, uplifting.'', tags = [''synth'', ''pad'', ''halo'', ''bright'', ''airy'', ''heavenly'', ''ambient''], category = ''synth_pad'', example = ''note("<[c3,e3,g3] [f3,a3,c4]>").s("gm_pad_7_halo")''\<rparr>),
  (''gm_pad_8_sweep'',
    \<lparr>description = ''Sweep pad. Filter sweep, evolving texture. Builds, transitions.'', tags = [''synth'', ''pad'', ''sweep'', ''filter'', ''evolving'', ''builds'', ''transitions''], category = ''synth_pad'', example = ''note("<[c3,e3,g3] [f3,a3,c4]>").s("gm_pad_8_sweep")''\<rparr>),
  (''gm_fx_1_rain'',
    \<lparr>description = ''Rain effect. Ambient rainfall texture. Weather, nature, atmosphere.'', tags = [''synth'', ''fx'', ''rain'', ''ambient'', ''weather'', ''nature'', ''atmosphere''], category = ''synth_fx'', example = ''note("c4").s("gm_fx_1_rain")''\<rparr>),
  (''gm_fx_2_soundtrack'',
    \<lparr>description = ''Soundtrack effect. Cinematic texture, sci-fi. Film score, tension.'', tags = [''synth'', ''fx'', ''soundtrack'', ''cinematic'', ''sci-fi'', ''tension''], category = ''synth_fx'', example = ''note("c4").s("gm_fx_2_soundtrack")''\<rparr>),
  (''gm_fx_3_crystal'',
    \<lparr>description = ''Crystal effect. Sparkling, magical. Fantasy, fairy tale.'', tags = [''synth'', ''fx'', ''crystal'', ''sparkling'', ''magical'', ''fantasy''], category = ''synth_fx'', example = ''note("c5").s("gm_fx_3_crystal")''\<rparr>),
  (''gm_fx_4_atmosphere'',
    \<lparr>description = ''Atmosphere effect. Ambient drone, space. Sci-fi, suspense.'', tags = [''synth'', ''fx'', ''atmosphere'', ''ambient'', ''drone'', ''space'', ''sci-fi''], category = ''synth_fx'', example = ''note("c3").s("gm_fx_4_atmosphere")''\<rparr>),
  (''gm_fx_5_brightness'',
    \<lparr>description = ''Brightness effect. Rising shimmer, uplifting. Transitions, builds.'', tags = [''synth'', ''fx'', ''brightness'', ''shimmer'', ''uplifting'', ''transitions''], category = ''synth_fx'', example = ''note("c4").s("gm_fx_5_brightness")''\<rparr>),
  (''gm_fx_6_goblins'',
    \<lparr>description = ''Goblins effect. Dark, creepy texture. Horror, fantasy, tension.'', tags = [''synth'', ''fx'', ''goblins'', ''dark'', ''creepy'', ''horror'', ''fantasy''], category = ''synth_fx'', example = ''note("c3").s("gm_fx_6_goblins")''\<rparr>),
  (''gm_fx_7_echoes'',
    \<lparr>description = ''Echoes effect. Delayed, spacious texture. Ambient, dub.'', tags = [''synth'', ''fx'', ''echoes'', ''delay'', ''spacious'', ''ambient'', ''dub''], category = ''synth_fx'', example = ''note("c4").s("gm_fx_7_echoes")''\<rparr>),
  (''gm_fx_8_scifi'',
    \<lparr>description = ''Sci-fi effect. Futuristic, electronic texture. Space, technology.'', tags = [''synth'', ''fx'', ''scifi'', ''futuristic'', ''electronic'', ''space'', ''technology''], category = ''synth_fx'', example = ''note("c4").s("gm_fx_8_scifi")''\<rparr>),
  (''gm_sitar'',
    \<lparr>description = ''Sitar. Indian classical string, drone strings. Raga, world, psychedelic.'', tags = [''sitar'', ''indian'', ''world'', ''string'', ''raga'', ''psychedelic'', ''drone''], category = ''ethnic'', example = ''note("c4 e4 g4").s("gm_sitar")''\<rparr>),
  (''gm_banjo'',
    \<lparr>description = ''Banjo. Twangy, bright plucked. Bluegrass, country, folk, Americana.'', tags = [''banjo'', ''bluegrass'', ''country'', ''folk'', ''americana'', ''twangy'', ''plucked''], category = ''ethnic'', example = ''note("c4 e4 g4").s("gm_banjo")''\<rparr>),
  (''gm_shamisen'',
    \<lparr>description = ''Shamisen. Japanese three-string lute. Traditional, folk, kabuki.'', tags = [''shamisen'', ''japanese'', ''world'', ''traditional'', ''folk'', ''kabuki''], category = ''ethnic'', example = ''note("c4 e4 g4").s("gm_shamisen")''\<rparr>),
  (''gm_koto'',
    \<lparr>description = ''Koto. Japanese zither, 13 strings. Elegant, zen, traditional.'', tags = [''koto'', ''japanese'', ''world'', ''zither'', ''elegant'', ''zen'', ''traditional''], category = ''ethnic'', example = ''note("c4 e4 g4").s("gm_koto")''\<rparr>),
  (''gm_kalimba'',
    \<lparr>description = ''Kalimba, thumb piano. African mbira. Mellow, plucky, world.'', tags = [''kalimba'', ''mbira'', ''african'', ''world'', ''thumb-piano'', ''mellow'', ''plucky''], category = ''ethnic'', example = ''note("c5 e5 g5").s("gm_kalimba")''\<rparr>),
  (''gm_bagpipe'',
    \<lparr>description = ''Bagpipes. Scottish/Irish drone instrument. Celtic, ceremonial, powerful.'', tags = [''bagpipe'', ''scottish'', ''irish'', ''celtic'', ''drone'', ''ceremonial'', ''powerful''], category = ''ethnic'', example = ''note("c4 e4 g4").s("gm_bagpipe")''\<rparr>),
  (''gm_fiddle'',
    \<lparr>description = ''Fiddle. Folk violin style. Celtic, bluegrass, country, energetic.'', tags = [''fiddle'', ''violin'', ''folk'', ''celtic'', ''bluegrass'', ''country'', ''energetic''], category = ''ethnic'', example = ''note("c5 e5 g5").s("gm_fiddle")''\<rparr>),
  (''gm_shanai'',
    \<lparr>description = ''Shanai, shehnai. Indian double-reed. Weddings, celebrations, snake charmer.'', tags = [''shanai'', ''shehnai'', ''indian'', ''world'', ''double-reed'', ''celebration''], category = ''ethnic'', example = ''note("c5 e5 g5").s("gm_shanai")''\<rparr>),
  (''gm_timpani'',
    \<lparr>description = ''Timpani, kettle drums. Orchestral bass drums. Dramatic, thunderous.'', tags = [''timpani'', ''kettle-drums'', ''orchestral'', ''dramatic'', ''thunderous'', ''classical''], category = ''percussion'', example = ''note("c2 g2").s("gm_timpani")''\<rparr>),
  (''gm_orchestra_hit'',
    \<lparr>description = ''Orchestra hit. Full orchestra stab. 80s, dramatic, impact.'', tags = [''orchestra-hit'', ''stab'', ''80s'', ''dramatic'', ''impact'', ''orchestral''], category = ''percussion'', example = ''note("c4").s("gm_orchestra_hit")''\<rparr>),
  (''gm_melodic_tom'',
    \<lparr>description = ''Melodic tom drums. Tuned toms, tribal. Tom fills, ethnic.'', tags = [''tom'', ''melodic'', ''tuned'', ''tribal'', ''ethnic'', ''fills''], category = ''percussion'', example = ''note("c3 e3 g3").s("gm_melodic_tom")''\<rparr>),
  (''gm_synth_drum'',
    \<lparr>description = ''Synth drum. Electronic drum hit. 80s, electronic, processed.'', tags = [''drum'', ''synth'', ''electronic'', ''80s'', ''processed''], category = ''percussion'', example = ''note("c3").s("gm_synth_drum")''\<rparr>),
  (''gm_taiko_drum'',
    \<lparr>description = ''Taiko drum. Japanese big drum. Powerful, ceremonial, epic.'', tags = [''taiko'', ''japanese'', ''drum'', ''powerful'', ''ceremonial'', ''epic''], category = ''percussion'', example = ''note("c2").s("gm_taiko_drum")''\<rparr>),
  (''gm_woodblock'',
    \<lparr>description = ''Woodblock. Hollow wooden percussion. Latin, orchestral, click.'', tags = [''woodblock'', ''wooden'', ''percussion'', ''latin'', ''orchestral'', ''click''], category = ''percussion'', example = ''s("gm_woodblock")''\<rparr>),
  (''gm_steel_drums'',
    \<lparr>description = ''Steel drums, steel pans. Caribbean, tropical. Bright, melodic, calypso.'', tags = [''steel-drums'', ''caribbean'', ''tropical'', ''calypso'', ''bright'', ''melodic''], category = ''percussion'', example = ''note("c5 e5 g5").s("gm_steel_drums")''\<rparr>),
  (''gm_applause'',
    \<lparr>description = ''Applause sound effect. Audience clapping. Endings, live feel.'', tags = [''applause'', ''clapping'', ''audience'', ''sfx'', ''live''], category = ''sound_fx'', example = ''s("gm_applause")''\<rparr>),
  (''gm_gunshot'',
    \<lparr>description = ''Gunshot sound effect. Explosive impact. Action, cinematic.'', tags = [''gunshot'', ''explosion'', ''impact'', ''sfx'', ''action''], category = ''sound_fx'', example = ''s("gm_gunshot")''\<rparr>),
  (''gm_helicopter'',
    \<lparr>description = ''Helicopter sound effect. Rotor blades, aviation. Cinematic, action.'', tags = [''helicopter'', ''aviation'', ''sfx'', ''cinematic'', ''action''], category = ''sound_fx'', example = ''s("gm_helicopter")''\<rparr>),
  (''gm_seashore'',
    \<lparr>description = ''Seashore sound effect. Ocean waves, beach ambience. Relaxation, nature.'', tags = [''seashore'', ''ocean'', ''waves'', ''beach'', ''sfx'', ''relaxation'', ''nature''], category = ''sound_fx'', example = ''s("gm_seashore")''\<rparr>),
  (''gm_bird_tweet'',
    \<lparr>description = ''Bird tweet sound effect. Birdsong, nature. Morning, forest, peaceful.'', tags = [''bird'', ''tweet'', ''nature'', ''sfx'', ''morning'', ''forest'', ''peaceful''], category = ''sound_fx'', example = ''s("gm_bird_tweet")''\<rparr>),
  (''gm_telephone_ring'',
    \<lparr>description = ''Telephone ring sound effect. Classic phone ring. Retro, communication.'', tags = [''telephone'', ''ring'', ''phone'', ''sfx'', ''retro'', ''communication''], category = ''sound_fx'', example = ''s("gm_telephone_ring")''\<rparr>),
  (''gm_breath_noise'',
    \<lparr>description = ''Breath noise effect. Wind, breathing sound. Ambient, human, intimate.'', tags = [''breath'', ''wind'', ''noise'', ''sfx'', ''ambient'', ''human''], category = ''sound_fx'', example = ''s("gm_breath_noise")''\<rparr>)
]\<close>

text \<open>The sample banks of Dirt-Samples.\<close>

definition dirt_samples :: "(string \<times> sample_data) list" where
\<open>dirt_samples = [
  (''808'',
    \<lparr>description = ''Roland TR-808 drum machine. Classic hip-hop, electronic. Full kit - kicks, snares, hats, claps.'', tags = [''808'', ''roland'', ''drum-machine'', ''hip-hop'', ''electronic'', ''classic''], category = ''drum_machine''\<rparr>),
  (''808bd'',
    \<lparr>description = ''TR-808 bass drum, kick. Deep, boomy, iconic hip-hop kick.'', tags = [''808'', ''kick'', ''bass-drum'', ''hip-hop'', ''deep'', ''boomy''], category = ''drums''\<rparr>),
  (''808cy'',
    \<lparr>description = ''TR-808 cymbal. Metallic, splashy crash.'', tags = [''808'', ''cymbal'', ''crash'', ''metallic''], category = ''drums''\<rparr>),
  (''808hc'',
    \<lparr>description = ''TR-808 high conga. Latin percussion, electronic.'', tags = [''808'', ''conga'', ''high'', ''latin'', ''percussion''], category = ''drums''\<rparr>),
  (''808ht'',
    \<lparr>description = ''TR-808 high tom. Pitched tom sound.'', tags = [''808'', ''tom'', ''high'', ''pitched''], category = ''drums''\<rparr>),
  (''808lc'',
    \<lparr>description = ''TR-808 low conga. Deep latin percussion.'', tags = [''808'', ''conga'', ''low'', ''latin'', ''deep''], category = ''drums''\<rparr>),
  (''808lt'',
    \<lparr>description = ''TR-808 low tom. Deep pitched tom.'', tags = [''808'', ''tom'', ''low'', ''deep''], category = ''drums''\<rparr>),
  (''808mc'',
    \<lparr>description = ''TR-808 mid conga. Medium latin percussion.'', tags = [''808'', ''conga'', ''mid'', ''latin''], category = ''drums''\<rparr>),
  (''808mt'',
    \<lparr>description = ''TR-808 mid tom. Medium pitched tom.'', tags = [''808'', ''tom'', ''mid''], category = ''drums''\<rparr>),
  (''808oh'',
    \<lparr>description = ''TR-808 open hi-hat. Sizzling, sustained hat.'', tags = [''808'', ''hi-hat'', ''open'', ''sizzle''], category = ''drums''\<rparr>),
  (''808sd'',
    \<lparr>description = ''TR-808 snare drum. Crisp, snappy electronic snare.'', tags = [''808'', ''snare'', ''crisp'', ''electronic''], category = ''drums''\<rparr>),
  (''909'',
    \<lparr>description = ''Roland TR-909 drum machine. House, techno essential. Punchy kicks, crisp hats.'', tags = [''909'', ''roland'', ''drum-machine'', ''house'', ''techno'', ''punchy''], category = ''drum_machine''\<rparr>),
  (''ab'',
    \<lparr>description = ''Abstract sounds. Experimental, textural, unusual.'', tags = [''abstract'', ''experimental'', ''texture'', ''unusual''], category = ''experimental''\<rparr>),
  (''ade'',
    \<lparr>description = ''Ade sample pack. Electronic textures.'', tags = [''ade'', ''electronic'', ''texture''], category = ''electronic''\<rparr>),
  (''ades2'',
    \<lparr>description = ''Ade sample pack 2. More electronic sounds.'', tags = [''ade'', ''electronic'', ''variant''], category = ''electronic''\<rparr>),
  (''ades3'',
    \<lparr>description = ''Ade sample pack 3. Electronic continuation.'', tags = [''ade'', ''electronic'', ''variant''], category = ''electronic''\<rparr>),
  (''ades4'',
    \<lparr>description = ''Ade sample pack 4. Electronic sounds.'', tags = [''ade'', ''electronic'', ''variant''], category = ''electronic''\<rparr>),
  (''alex'',
    \<lparr>description = ''Alex sample collection. Various sounds.'', tags = [''alex'', ''collection'', ''various''], category = ''misc''\<rparr>),
  (''alphabet'',
    \<lparr>description = ''Alphabet spoken letters. A to Z voice samples.'', tags = [''alphabet'', ''letters'', ''voice'', ''speech'', ''educational''], category = ''vocal''\<rparr>),
  (''amencutup'',
    \<lparr>description = ''Amen break chopped. Classic breakbeat sliced. Jungle, drum and bass.'', tags = [''amen'', ''breakbeat'', ''chopped'', ''jungle'', ''dnb'', ''classic''], category = ''breaks''\<rparr>),
  (''armora'',
    \<lparr>description = ''Armora sounds. Metallic, armored textures.'', tags = [''armora'', ''metallic'', ''texture''], category = ''experimental''\<rparr>),
  (''arp'',
    \<lparr>description = ''Arpeggio sounds. Sequenced melodic patterns.'', tags = [''arpeggio'', ''sequence'', ''melodic'', ''pattern''], category = ''melodic''\<rparr>),
  (''arpy'',
    \<lparr>description = ''Arpy synth. Short plucky synth for arpeggios. Electronic, chiptune-ish.'', tags = [''arpeggio'', ''synth'', ''plucky'', ''electronic''], category = ''melodic''\<rparr>),
  (''auto'',
    \<lparr>description = ''Auto sounds. Automotive, mechanical.'', tags = [''auto'', ''car'', ''mechanical'', ''engine''], category = ''sfx''\<rparr>),
  (''baa'',
    \<lparr>description = ''Baa sheep sound. Animal bleat.'', tags = [''sheep'', ''animal'', ''bleat'', ''farm''], category = ''sfx''\<rparr>),
  (''baa2'',
    \<lparr>description = ''Baa sheep variant. Different sheep sounds.'', tags = [''sheep'', ''animal'', ''bleat'', ''variant''], category = ''sfx''\<rparr>),
  (''bass'',
    \<lparr>description = ''Bass samples. General bass sounds. Low frequency foundation.'', tags = [''bass'', ''low'', ''foundation''], category = ''bass''\<rparr>),
  (''bass0'',
    \<lparr>description = ''Bass variant 0. Alternative bass character.'', tags = [''bass'', ''variant'', ''low''], category = ''bass''\<rparr>),
  (''bass1'',
    \<lparr>description = ''Bass variant 1. Different bass timbre.'', tags = [''bass'', ''variant'', ''low''], category = ''bass''\<rparr>),
  (''bass2'',
    \<lparr>description = ''Bass variant 2. Another bass flavor.'', tags = [''bass'', ''variant'', ''low''], category = ''bass''\<rparr>),
  (''bass3'',
    \<lparr>description = ''Bass variant 3. Extended bass options.'', tags = [''bass'', ''variant'', ''low''], category = ''bass''\<rparr>),
  (''bassdm'',
    \<lparr>description = ''Bass drum samples. Kick drums, low percussion.'', tags = [''bass'', ''drum'', ''kick'', ''low''], category = ''drums''\<rparr>),
  (''bassfoo'',
    \<lparr>description = ''Bass foo experimental. Unusual bass sounds.'', tags = [''bass'', ''experimental'', ''unusual''], category = ''bass''\<rparr>),
  (''battles'',
    \<lparr>description = ''Battle sounds. Combat, action, warfare.'', tags = [''battle'', ''combat'', ''action'', ''warfare''], category = ''sfx''\<rparr>),
  (''bd'',
    \<lparr>description = ''Bass drum, kick drum. Electronic and acoustic kicks. Foundation of rhythm.'', tags = [''kick'', ''bass-drum'', ''drums'', ''rhythm'', ''foundation''], category = ''drums''\<rparr>),
  (''bend'',
    \<lparr>description = ''Bend sounds. Pitch bending, gliding tones.'', tags = [''bend'', ''pitch'', ''glide'', ''tone''], category = ''melodic''\<rparr>),
  (''bev'',
    \<lparr>description = ''Bev sample collection. Various sounds.'', tags = [''bev'', ''collection'', ''various''], category = ''misc''\<rparr>),
  (''bin'',
    \<lparr>description = ''Binary sounds. Digital, computer-like.'', tags = [''binary'', ''digital'', ''computer'', ''data''], category = ''electronic''\<rparr>),
  (''birds'',
    \<lparr>description = ''Bird sounds. Birdsong, nature, chirping.'', tags = [''birds'', ''nature'', ''chirp'', ''wildlife''], category = ''sfx''\<rparr>),
  (''birds3'',
    \<lparr>description = ''Birds variant 3. More bird sounds.'', tags = [''birds'', ''nature'', ''chirp'', ''variant''], category = ''sfx''\<rparr>),
  (''bleep'',
    \<lparr>description = ''Bleep sounds. Electronic beeps, UI sounds.'', tags = [''bleep'', ''beep'', ''electronic'', ''ui''], category = ''electronic''\<rparr>),
  (''blip'',
    \<lparr>description = ''Blip sounds. Short electronic beep. Glitch, UI, accent.'', tags = [''blip'', ''beep'', ''electronic'', ''glitch'', ''ui''], category = ''electronic''\<rparr>),
  (''blue'',
    \<lparr>description = ''Blue sample collection. Various sounds.'', tags = [''blue'', ''collection'', ''various''], category = ''misc''\<rparr>),
  (''bottle'',
    \<lparr>description = ''Bottle sounds. Glass, blown bottle, percussion.'', tags = [''bottle'', ''glass'', ''blown'', ''percussion''], category = ''percussion''\<rparr>),
  (''breaks125'',
    \<lparr>description = ''Breakbeat loops at 125 BPM. House tempo breaks.'', tags = [''breakbeat'', ''125bpm'', ''house'', ''loop''], category = ''breaks''\<rparr>),
  (''breaks152'',
    \<lparr>description = ''Breakbeat loops at 152 BPM. DnB tempo breaks.'', tags = [''breakbeat'', ''152bpm'', ''dnb'', ''loop''], category = ''breaks''\<rparr>),
  (''breaks157'',
    \<lparr>description = ''Breakbeat loops at 157 BPM. Fast breaks.'', tags = [''breakbeat'', ''157bpm'', ''fast'', ''loop''], category = ''breaks''\<rparr>),
  (''breaks165'',
    \<lparr>description = ''Breakbeat loops at 165 BPM. Jungle tempo.'', tags = [''breakbeat'', ''165bpm'', ''jungle'', ''loop''], category = ''breaks''\<rparr>),
  (''breath'',
    \<lparr>description = ''Breath sounds. Human breathing, wind.'', tags = [''breath'', ''human'', ''wind'', ''air''], category = ''sfx''\<rparr>),
  (''bubble'',
    \<lparr>description = ''Bubble sounds. Water bubbles, underwater.'', tags = [''bubble'', ''water'', ''underwater'', ''liquid''], category = ''sfx''\<rparr>),
  (''can'',
    \<lparr>description = ''Can sounds. Metal can, percussion.'', tags = [''can'', ''metal'', ''percussion'', ''found-sound''], category = ''percussion''\<rparr>),
  (''casio'',
    \<lparr>description = ''Casio keyboard. Lo-fi keys, toy keyboard character. Nostalgic, lo-fi.'', tags = [''casio'', ''keyboard'', ''lo-fi'', ''toy'', ''nostalgic''], category = ''melodic''\<rparr>),
  (''cb'',
    \<lparr>description = ''Cowbell. Metallic percussion. Funk, latin, electronic classic.'', tags = [''cowbell'', ''percussion'', ''metallic'', ''funk'', ''latin''], category = ''drums''\<rparr>),
  (''cc'',
    \<lparr>description = ''CC samples. Various control sounds.'', tags = [''cc'', ''control'', ''various''], category = ''misc''\<rparr>),
  (''chin'',
    \<lparr>description = ''China cymbal or chin sounds. Trashy cymbal.'', tags = [''china'', ''cymbal'', ''trashy'', ''crash''], category = ''drums''\<rparr>),
  (''circus'',
    \<lparr>description = ''Circus sounds. Carnival, whimsical, fun.'', tags = [''circus'', ''carnival'', ''whimsical'', ''fun''], category = ''sfx''\<rparr>),
  (''clak'',
    \<lparr>description = ''Clak percussion. Click, clack sounds.'', tags = [''clak'', ''click'', ''clack'', ''percussion''], category = ''percussion''\<rparr>),
  (''click'',
    \<lparr>description = ''Click sounds. Digital clicks, percussion.'', tags = [''click'', ''digital'', ''percussion'', ''ui''], category = ''percussion''\<rparr>),
  (''clubkick'',
    \<lparr>description = ''Club kick drums. Big room, EDM kicks.'', tags = [''kick'', ''club'', ''edm'', ''big-room''], category = ''drums''\<rparr>),
  (''co'',
    \<lparr>description = ''Co sample collection. Various sounds.'', tags = [''co'', ''collection'', ''various''], category = ''misc''\<rparr>),
  (''coins'',
    \<lparr>description = ''Coin sounds. Money, jingling, arcade.'', tags = [''coins'', ''money'', ''jingle'', ''arcade''], category = ''sfx''\<rparr>),
  (''control'',
    \<lparr>description = ''Control sounds. Buttons, switches, UI.'', tags = [''control'', ''button'', ''switch'', ''ui''], category = ''sfx''\<rparr>),
  (''cosmicg'',
    \<lparr>description = ''Cosmic G sounds. Space, sci-fi textures.'', tags = [''cosmic'', ''space'', ''sci-fi'', ''texture''], category = ''electronic''\<rparr>),
  (''cp'',
    \<lparr>description = ''Clap, hand clap. Snappy, layered clap sound. Electronic music staple.'', tags = [''clap'', ''handclap'', ''drums'', ''snappy''], category = ''drums''\<rparr>),
  (''cr'',
    \<lparr>description = ''Crash cymbal. Explosive cymbal hit. Accents, transitions.'', tags = [''crash'', ''cymbal'', ''drums'', ''accent'', ''transition''], category = ''drums''\<rparr>),
  (''crow'',
    \<lparr>description = ''Crow sounds. Bird caw, nature.'', tags = [''crow'', ''bird'', ''caw'', ''nature''], category = ''sfx''\<rparr>),
  (''d'',
    \<lparr>description = ''D sample collection. Various drum sounds.'', tags = [''d'', ''drums'', ''collection''], category = ''drums''\<rparr>),
  (''db'',
    \<lparr>description = ''DB samples. Database or deep bass.'', tags = [''db'', ''deep'', ''bass''], category = ''bass''\<rparr>),
  (''diphone'',
    \<lparr>description = ''Diphone speech synthesis. Robotic voice.'', tags = [''diphone'', ''speech'', ''synthesis'', ''robotic''], category = ''vocal''\<rparr>),
  (''diphone2'',
    \<lparr>description = ''Diphone variant 2. More speech synthesis.'', tags = [''diphone'', ''speech'', ''synthesis'', ''variant''], category = ''vocal''\<rparr>),
  (''dist'',
    \<lparr>description = ''Distorted sounds. Heavy distortion, aggressive.'', tags = [''distortion'', ''heavy'', ''aggressive'', ''noise''], category = ''electronic''\<rparr>),
  (''dork2'',
    \<lparr>description = ''Dork sounds 2. Quirky, unusual.'', tags = [''dork'', ''quirky'', ''unusual'', ''fun''], category = ''experimental''\<rparr>),
  (''dorkbot'',
    \<lparr>description = ''Dorkbot sounds. Electronic, robotic.'', tags = [''dorkbot'', ''electronic'', ''robotic''], category = ''electronic''\<rparr>),
  (''dr'',
    \<lparr>description = ''DR drum samples. Various drums.'', tags = [''dr'', ''drums'', ''various''], category = ''drums''\<rparr>),
  (''dr2'',
    \<lparr>description = ''DR drums variant 2.'', tags = [''dr'', ''drums'', ''variant''], category = ''drums''\<rparr>),
  (''dr55'',
    \<lparr>description = ''DR-55 drum machine. Boss Doctor Rhythm.'', tags = [''dr55'', ''boss'', ''drum-machine'', ''vintage''], category = ''drum_machine''\<rparr>),
  (''dr_few'',
    \<lparr>description = ''DR few selected drums.'', tags = [''dr'', ''drums'', ''selected''], category = ''drums''\<rparr>),
  (''drum'',
    \<lparr>description = ''General drum samples. Various drum hits.'', tags = [''drum'', ''hits'', ''various''], category = ''drums''\<rparr>),
  (''drumtraks'',
    \<lparr>description = ''Sequential DrumTraks samples. Vintage drum machine.'', tags = [''drumtraks'', ''sequential'', ''drum-machine'', ''vintage''], category = ''drum_machine''\<rparr>),
  (''e'',
    \<lparr>description = ''E sample collection. Electronic sounds.'', tags = [''e'', ''electronic'', ''collection''], category = ''electronic''\<rparr>),
  (''east'',
    \<lparr>description = ''East sounds. Eastern, Asian influenced.'', tags = [''east'', ''asian'', ''eastern'', ''world''], category = ''world''\<rparr>),
  (''electro1'',
    \<lparr>description = ''Electro sounds 1. Electronic, 80s electro.'', tags = [''electro'', ''80s'', ''electronic'', ''breakdance''], category = ''electronic''\<rparr>),
  (''em2'',
    \<lparr>description = ''EM2 samples. Electronic music.'', tags = [''em2'', ''electronic'', ''music''], category = ''electronic''\<rparr>),
  (''erk'',
    \<lparr>description = ''Erk sounds. Unusual, experimental.'', tags = [''erk'', ''unusual'', ''experimental''], category = ''experimental''\<rparr>),
  (''f'',
    \<lparr>description = ''F sample collection. Various sounds.'', tags = [''f'', ''collection'', ''various''], category = ''misc''\<rparr>),
  (''feel'',
    \<lparr>description = ''Feel samples. Textural, emotional.'', tags = [''feel'', ''texture'', ''emotional''], category = ''experimental''\<rparr>),
  (''feelfx'',
    \<lparr>description = ''Feel effects. Atmospheric, textural FX.'', tags = [''feel'', ''fx'', ''atmospheric'', ''texture''], category = ''sfx''\<rparr>),
  (''fest'',
    \<lparr>description = ''Festival sounds. Crowd, celebration.'', tags = [''festival'', ''crowd'', ''celebration''], category = ''sfx''\<rparr>),
  (''fire'',
    \<lparr>description = ''Fire sounds. Flames, crackling.'', tags = [''fire'', ''flames'', ''crackling'', ''nature''], category = ''sfx''\<rparr>),
  (''flick'',
    \<lparr>description = ''Flick sounds. Quick, snappy.'', tags = [''flick'', ''quick'', ''snappy''], category = ''percussion''\<rparr>),
  (''fm'',
    \<lparr>description = ''FM synthesis sounds. Digital, bell-like, metallic.'', tags = [''fm'', ''synthesis'', ''digital'', ''bell'', ''metallic''], category = ''melodic''\<rparr>),
  (''foo'',
    \<lparr>description = ''Foo samples. Various experimental sounds.'', tags = [''foo'', ''experimental'', ''various''], category = ''experimental''\<rparr>),
  (''future'',
    \<lparr>description = ''Future sounds. Futuristic, sci-fi.'', tags = [''future'', ''futuristic'', ''sci-fi''], category = ''electronic''\<rparr>),
  (''gab'',
    \<lparr>description = ''Gabber sounds. Hardcore, distorted.'', tags = [''gabber'', ''hardcore'', ''distorted'', ''fast''], category = ''electronic''\<rparr>),
  (''gabba'',
    \<lparr>description = ''Gabba kicks. Hardcore techno kicks.'', tags = [''gabba'', ''hardcore'', ''kick'', ''distorted''], category = ''drums''\<rparr>),
  (''gabbaloud'',
    \<lparr>description = ''Gabba loud. Louder hardcore kicks.'', tags = [''gabba'', ''hardcore'', ''loud'', ''kick''], category = ''drums''\<rparr>),
  (''gabbalouder'',
    \<lparr>description = ''Gabba even louder. Maximum hardcore.'', tags = [''gabba'', ''hardcore'', ''loudest'', ''extreme''], category = ''drums''\<rparr>),
  (''glasstap'',
    \<lparr>description = ''Glass tap sounds. Delicate, percussive.'', tags = [''glass'', ''tap'', ''delicate'', ''percussion''], category = ''percussion''\<rparr>),
  (''glitch'',
    \<lparr>description = ''Glitch sounds. Digital artifacts, errors. Experimental, IDM.'', tags = [''glitch'', ''digital'', ''error'', ''idm'', ''experimental''], category = ''electronic''\<rparr>),
  (''glitch2'',
    \<lparr>description = ''Glitch variant 2. More digital artifacts.'', tags = [''glitch'', ''digital'', ''variant''], category = ''electronic''\<rparr>),
  (''gretsch'',
    \<lparr>description = ''Gretsch drum kit. Acoustic drum samples.'', tags = [''gretsch'', ''acoustic'', ''drum-kit''], category = ''drums''\<rparr>),
  (''gtr'',
    \<lparr>description = ''Electric guitar samples. Short stabs, limited. Guitar character.'', tags = [''guitar'', ''electric'', ''stabs''], category = ''guitar''\<rparr>),
  (''h'',
    \<lparr>description = ''H sample collection. Various sounds.'', tags = [''h'', ''collection'', ''various''], category = ''misc''\<rparr>),
  (''hand'',
    \<lparr>description = ''Hand sounds. Claps, snaps, body percussion.'', tags = [''hand'', ''clap'', ''snap'', ''body-percussion''], category = ''percussion''\<rparr>),
  (''hardcore'',
    \<lparr>description = ''Hardcore sounds. Intense, aggressive.'', tags = [''hardcore'', ''intense'', ''aggressive''], category = ''electronic''\<rparr>),
  (''hardkick'',
    \<lparr>description = ''Hard kick drums. Punchy, powerful kicks.'', tags = [''kick'', ''hard'', ''punchy'', ''powerful''], category = ''drums''\<rparr>),
  (''haw'',
    \<lparr>description = ''Haw sounds. Various samples.'', tags = [''haw'', ''various''], category = ''misc''\<rparr>),
  (''hc'',
    \<lparr>description = ''Hardcore sounds or high conga.'', tags = [''hc'', ''hardcore'', ''conga''], category = ''drums''\<rparr>),
  (''hh'',
    \<lparr>description = ''Hi-hat, closed hi-hat. Tight, crisp high-frequency rhythm.'', tags = [''hi-hat'', ''hihat'', ''drums'', ''crisp''], category = ''drums''\<rparr>),
  (''hh27'',
    \<lparr>description = ''Hi-hat collection 27. Multiple hi-hat sounds.'', tags = [''hi-hat'', ''collection'', ''variety''], category = ''drums''\<rparr>),
  (''hit'',
    \<lparr>description = ''Hit sounds. Impact, stabs.'', tags = [''hit'', ''impact'', ''stab''], category = ''sfx''\<rparr>),
  (''hmm'',
    \<lparr>description = ''Hmm vocal sounds. Thinking, contemplation.'', tags = [''hmm'', ''vocal'', ''thinking''], category = ''vocal''\<rparr>),
  (''ho'',
    \<lparr>description = ''Ho sounds. Vocal exclamations.'', tags = [''ho'', ''vocal'', ''exclamation''], category = ''vocal''\<rparr>),
  (''hoover'',
    \<lparr>description = ''Hoover bass. Classic rave sound, mentasm.'', tags = [''hoover'', ''rave'', ''mentasm'', ''bass''], category = ''bass''\<rparr>),
  (''house'',
    \<lparr>description = ''House music samples. 4/4 beats, grooves.'', tags = [''house'', ''4/4'', ''groove'', ''electronic''], category = ''electronic''\<rparr>),
  (''ht'',
    \<lparr>description = ''High tom drum. High pitched tom. Fills, rolls.'', tags = [''tom'', ''high'', ''fills''], category = ''drums''\<rparr>),
  (''if'',
    \<lparr>description = ''IF samples. Conditional, experimental.'', tags = [''if'', ''experimental''], category = ''experimental''\<rparr>),
  (''ifdrums'',
    \<lparr>description = ''IF drums. Experimental drum sounds.'', tags = [''if'', ''drums'', ''experimental''], category = ''drums''\<rparr>),
  (''incoming'',
    \<lparr>description = ''Incoming sounds. Approaching, building.'', tags = [''incoming'', ''approach'', ''build''], category = ''sfx''\<rparr>),
  (''industrial'',
    \<lparr>description = ''Industrial sounds. Factory, mechanical, harsh.'', tags = [''industrial'', ''factory'', ''mechanical'', ''harsh''], category = ''electronic''\<rparr>),
  (''insect'',
    \<lparr>description = ''Insect sounds. Bugs, buzzing, nature.'', tags = [''insect'', ''bugs'', ''buzzing'', ''nature''], category = ''sfx''\<rparr>),
  (''invaders'',
    \<lparr>description = ''Space invaders sounds. Retro arcade, 8-bit.'', tags = [''invaders'', ''arcade'', ''8-bit'', ''retro'', ''game''], category = ''electronic''\<rparr>),
  (''jazz'',
    \<lparr>description = ''Jazz samples. Jazz drum kit, brushes.'', tags = [''jazz'', ''brushes'', ''acoustic'', ''swing''], category = ''drums''\<rparr>),
  (''jungbass'',
    \<lparr>description = ''Jungle bass. Sub-heavy bass for drum and bass, jungle. Deep, rolling.'', tags = [''jungle'', ''bass'', ''dnb'', ''sub'', ''deep''], category = ''bass''\<rparr>),
  (''jungle'',
    \<lparr>description = ''Jungle samples. Breakbeat, DnB drums.'', tags = [''jungle'', ''breakbeat'', ''dnb'', ''drums''], category = ''breaks''\<rparr>),
  (''juno'',
    \<lparr>description = ''Juno synth. Roland Juno character. Warm, analog, classic.'', tags = [''juno'', ''roland'', ''synth'', ''analog'', ''warm''], category = ''melodic''\<rparr>),
  (''jvbass'',
    \<lparr>description = ''JV bass. Roland JV synth bass. Punchy, electronic.'', tags = [''jv'', ''roland'', ''bass'', ''synth'', ''punchy''], category = ''bass''\<rparr>),
  (''kicklinn'',
    \<lparr>description = ''Linn kick drums. LinnDrum kicks.'', tags = [''linn'', ''kick'', ''drum-machine'', ''80s''], category = ''drums''\<rparr>),
  (''koy'',
    \<lparr>description = ''Koy samples. Various sounds.'', tags = [''koy'', ''various''], category = ''misc''\<rparr>),
  (''kurt'',
    \<lparr>description = ''Kurt samples. Various sounds.'', tags = [''kurt'', ''various''], category = ''misc''\<rparr>),
  (''latibro'',
    \<lparr>description = ''Latin brother samples. Latin percussion.'', tags = [''latin'', ''percussion'', ''brother''], category = ''percussion''\<rparr>),
  (''led'',
    \<lparr>description = ''LED sounds. Electronic, digital.'', tags = [''led'', ''electronic'', ''digital''], category = ''electronic''\<rparr>),
  (''less'',
    \<lparr>description = ''Less samples. Minimal sounds.'', tags = [''less'', ''minimal''], category = ''minimal''\<rparr>),
  (''lighter'',
    \<lparr>description = ''Lighter sounds. Click, flame.'', tags = [''lighter'', ''click'', ''flame''], category = ''sfx''\<rparr>),
  (''linnhats'',
    \<lparr>description = ''LinnDrum hi-hats. Classic 80s hats.'', tags = [''linn'', ''hi-hat'', ''80s'', ''drum-machine''], category = ''drums''\<rparr>),
  (''lt'',
    \<lparr>description = ''Low tom drum. Deep tom hit. Fills, tribal, floor tom.'', tags = [''tom'', ''low'', ''deep'', ''tribal''], category = ''drums''\<rparr>),
  (''made'',
    \<lparr>description = ''Made samples. Various processed sounds.'', tags = [''made'', ''processed'', ''various''], category = ''misc''\<rparr>),
  (''made2'',
    \<lparr>description = ''Made samples variant 2.'', tags = [''made'', ''variant''], category = ''misc''\<rparr>),
  (''mash'',
    \<lparr>description = ''Mash samples. Mashup, mixed sounds.'', tags = [''mash'', ''mashup'', ''mixed''], category = ''electronic''\<rparr>),
  (''mash2'',
    \<lparr>description = ''Mash samples variant 2.'', tags = [''mash'', ''variant''], category = ''electronic''\<rparr>),
  (''metal'',
    \<lparr>description = ''Metal sounds. Heavy, metallic, industrial.'', tags = [''metal'', ''heavy'', ''metallic'', ''industrial''], category = ''electronic''\<rparr>),
  (''miniyeah'',
    \<lparr>description = ''Mini yeah vocal. Short vocal sample.'', tags = [''yeah'', ''vocal'', ''short''], category = ''vocal''\<rparr>),
  (''monsterb'',
    \<lparr>description = ''Monster bass. Heavy, aggressive bass.'', tags = [''monster'', ''bass'', ''heavy'', ''aggressive''], category = ''bass''\<rparr>),
  (''moog'',
    \<lparr>description = ''Moog synth. Moog synthesizer sounds. Fat, analog, bass-capable.'', tags = [''moog'', ''synth'', ''analog'', ''fat''], category = ''melodic''\<rparr>),
  (''mouth'',
    \<lparr>description = ''Mouth sounds. Human mouth percussion. Beatbox-like.'', tags = [''mouth'', ''beatbox'', ''percussion'', ''human''], category = ''vocal''\<rparr>),
  (''mp3'',
    \<lparr>description = ''MP3 artifacts. Compressed audio sounds.'', tags = [''mp3'', ''compressed'', ''artifact'', ''digital''], category = ''electronic''\<rparr>),
  (''msg'',
    \<lparr>description = ''Message sounds. Communication, notification.'', tags = [''message'', ''notification'', ''communication''], category = ''sfx''\<rparr>),
  (''mt'',
    \<lparr>description = ''Mid tom drum. Medium pitched tom. Fills.'', tags = [''tom'', ''mid'', ''fills''], category = ''drums''\<rparr>),
  (''mute'',
    \<lparr>description = ''Muted sounds. Dampened, quiet.'', tags = [''mute'', ''dampened'', ''quiet''], category = ''misc''\<rparr>),
  (''newnotes'',
    \<lparr>description = ''New notes. Fresh melodic content.'', tags = [''notes'', ''melodic'', ''new''], category = ''melodic''\<rparr>),
  (''noise'',
    \<lparr>description = ''Noise samples. White noise, static. Texture, fills, risers.'', tags = [''noise'', ''white-noise'', ''static'', ''texture''], category = ''electronic''\<rparr>),
  (''noise2'',
    \<lparr>description = ''Noise variant 2. More noise textures.'', tags = [''noise'', ''variant'', ''texture''], category = ''electronic''\<rparr>),
  (''notes'',
    \<lparr>description = ''Notes samples. Melodic sounds.'', tags = [''notes'', ''melodic''], category = ''melodic''\<rparr>),
  (''num'',
    \<lparr>description = ''Number sounds. Numeric, counting audio.'', tags = [''num'', ''number'', ''count'', ''digits''], category = ''vocal''\<rparr>),
  (''numbers'',
    \<lparr>description = ''Number spoken samples. Count, digits.'', tags = [''numbers'', ''count'', ''digits'', ''speech''], category = ''vocal''\<rparr>),
  (''oc'',
    \<lparr>description = ''OC samples. Various sounds.'', tags = [''oc'', ''various''], category = ''misc''\<rparr>),
  (''odx'',
    \<lparr>description = ''ODX samples. Electronic sounds.'', tags = [''odx'', ''electronic''], category = ''electronic''\<rparr>),
  (''off'',
    \<lparr>description = ''Off sounds. Switch off, ending.'', tags = [''off'', ''switch'', ''ending''], category = ''sfx''\<rparr>),
  (''outdoor'',
    \<lparr>description = ''Outdoor sounds. Nature, ambient.'', tags = [''outdoor'', ''nature'', ''ambient''], category = ''sfx''\<rparr>),
  (''pad'',
    \<lparr>description = ''Synth pad. Sustained atmospheric sound. Chords, ambient, background.'', tags = [''pad'', ''synth'', ''ambient'', ''atmospheric''], category = ''pads''\<rparr>),
  (''padlong'',
    \<lparr>description = ''Long pad. Extended sustain pad. Drones, ambient, evolving.'', tags = [''pad'', ''long'', ''drone'', ''ambient''], category = ''pads''\<rparr>),
  (''pebbles'',
    \<lparr>description = ''Pebble sounds. Stones, gravel.'', tags = [''pebbles'', ''stones'', ''gravel''], category = ''sfx''\<rparr>),
  (''perc'',
    \<lparr>description = ''General percussion. Various percussion hits. Fills, accents.'', tags = [''percussion'', ''hits'', ''fills''], category = ''percussion''\<rparr>),
  (''peri'',
    \<lparr>description = ''Peri samples. Peripheral sounds.'', tags = [''peri'', ''peripheral''], category = ''misc''\<rparr>),
  (''pluck'',
    \<lparr>description = ''Plucked string. Generic pluck sound. Melodic, pizzicato-like.'', tags = [''pluck'', ''string'', ''melodic''], category = ''melodic''\<rparr>),
  (''popkick'',
    \<lparr>description = ''Pop kick drums. Modern pop kicks.'', tags = [''kick'', ''pop'', ''modern''], category = ''drums''\<rparr>),
  (''print'',
    \<lparr>description = ''Print sounds. Printer, mechanical.'', tags = [''print'', ''printer'', ''mechanical''], category = ''sfx''\<rparr>),
  (''proc'',
    \<lparr>description = ''Processed sounds. Manipulated audio.'', tags = [''processed'', ''manipulated''], category = ''electronic''\<rparr>),
  (''procshort'',
    \<lparr>description = ''Short processed sounds.'', tags = [''processed'', ''short''], category = ''electronic''\<rparr>),
  (''psr'',
    \<lparr>description = ''PSR keyboard sounds. Yamaha PSR.'', tags = [''psr'', ''yamaha'', ''keyboard''], category = ''melodic''\<rparr>),
  (''rave'',
    \<lparr>description = ''Rave sounds. 90s rave, stabs, hits.'', tags = [''rave'', ''90s'', ''stabs'', ''rave-culture''], category = ''electronic''\<rparr>),
  (''rave2'',
    \<lparr>description = ''Rave sounds variant 2. More rave content.'', tags = [''rave'', ''variant''], category = ''electronic''\<rparr>),
  (''ravemono'',
    \<lparr>description = ''Rave mono sounds. Monophonic rave.'', tags = [''rave'', ''mono''], category = ''electronic''\<rparr>),
  (''realclaps'',
    \<lparr>description = ''Real claps. Acoustic hand claps.'', tags = [''clap'', ''real'', ''acoustic''], category = ''drums''\<rparr>),
  (''reverbkick'',
    \<lparr>description = ''Reverb kick. Kicks with reverb tail.'', tags = [''kick'', ''reverb'', ''tail''], category = ''drums''\<rparr>),
  (''rm'',
    \<lparr>description = ''RM samples. Ring modulation sounds.'', tags = [''rm'', ''ring-modulation''], category = ''electronic''\<rparr>),
  (''rs'',
    \<lparr>description = ''Rimshot samples. Sharp rim hits.'', tags = [''rimshot'', ''rim'', ''sharp''], category = ''drums''\<rparr>),
  (''sax'',
    \<lparr>description = ''Saxophone samples. Jazz, R&B sax.'', tags = [''saxophone'', ''sax'', ''jazz'', ''r&b''], category = ''melodic''\<rparr>),
  (''sd'',
    \<lparr>description = ''Snare drum. Sharp, cracking backbeat. Essential drum sound.'', tags = [''snare'', ''drums'', ''backbeat''], category = ''drums''\<rparr>),
  (''seawolf'',
    \<lparr>description = ''Sea wolf sounds. Ocean, nautical.'', tags = [''sea'', ''wolf'', ''ocean'', ''nautical''], category = ''sfx''\<rparr>),
  (''sequential'',
    \<lparr>description = ''Sequential sounds. Ordered, sequenced.'', tags = [''sequential'', ''ordered'', ''sequence''], category = ''electronic''\<rparr>),
  (''sf'',
    \<lparr>description = ''SF sounds. Science fiction.'', tags = [''sf'', ''sci-fi'', ''science-fiction''], category = ''sfx''\<rparr>),
  (''sheffield'',
    \<lparr>description = ''Sheffield sounds. UK electronic.'', tags = [''sheffield'', ''uk'', ''electronic''], category = ''electronic''\<rparr>),
  (''short'',
    \<lparr>description = ''Short sounds. Brief, staccato.'', tags = [''short'', ''brief'', ''staccato''], category = ''misc''\<rparr>),
  (''sid'',
    \<lparr>description = ''SID chip sounds. C64, 8-bit.'', tags = [''sid'', ''c64'', ''8-bit'', ''chiptune''], category = ''electronic''\<rparr>),
  (''simplesine'',
    \<lparr>description = ''Simple sine wave. Pure, clean sine tone. Fundamental, sub bass, test tone.'', tags = [''sine'', ''simple'', ''pure'', ''test-tone'', ''sub''], category = ''melodic''\<rparr>),
  (''sine'',
    \<lparr>description = ''Sine wave samples. Pure tone.'', tags = [''sine'', ''pure'', ''tone''], category = ''melodic''\<rparr>),
  (''sitar'',
    \<lparr>description = ''Sitar samples. Indian string instrument. World, psychedelic.'', tags = [''sitar'', ''indian'', ''world''], category = ''world''\<rparr>),
  (''sn'',
    \<lparr>description = ''Snare drum alternate. Different snare character.'', tags = [''snare'', ''alternate''], category = ''drums''\<rparr>),
  (''space'',
    \<lparr>description = ''Space sounds. Cosmic, sci-fi.'', tags = [''space'', ''cosmic'', ''sci-fi''], category = ''sfx''\<rparr>),
  (''speakspell'',
    \<lparr>description = ''Speak and spell sounds. Retro toy.'', tags = [''speak-spell'', ''retro'', ''toy''], category = ''vocal''\<rparr>),
  (''speech'',
    \<lparr>description = ''Speech samples. Spoken word.'', tags = [''speech'', ''spoken'', ''word''], category = ''vocal''\<rparr>),
  (''speechless'',
    \<lparr>description = ''Speechless sounds. Non-verbal.'', tags = [''speechless'', ''non-verbal''], category = ''vocal''\<rparr>),
  (''speedupdown'',
    \<lparr>description = ''Speed up/down sounds. Tempo effects.'', tags = [''speed'', ''tempo'', ''effect''], category = ''sfx''\<rparr>),
  (''stab'',
    \<lparr>description = ''Synth stab. Short chord hit. House, disco, rhythmic chords.'', tags = [''stab'', ''chord'', ''house''], category = ''melodic''\<rparr>),
  (''stomp'',
    \<lparr>description = ''Stomp sounds. Foot stomps, body percussion.'', tags = [''stomp'', ''foot'', ''body-percussion''], category = ''percussion''\<rparr>),
  (''subroc3d'',
    \<lparr>description = ''Sub Roc 3D game sounds. Retro arcade.'', tags = [''subroc'', ''arcade'', ''retro'', ''game''], category = ''electronic''\<rparr>),
  (''sugar'',
    \<lparr>description = ''Sugar samples. Sweet, pleasant sounds.'', tags = [''sugar'', ''sweet'', ''pleasant''], category = ''misc''\<rparr>),
  (''sundance'',
    \<lparr>description = ''Sundance samples. Festival, outdoor.'', tags = [''sundance'', ''festival''], category = ''misc''\<rparr>),
  (''tabla'',
    \<lparr>description = ''Tabla drums. Indian classical percussion. Intricate, melodic drums.'', tags = [''tabla'', ''indian'', ''percussion''], category = ''world''\<rparr>),
  (''tabla2'',
    \<lparr>description = ''Tabla drums variant. More tabla sounds.'', tags = [''tabla'', ''indian'', ''variant''], category = ''world''\<rparr>),
  (''tablex'',
    \<lparr>description = ''Tabla extended. More tabla samples.'', tags = [''tabla'', ''extended''], category = ''world''\<rparr>),
  (''tacscan'',
    \<lparr>description = ''Tac Scan game sounds. Retro arcade.'', tags = [''tacscan'', ''arcade'', ''retro''], category = ''electronic''\<rparr>),
  (''tech'',
    \<lparr>description = ''Tech sounds. Technical, electronic.'', tags = [''tech'', ''technical'', ''electronic''], category = ''electronic''\<rparr>),
  (''techno'',
    \<lparr>description = ''Techno samples. Techno drums, sounds.'', tags = [''techno'', ''drums'', ''electronic''], category = ''electronic''\<rparr>),
  (''tink'',
    \<lparr>description = ''Tink sounds. Small metallic hits.'', tags = [''tink'', ''metallic'', ''small''], category = ''percussion''\<rparr>),
  (''tok'',
    \<lparr>description = ''Tok sounds. Click, tock.'', tags = [''tok'', ''click'', ''tock''], category = ''percussion''\<rparr>),
  (''toys'',
    \<lparr>description = ''Toy sounds. Playful, childlike.'', tags = [''toys'', ''playful'', ''childlike''], category = ''sfx''\<rparr>),
  (''trump'',
    \<lparr>description = ''Trump sounds. Trumpet-like.'', tags = [''trump'', ''trumpet-like''], category = ''melodic''\<rparr>),
  (''ul'',
    \<lparr>description = ''UL samples. Various sounds.'', tags = [''ul'', ''various''], category = ''misc''\<rparr>),
  (''ulgab'',
    \<lparr>description = ''UL gabber sounds. Hardcore.'', tags = [''ul'', ''gabber'', ''hardcore''], category = ''electronic''\<rparr>),
  (''uxay'',
    \<lparr>description = ''Uxay samples. Experimental.'', tags = [''uxay'', ''experimental''], category = ''experimental''\<rparr>),
  (''v'',
    \<lparr>description = ''V sample collection. Various sounds.'', tags = [''v'', ''collection''], category = ''misc''\<rparr>),
  (''voodoo'',
    \<lparr>description = ''Voodoo sounds. Dark, mystical.'', tags = [''voodoo'', ''dark'', ''mystical''], category = ''sfx''\<rparr>),
  (''wind'',
    \<lparr>description = ''Wind sounds. Atmospheric, nature.'', tags = [''wind'', ''atmospheric'', ''nature''], category = ''sfx''\<rparr>),
  (''wobble'',
    \<lparr>description = ''Wobble bass. Dubstep wobble sound.'', tags = [''wobble'', ''dubstep'', ''bass''], category = ''bass''\<rparr>),
  (''world'',
    \<lparr>description = ''World music samples. Global, ethnic.'', tags = [''world'', ''global'', ''ethnic''], category = ''world''\<rparr>),
  (''xmas'',
    \<lparr>description = ''Christmas sounds. Holiday, festive.'', tags = [''christmas'', ''holiday'', ''festive''], category = ''sfx''\<rparr>),
  (''yeah'',
    \<lparr>description = ''Yeah vocal samples. Exclamation, hype.'', tags = [''yeah'', ''vocal'', ''exclamation'', ''hype''], category = ''vocal''\<rparr>)
]\<close>

text \<open>The built-in synth oscillators.\<close>

definition builtin_synths :: "(string \<times> synth_data) list" where
\<open>builtin_synths = [
  (''sine'',
    \<lparr>description = ''Sine wave oscillator. Pure, smooth, fundamental tone. Sub bass, pure tones, gentle.'', tags = [''sine'', ''oscillator'', ''pure'', ''smooth'', ''sub'', ''gentle'', ''fundamental''], category = ''oscillator'', example = ''note("c4 e4 g4").s("sine")''\<rparr>),
  (''saw'',
    \<lparr>description = ''Sawtooth wave oscillator. Bright, buzzy, rich harmonics. Classic synth lead, bass.'', tags = [''sawtooth'', ''saw'', ''oscillator'', ''bright'', ''buzzy'', ''harmonics'', ''lead''], category = ''oscillator'', example = ''note("c4 e4 g4").s("saw")''\<rparr>),
  (''sawtooth'',
    \<lparr>description = ''Sawtooth wave oscillator. Alias for saw. Bright, buzzy, rich in harmonics.'', tags = [''sawtooth'', ''saw'', ''oscillator'', ''bright'', ''buzzy'', ''harmonics''], category = ''oscillator'', example = ''note("c4 e4 g4").s("sawtooth")''\<rparr>),
  (''square'',
    \<lparr>description = ''Square wave oscillator. Hollow, woody, retro. Chiptune, 8-bit, video game.'', tags = [''square'', ''oscillator'', ''hollow'', ''woody'', ''retro'', ''chiptune'', ''8-bit''], category = ''oscillator'', example = ''note("c4 e4 g4").s("square")''\<rparr>),
  (''triangle'',
    \<lparr>description = ''Triangle wave oscillator. Soft, mellow, between sine and square. Gentle leads.'', tags = [''triangle'', ''oscillator'', ''soft'', ''mellow'', ''gentle''], category = ''oscillator'', example = ''note("c4 e4 g4").s("triangle")''\<rparr>),
  (''tri'',
    \<lparr>description = ''Triangle wave oscillator. Alias for triangle. Soft, mellow tone.'', tags = [''triangle'', ''tri'', ''oscillator'', ''soft'', ''mellow''], category = ''oscillator'', example = ''note("c4 e4 g4").s("tri")''\<rparr>)
]\<close>

text \<open>The drum machines, used through the bank function; their entries have no category.\<close>

definition drum_machines :: "(string \<times> machine_data) list" where
\<open>drum_machines = [
  (''AJKPercusyn'',
    \<lparr>description = ''AJK Percusyn drum synth. Analog percussion synthesizer. Unique electronic drums.'', tags = [''percusyn'', ''analog'', ''synth-drums'', ''electronic'']\<rparr>),
  (''AkaiLinn'',
    \<lparr>description = ''Akai Linn MPC hybrid. Combines Akai sampling with Linn character. Hip-hop, R&B.'', tags = [''akai'', ''linn'', ''mpc'', ''hip-hop'', ''r&b'', ''sampling'']\<rparr>),
  (''AkaiMPC60'',
    \<lparr>description = ''Akai MPC60 drum machine. Classic hip-hop sampler. Boom bap, golden era.'', tags = [''akai'', ''mpc60'', ''hip-hop'', ''boom-bap'', ''sampler'', ''classic'']\<rparr>),
  (''AkaiXR10'',
    \<lparr>description = ''Akai XR10 drum machine. 90s Akai drums. Punchy electronic kit.'', tags = [''akai'', ''xr10'', ''90s'', ''electronic'', ''punchy'']\<rparr>),
  (''AlesisHR16'',
    \<lparr>description = ''Alesis HR-16 drum machine. 80s/90s digital drums. Clean, punchy hits.'', tags = [''alesis'', ''hr16'', ''digital'', ''80s'', ''90s'', ''punchy'']\<rparr>),
  (''AlesisSR16'',
    \<lparr>description = ''Alesis SR-16 drum machine. Popular 90s drums. Versatile, studio standard.'', tags = [''alesis'', ''sr16'', ''90s'', ''studio'', ''versatile'']\<rparr>),
  (''BossDR110'',
    \<lparr>description = ''Boss DR-110 Dr. Rhythm. Compact analog drums. Lo-fi, characterful.'', tags = [''boss'', ''dr110'', ''analog'', ''lo-fi'', ''compact'']\<rparr>),
  (''BossDR220'',
    \<lparr>description = ''Boss DR-220 Dr. Rhythm. 80s digital drums. Clean, versatile.'', tags = [''boss'', ''dr220'', ''digital'', ''80s'', ''clean'']\<rparr>),
  (''BossDR55'',
    \<lparr>description = ''Boss DR-55 Dr. Rhythm. Early analog drum machine. Simple, punchy, classic.'', tags = [''boss'', ''dr55'', ''analog'', ''classic'', ''simple'']\<rparr>),
  (''BossDR550'',
    \<lparr>description = ''Boss DR-550 Dr. Rhythm. 90s digital drums. Wide sound selection.'', tags = [''boss'', ''dr550'', ''digital'', ''90s'', ''versatile'']\<rparr>),
  (''BossDR660'',
    \<lparr>description = ''Boss DR-660 Dr. Rhythm. Advanced 90s drums. High-quality samples.'', tags = [''boss'', ''dr660'', ''digital'', ''90s'', ''high-quality'']\<rparr>),
  (''CasioRZ1'',
    \<lparr>description = ''Casio RZ-1 sampling drum machine. 80s sampler with built-in sounds. Quirky, nostalgic.'', tags = [''casio'', ''rz1'', ''sampler'', ''80s'', ''quirky'']\<rparr>),
  (''CasioSK1'',
    \<lparr>description = ''Casio SK-1 sampling keyboard drums. Lo-fi, toy-like. Charming, nostalgic.'', tags = [''casio'', ''sk1'', ''lo-fi'', ''toy'', ''nostalgic'']\<rparr>),
  (''CasioVL1'',
    \<lparr>description = ''Casio VL-1 VL-Tone drums. Iconic toy calculator synth drums. 8-bit, retro.'', tags = [''casio'', ''vl1'', ''toy'', ''8-bit'', ''retro'', ''calculator'']\<rparr>),
  (''DoepferMS404'',
    \<lparr>description = ''Doepfer MS-404 modular drums. Analog modular synth drums. Experimental, raw.'', tags = [''doepfer'', ''ms404'', ''modular'', ''analog'', ''experimental'']\<rparr>),
  (''EmuDrumulator'',
    \<lparr>description = ''E-mu Drumulator. Classic 80s digital drums. Electro, hip-hop essential.'', tags = [''emu'', ''drumulator'', ''80s'', ''electro'', ''hip-hop'', ''digital'']\<rparr>),
  (''EmuModular'',
    \<lparr>description = ''E-mu Modular drum sounds. Modular synth drums. Experimental, unique.'', tags = [''emu'', ''modular'', ''synth'', ''experimental'', ''unique'']\<rparr>),
  (''EmuSP12'',
    \<lparr>description = ''E-mu SP-12 sampler drums. Hip-hop classic. Boom bap, punchy, gritty.'', tags = [''emu'', ''sp12'', ''hip-hop'', ''boom-bap'', ''punchy'', ''sampler'']\<rparr>),
  (''KorgDDM110'',
    \<lparr>description = ''Korg DDM-110 Super Drums. 80s digital drums. Punchy, characterful.'', tags = [''korg'', ''ddm110'', ''digital'', ''80s'', ''punchy'']\<rparr>),
  (''KorgKPR77'',
    \<lparr>description = ''Korg KPR-77 drum machine. Analog drums, 80s character. Warm, punchy.'', tags = [''korg'', ''kpr77'', ''analog'', ''80s'', ''warm'']\<rparr>),
  (''KorgKR55'',
    \<lparr>description = ''Korg KR-55 analog drums. Vintage rhythm machine. Warm, organic feel.'', tags = [''korg'', ''kr55'', ''analog'', ''vintage'', ''warm'']\<rparr>),
  (''KorgKRZ'',
    \<lparr>description = ''Korg KRZ drum sounds. Korg rhythm sounds. Versatile, clean.'', tags = [''korg'', ''krz'', ''rhythm'', ''versatile'']\<rparr>),
  (''KorgM1'',
    \<lparr>description = ''Korg M1 drum sounds. Iconic 80s workstation drums. Pop, dance, studio.'', tags = [''korg'', ''m1'', ''workstation'', ''80s'', ''pop'', ''dance'']\<rparr>),
  (''KorgMinipops'',
    \<lparr>description = ''Korg Minipops rhythm machine. Vintage analog drums. Organ-combo style, retro.'', tags = [''korg'', ''minipops'', ''analog'', ''vintage'', ''retro'']\<rparr>),
  (''KorgPoly800'',
    \<lparr>description = ''Korg Poly-800 drums. 80s polysynth drums. Digital, characterful.'', tags = [''korg'', ''poly800'', ''80s'', ''digital'', ''synth'']\<rparr>),
  (''KorgT3'',
    \<lparr>description = ''Korg T3 workstation drums. 90s workstation sounds. Clean, professional.'', tags = [''korg'', ''t3'', ''workstation'', ''90s'', ''professional'']\<rparr>),
  (''Linn9000'',
    \<lparr>description = ''Linn 9000 drum machine. Advanced Linn drums. Sampling, sequencing, 80s.'', tags = [''linn'', ''9000'', ''80s'', ''sampling'', ''sequencing'']\<rparr>),
  (''LinnDrum'',
    \<lparr>description = ''LinnDrum classic. Iconic 80s digital drums. Pop, rock, hip-hop essential.'', tags = [''linndrum'', ''linn'', ''80s'', ''pop'', ''rock'', ''iconic'']\<rparr>),
  (''LinnLM1'',
    \<lparr>description = ''Linn LM-1 first Linn drum machine. Revolutionary digital drums. Prince, 80s pop.'', tags = [''linn'', ''lm1'', ''80s'', ''pop'', ''revolutionary'', ''prince'']\<rparr>),
  (''LinnLM2'',
    \<lparr>description = ''Linn LM-2 drum machine. Refined LM-1. 80s pop, rock drums.'', tags = [''linn'', ''lm2'', ''80s'', ''pop'', ''rock'']\<rparr>),
  (''MFB512'',
    \<lparr>description = ''MFB-512 analog drum machine. German analog drums. Punchy, raw, electronic.'', tags = [''mfb'', ''512'', ''analog'', ''german'', ''electronic'', ''raw'']\<rparr>),
  (''MPC1000'',
    \<lparr>description = ''Akai MPC1000 drums. 2000s MPC. Hip-hop, modern production.'', tags = [''akai'', ''mpc1000'', ''2000s'', ''hip-hop'', ''modern'']\<rparr>),
  (''MoogConcertMateMG1'',
    \<lparr>description = ''Moog Concertmate MG-1 drums. Moog analog synth drums. Warm, characterful.'', tags = [''moog'', ''concertmate'', ''mg1'', ''analog'', ''warm'']\<rparr>),
  (''OberheimDMX'',
    \<lparr>description = ''Oberheim DMX drum machine. 80s classic. Electro, hip-hop, new wave.'', tags = [''oberheim'', ''dmx'', ''80s'', ''electro'', ''hip-hop'', ''new-wave'']\<rparr>),
  (''RhodesPolaris'',
    \<lparr>description = ''Rhodes Polaris drums. Rhodes synth drum sounds. Warm, analog character.'', tags = [''rhodes'', ''polaris'', ''synth'', ''analog'', ''warm'']\<rparr>),
  (''RhythmAce'',
    \<lparr>description = ''Ace Tone Rhythm Ace. Vintage organ rhythm box. 60s/70s, retro, warm.'', tags = [''ace-tone'', ''rhythm-ace'', ''vintage'', ''60s'', ''70s'', ''organ'']\<rparr>),
  (''RolandCompurhythm1000'',
    \<lparr>description = ''Roland CR-1000 Compurhythm. Advanced preset drums. Clean, versatile.'', tags = [''roland'', ''cr1000'', ''compurhythm'', ''preset'', ''clean'']\<rparr>),
  (''RolandCompurhythm78'',
    \<lparr>description = ''Roland CR-78 Compurhythm. First programmable drum machine. Vintage, iconic.'', tags = [''roland'', ''cr78'', ''compurhythm'', ''vintage'', ''iconic'', ''programmable'']\<rparr>),
  (''RolandCompurhythm8000'',
    \<lparr>description = ''Roland CR-8000 Compurhythm. Analog preset drums. Warm, classic.'', tags = [''roland'', ''cr8000'', ''compurhythm'', ''analog'', ''warm'']\<rparr>),
  (''RolandD110'',
    \<lparr>description = ''Roland D-110 drum sounds. LA synthesis drums. 80s digital, clean.'', tags = [''roland'', ''d110'', ''la-synthesis'', ''80s'', ''digital'']\<rparr>),
  (''RolandD70'',
    \<lparr>description = ''Roland D-70 drums. 90s workstation drums. Versatile, professional.'', tags = [''roland'', ''d70'', ''workstation'', ''90s'', ''professional'']\<rparr>),
  (''RolandDDR30'',
    \<lparr>description = ''Roland DDR-30 drum machine. Digital drums. Clean, punchy.'', tags = [''roland'', ''ddr30'', ''digital'', ''punchy'']\<rparr>),
  (''RolandJD990'',
    \<lparr>description = ''Roland JD-990 drums. High-end 90s synth drums. Lush, professional.'', tags = [''roland'', ''jd990'', ''90s'', ''synth'', ''professional'']\<rparr>),
  (''RolandMC202'',
    \<lparr>description = ''Roland MC-202 drums. Micro Composer drums. Analog, TB-303 era.'', tags = [''roland'', ''mc202'', ''analog'', ''micro-composer'']\<rparr>),
  (''RolandMC303'',
    \<lparr>description = ''Roland MC-303 Groovebox drums. 90s dance machine. House, techno.'', tags = [''roland'', ''mc303'', ''groovebox'', ''90s'', ''house'', ''techno'']\<rparr>),
  (''RolandMT32'',
    \<lparr>description = ''Roland MT-32 drums. LA synthesis module drums. 80s game soundtracks.'', tags = [''roland'', ''mt32'', ''la-synthesis'', ''80s'', ''game'']\<rparr>),
  (''RolandR8'',
    \<lparr>description = ''Roland R-8 Human Rhythm Composer. High-end 80s drums. Realistic, versatile.'', tags = [''roland'', ''r8'', ''80s'', ''realistic'', ''human-rhythm'']\<rparr>),
  (''RolandS50'',
    \<lparr>description = ''Roland S-50 sampler drums. 80s sampler. Warm, vintage digital.'', tags = [''roland'', ''s50'', ''sampler'', ''80s'', ''warm'']\<rparr>),
  (''RolandSH09'',
    \<lparr>description = ''Roland SH-09 synth drums. Analog monosynth drums. Raw, punchy.'', tags = [''roland'', ''sh09'', ''analog'', ''monosynth'', ''raw'']\<rparr>),
  (''RolandSystem100'',
    \<lparr>description = ''Roland System-100 modular drums. Semi-modular analog. Raw, experimental.'', tags = [''roland'', ''system100'', ''modular'', ''analog'', ''experimental'']\<rparr>),
  (''RolandTR505'',
    \<lparr>description = ''Roland TR-505 drum machine. Digital successor to 606. Clean, usable.'', tags = [''roland'', ''tr505'', ''digital'', ''clean'']\<rparr>),
  (''RolandTR606'',
    \<lparr>description = ''Roland TR-606 Drumatix. Analog companion to TB-303. Acid house essential.'', tags = [''roland'', ''tr606'', ''analog'', ''acid'', ''house'', ''drumatix'']\<rparr>),
  (''RolandTR626'',
    \<lparr>description = ''Roland TR-626 Rhythm Composer. Digital drums. Latin sounds, 80s.'', tags = [''roland'', ''tr626'', ''digital'', ''latin'', ''80s'']\<rparr>),
  (''RolandTR707'',
    \<lparr>description = ''Roland TR-707 drum machine. Digital, clean 80s drums. Pop, dance.'', tags = [''roland'', ''tr707'', ''digital'', ''80s'', ''pop'', ''dance'']\<rparr>),
  (''RolandTR727'',
    \<lparr>description = ''Roland TR-727 Latin percussion. Latin version of 707. Congas, bongos, timbales.'', tags = [''roland'', ''tr727'', ''latin'', ''percussion'', ''congas'', ''bongos'']\<rparr>),
  (''RolandTR808'',
    \<lparr>description = ''Roland TR-808 Rhythm Composer. THE iconic drum machine. Hip-hop, electronic essential.'', tags = [''roland'', ''tr808'', ''808'', ''hip-hop'', ''electronic'', ''iconic'', ''classic'']\<rparr>),
  (''RolandTR909'',
    \<lparr>description = ''Roland TR-909 Rhythm Composer. House and techno essential. Punchy, powerful.'', tags = [''roland'', ''tr909'', ''909'', ''house'', ''techno'', ''essential'', ''punchy'']\<rparr>),
  (''SakataDPM48'',
    \<lparr>description = ''Sakata DPM-48 drums. Rare Japanese drums. Unique, characterful.'', tags = [''sakata'', ''dpm48'', ''japanese'', ''rare'', ''unique'']\<rparr>),
  (''SequentialCircuitsDrumtracks'',
    \<lparr>description = ''Sequential Circuits Drumtracks. 80s digital drums. Clean, usable.'', tags = [''sequential'', ''drumtracks'', ''80s'', ''digital'', ''clean'']\<rparr>),
  (''SequentialCircuitsTom'',
    \<lparr>description = ''Sequential Circuits TOM. Analog drum synth. Tunable, unique.'', tags = [''sequential'', ''tom'', ''analog'', ''drum-synth'', ''tunable'']\<rparr>),
  (''SergeModular'',
    \<lparr>description = ''Serge Modular drums. Esoteric modular drums. Experimental, unique.'', tags = [''serge'', ''modular'', ''experimental'', ''unique'', ''esoteric'']\<rparr>),
  (''SimmonsSDS400'',
    \<lparr>description = ''Simmons SDS-400 electronic drums. 80s electronic drums. Iconic hex pads.'', tags = [''simmons'', ''sds400'', ''electronic'', ''80s'', ''hex-pads'']\<rparr>),
  (''SimmonsSDS5'',
    \<lparr>description = ''Simmons SDS-5 electronic drums. THE 80s electronic drum sound. Iconic.'', tags = [''simmons'', ''sds5'', ''electronic'', ''80s'', ''iconic'']\<rparr>),
  (''SoundmastersR88'',
    \<lparr>description = ''Soundmaster SR-88 drums. Budget analog drums. Lo-fi, characterful.'', tags = [''soundmaster'', ''sr88'', ''analog'', ''lo-fi'', ''budget'']\<rparr>),
  (''UnivoxMicroRhythmer12'',
    \<lparr>description = ''Univox Micro Rhythmer 12. Vintage preset drums. 70s, retro.'', tags = [''univox'', ''micro-rhythmer'', ''vintage'', ''70s'', ''preset'']\<rparr>),
  (''ViscoSpaceDrum'',
    \<lparr>description = ''Visco Space Drum. Unique electronic drums. Spacey, experimental.'', tags = [''visco'', ''space-drum'', ''electronic'', ''spacey'', ''experimental'']\<rparr>),
  (''XdrumLM8953'',
    \<lparr>description = ''X-drum LM-8953. Custom drum sounds. Electronic, unique.'', tags = [''xdrum'', ''lm8953'', ''electronic'', ''custom'']\<rparr>),
  (''YamahaRM50'',
    \<lparr>description = ''Yamaha RM50 drum module. 90s drum module. High-quality, versatile.'', tags = [''yamaha'', ''rm50'', ''90s'', ''module'', ''high-quality'']\<rparr>),
  (''YamahaRX21'',
    \<lparr>description = ''Yamaha RX21 drum machine. Budget 80s drums. Digital, punchy.'', tags = [''yamaha'', ''rx21'', ''80s'', ''digital'', ''budget'']\<rparr>),
  (''YamahaRX5'',
    \<lparr>description = ''Yamaha RX5 drum machine. Premium 80s drums. High-quality samples.'', tags = [''yamaha'', ''rx5'', ''80s'', ''digital'', ''premium'']\<rparr>),
  (''YamahaRY30'',
    \<lparr>description = ''Yamaha RY30 drum machine. 90s AWM drums. Versatile, modern.'', tags = [''yamaha'', ''ry30'', ''90s'', ''awm'', ''versatile'']\<rparr>),
  (''YamahaTG33'',
    \<lparr>description = ''Yamaha TG33 drums. Vector synthesis drums. Unique, evolving.'', tags = [''yamaha'', ''tg33'', ''vector'', ''synthesis'', ''unique'']\<rparr>)
]\<close>

text \<open>The instruments of the Versilian Community Sample Library.\<close>

definition vcsl_instruments :: "(string \<times> sample_data) list" where
\<open>vcsl_instruments = [
  (''ballwhistle'',
    \<lparr>description = ''Ball whistle percussion. Sports referee whistle. Shrill, attention-getting.'', tags = [''whistle'', ''ball'', ''sports'', ''sfx''], category = ''percussion''\<rparr>),
  (''bassdrum1'',
    \<lparr>description = ''VCSL acoustic bass drum 1. Deep orchestral kick. Concert, classical.'', tags = [''bass-drum'', ''acoustic'', ''orchestral'', ''deep''], category = ''percussion''\<rparr>),
  (''bassdrum2'',
    \<lparr>description = ''VCSL acoustic bass drum 2. Variant with different character. Orchestral.'', tags = [''bass-drum'', ''acoustic'', ''orchestral'', ''variant''], category = ''percussion''\<rparr>),
  (''bongo'',
    \<lparr>description = ''VCSL bongo drums. Hand drums, Latin percussion. Warm, organic.'', tags = [''bongo'', ''hand-drum'', ''latin'', ''organic''], category = ''percussion''\<rparr>),
  (''conga'',
    \<lparr>description = ''VCSL conga drums. Tall hand drums. Latin, Afro-Cuban, warm.'', tags = [''conga'', ''hand-drum'', ''latin'', ''afro-cuban''], category = ''percussion''\<rparr>),
  (''darbuka'',
    \<lparr>description = ''VCSL darbuka. Middle Eastern goblet drum. Arabic, Turkish, belly dance.'', tags = [''darbuka'', ''middle-eastern'', ''goblet'', ''arabic''], category = ''percussion''\<rparr>),
  (''framedrum'',
    \<lparr>description = ''VCSL frame drum. Large circular drum. World, shamanic, bodhran-like.'', tags = [''frame-drum'', ''world'', ''shamanic'', ''circular''], category = ''percussion''\<rparr>),
  (''snare_modern'',
    \<lparr>description = ''VCSL modern snare drum. Contemporary snare sound. Versatile, studio.'', tags = [''snare'', ''modern'', ''studio'', ''versatile''], category = ''percussion''\<rparr>),
  (''snare_hi'',
    \<lparr>description = ''VCSL high-pitched snare. Bright, cutting snare. Piccolo-style.'', tags = [''snare'', ''high'', ''bright'', ''piccolo''], category = ''percussion''\<rparr>),
  (''snare_low'',
    \<lparr>description = ''VCSL low snare drum. Deep snare sound. Fat, warm.'', tags = [''snare'', ''low'', ''deep'', ''warm''], category = ''percussion''\<rparr>),
  (''snare_rim'',
    \<lparr>description = ''VCSL snare rim shot. Rim click/shot. Sharp, accented.'', tags = [''snare'', ''rim'', ''rimshot'', ''sharp''], category = ''percussion''\<rparr>),
  (''tom_mallet'',
    \<lparr>description = ''VCSL tom with mallet. Soft attack tom. Orchestral, melodic.'', tags = [''tom'', ''mallet'', ''soft'', ''orchestral''], category = ''percussion''\<rparr>),
  (''tom_stick'',
    \<lparr>description = ''VCSL tom with stick. Standard tom hit. Rock, pop drums.'', tags = [''tom'', ''stick'', ''rock'', ''pop''], category = ''percussion''\<rparr>),
  (''tom_rim'',
    \<lparr>description = ''VCSL tom rim. Tom rim click. Accent, variation.'', tags = [''tom'', ''rim'', ''accent''], category = ''percussion''\<rparr>),
  (''tom2_mallet'',
    \<lparr>description = ''VCSL tom 2 with mallet. Second tom, mallet hit.'', tags = [''tom'', ''mallet'', ''variant''], category = ''percussion''\<rparr>),
  (''tom2_stick'',
    \<lparr>description = ''VCSL tom 2 with stick. Second tom, stick hit.'', tags = [''tom'', ''stick'', ''variant''], category = ''percussion''\<rparr>),
  (''tom2_rim'',
    \<lparr>description = ''VCSL tom 2 rim. Second tom rim click.'', tags = [''tom'', ''rim'', ''variant''], category = ''percussion''\<rparr>),
  (''timpani'',
    \<lparr>description = ''VCSL timpani. Orchestral kettle drums. Classical, dramatic.'', tags = [''timpani'', ''orchestral'', ''classical'', ''dramatic''], category = ''percussion''\<rparr>),
  (''timpani_roll'',
    \<lparr>description = ''VCSL timpani roll. Sustained timpani tremolo. Building tension.'', tags = [''timpani'', ''roll'', ''tremolo'', ''tension''], category = ''percussion''\<rparr>),
  (''timpani2'',
    \<lparr>description = ''VCSL timpani 2. Second timpani variant. Different tuning.'', tags = [''timpani'', ''variant'', ''orchestral''], category = ''percussion''\<rparr>),
  (''recorder_alto_stacc'',
    \<lparr>description = ''VCSL alto recorder staccato. Short, detached notes. Renaissance.'', tags = [''recorder'', ''alto'', ''staccato'', ''renaissance''], category = ''woodwind''\<rparr>),
  (''recorder_alto_vib'',
    \<lparr>description = ''VCSL alto recorder vibrato. Expressive with vibrato. Melodic.'', tags = [''recorder'', ''alto'', ''vibrato'', ''expressive''], category = ''woodwind''\<rparr>),
  (''recorder_alto_sus'',
    \<lparr>description = ''VCSL alto recorder sustained. Long, held notes. Legato.'', tags = [''recorder'', ''alto'', ''sustained'', ''legato''], category = ''woodwind''\<rparr>),
  (''recorder_bass_stacc'',
    \<lparr>description = ''VCSL bass recorder staccato. Low recorder, short notes.'', tags = [''recorder'', ''bass'', ''staccato'', ''low''], category = ''woodwind''\<rparr>),
  (''recorder_bass_vib'',
    \<lparr>description = ''VCSL bass recorder vibrato. Low recorder with vibrato.'', tags = [''recorder'', ''bass'', ''vibrato'', ''low''], category = ''woodwind''\<rparr>),
  (''recorder_bass_sus'',
    \<lparr>description = ''VCSL bass recorder sustained. Low recorder, long notes.'', tags = [''recorder'', ''bass'', ''sustained'', ''low''], category = ''woodwind''\<rparr>),
  (''recorder_soprano_stacc'',
    \<lparr>description = ''VCSL soprano recorder staccato. High recorder, short.'', tags = [''recorder'', ''soprano'', ''staccato'', ''high''], category = ''woodwind''\<rparr>),
  (''recorder_soprano_sus'',
    \<lparr>description = ''VCSL soprano recorder sustained. High recorder, long.'', tags = [''recorder'', ''soprano'', ''sustained'', ''high''], category = ''woodwind''\<rparr>),
  (''recorder_tenor_stacc'',
    \<lparr>description = ''VCSL tenor recorder staccato. Mid-range recorder, short.'', tags = [''recorder'', ''tenor'', ''staccato''], category = ''woodwind''\<rparr>),
  (''recorder_tenor_vib'',
    \<lparr>description = ''VCSL tenor recorder vibrato. Mid-range with vibrato.'', tags = [''recorder'', ''tenor'', ''vibrato''], category = ''woodwind''\<rparr>),
  (''recorder_tenor_sus'',
    \<lparr>description = ''VCSL tenor recorder sustained. Mid-range, long notes.'', tags = [''recorder'', ''tenor'', ''sustained''], category = ''woodwind''\<rparr>),
  (''ocarina_small_stacc'',
    \<lparr>description = ''VCSL small ocarina staccato. Small clay flute, short notes.'', tags = [''ocarina'', ''small'', ''staccato'', ''clay''], category = ''woodwind''\<rparr>),
  (''ocarina_small'',
    \<lparr>description = ''VCSL small ocarina. High-pitched clay wind instrument.'', tags = [''ocarina'', ''small'', ''high'', ''clay''], category = ''woodwind''\<rparr>),
  (''ocarina'',
    \<lparr>description = ''VCSL ocarina. Clay wind instrument. Zelda-like, pure, innocent.'', tags = [''ocarina'', ''clay'', ''pure'', ''zelda''], category = ''woodwind''\<rparr>),
  (''ocarina_vib'',
    \<lparr>description = ''VCSL ocarina vibrato. Ocarina with expressive vibrato.'', tags = [''ocarina'', ''vibrato'', ''expressive''], category = ''woodwind''\<rparr>),
  (''saxello'',
    \<lparr>description = ''VCSL saxello. Rare curved soprano sax. Unique, jazz.'', tags = [''saxello'', ''saxophone'', ''soprano'', ''jazz'', ''rare''], category = ''woodwind''\<rparr>),
  (''saxello_stacc'',
    \<lparr>description = ''VCSL saxello staccato. Short, punchy sax notes.'', tags = [''saxello'', ''saxophone'', ''staccato''], category = ''woodwind''\<rparr>),
  (''saxello_vib'',
    \<lparr>description = ''VCSL saxello vibrato. Expressive saxello with vibrato.'', tags = [''saxello'', ''saxophone'', ''vibrato''], category = ''woodwind''\<rparr>),
  (''sax'',
    \<lparr>description = ''VCSL tenor saxophone. Classic jazz/R&B sax. Rich, soulful.'', tags = [''saxophone'', ''tenor'', ''jazz'', ''soulful''], category = ''woodwind''\<rparr>),
  (''sax_stacc'',
    \<lparr>description = ''VCSL tenor sax staccato. Short, punchy sax hits.'', tags = [''saxophone'', ''tenor'', ''staccato''], category = ''woodwind''\<rparr>),
  (''sax_vib'',
    \<lparr>description = ''VCSL tenor sax vibrato. Expressive sax with vibrato.'', tags = [''saxophone'', ''tenor'', ''vibrato''], category = ''woodwind''\<rparr>),
  (''pipeorgan_loud_pedal'',
    \<lparr>description = ''VCSL pipe organ loud pedal. Deep bass pedal, full power.'', tags = [''organ'', ''pipe'', ''pedal'', ''loud'', ''bass''], category = ''organ''\<rparr>),
  (''pipeorgan_loud'',
    \<lparr>description = ''VCSL pipe organ loud. Full registration, powerful.'', tags = [''organ'', ''pipe'', ''loud'', ''powerful''], category = ''organ''\<rparr>),
  (''pipeorgan_quiet_pedal'',
    \<lparr>description = ''VCSL pipe organ quiet pedal. Soft bass pedal.'', tags = [''organ'', ''pipe'', ''pedal'', ''quiet'', ''soft''], category = ''organ''\<rparr>),
  (''pipeorgan_quiet'',
    \<lparr>description = ''VCSL pipe organ quiet. Soft registration, intimate.'', tags = [''organ'', ''pipe'', ''quiet'', ''intimate''], category = ''organ''\<rparr>),
  (''organ_4inch'',
    \<lparr>description = ''VCSL 4-inch organ pipes. Small organ pipes, high.'', tags = [''organ'', ''small'', ''high'', ''pipes''], category = ''organ''\<rparr>),
  (''organ_8inch'',
    \<lparr>description = ''VCSL 8-inch organ pipes. Standard organ pipes.'', tags = [''organ'', ''standard'', ''pipes''], category = ''organ''\<rparr>),
  (''organ_full'',
    \<lparr>description = ''VCSL full organ. Complete organ registration. Rich, full.'', tags = [''organ'', ''full'', ''rich'', ''complete''], category = ''organ''\<rparr>),
  (''clavisynth'',
    \<lparr>description = ''VCSL clavisynth. Clavinet/synth hybrid. Funky, electronic.'', tags = [''clavinet'', ''synth'', ''funky'', ''electronic''], category = ''keyboards''\<rparr>),
  (''fmpiano'',
    \<lparr>description = ''VCSL FM piano. DX7-style FM electric piano. 80s, digital, bright.'', tags = [''piano'', ''fm'', ''dx7'', ''80s'', ''digital''], category = ''keyboards''\<rparr>),
  (''piano1'',
    \<lparr>description = ''VCSL piano 1. Acoustic grand piano. Classical, versatile.'', tags = [''piano'', ''acoustic'', ''grand'', ''classical''], category = ''keyboards''\<rparr>),
  (''kawai'',
    \<lparr>description = ''VCSL Kawai piano. Kawai grand piano sample. Bright, clear.'', tags = [''piano'', ''kawai'', ''grand'', ''bright''], category = ''keyboards''\<rparr>),
  (''steinway'',
    \<lparr>description = ''VCSL Steinway piano. Steinway grand piano. Rich, warm, concert.'', tags = [''piano'', ''steinway'', ''grand'', ''concert'', ''rich''], category = ''keyboards''\<rparr>),
  (''harp'',
    \<lparr>description = ''VCSL concert harp. Classical pedal harp. Ethereal, sweeping.'', tags = [''harp'', ''concert'', ''classical'', ''ethereal''], category = ''strings''\<rparr>),
  (''folkharp'',
    \<lparr>description = ''VCSL folk harp. Celtic/lever harp. Folk, Celtic, intimate.'', tags = [''harp'', ''folk'', ''celtic'', ''lever''], category = ''strings''\<rparr>),
  (''strumstick'',
    \<lparr>description = ''VCSL strumstick. Simple Appalachian string instrument. Folk, drone.'', tags = [''strumstick'', ''appalachian'', ''folk'', ''drone''], category = ''strings''\<rparr>),
  (''psaltery_pluck'',
    \<lparr>description = ''VCSL psaltery plucked. Medieval plucked zither. Plucky, ancient.'', tags = [''psaltery'', ''plucked'', ''medieval'', ''zither''], category = ''strings''\<rparr>),
  (''psaltery_spiccato'',
    \<lparr>description = ''VCSL psaltery spiccato. Short bowed psaltery notes.'', tags = [''psaltery'', ''spiccato'', ''bowed'', ''short''], category = ''strings''\<rparr>),
  (''psaltery_bow'',
    \<lparr>description = ''VCSL bowed psaltery. Sustained bowed psaltery. Ethereal, haunting.'', tags = [''psaltery'', ''bowed'', ''ethereal'', ''haunting''], category = ''strings''\<rparr>),
  (''dantranh'',
    \<lparr>description = ''VCSL dan tranh. Vietnamese zither. Asian, traditional, delicate.'', tags = [''dan-tranh'', ''vietnamese'', ''zither'', ''asian''], category = ''world''\<rparr>),
  (''dantranh_tremolo'',
    \<lparr>description = ''VCSL dan tranh tremolo. Tremolo technique on dan tranh.'', tags = [''dan-tranh'', ''tremolo'', ''vietnamese''], category = ''world''\<rparr>),
  (''dantranh_vibrato'',
    \<lparr>description = ''VCSL dan tranh vibrato. Vibrato technique on dan tranh.'', tags = [''dan-tranh'', ''vibrato'', ''vietnamese''], category = ''world''\<rparr>),
  (''harmonica'',
    \<lparr>description = ''VCSL harmonica. Blues harp. Expressive, folk, blues.'', tags = [''harmonica'', ''blues'', ''harp'', ''folk''], category = ''woodwind''\<rparr>),
  (''harmonica_soft'',
    \<lparr>description = ''VCSL soft harmonica. Gentle harmonica playing.'', tags = [''harmonica'', ''soft'', ''gentle''], category = ''woodwind''\<rparr>),
  (''harmonica_vib'',
    \<lparr>description = ''VCSL harmonica vibrato. Harmonica with vibrato.'', tags = [''harmonica'', ''vibrato'', ''expressive''], category = ''woodwind''\<rparr>),
  (''super64'',
    \<lparr>description = ''VCSL Super 64 chromatic harmonica. Large chromatic harmonica.'', tags = [''harmonica'', ''chromatic'', ''super64''], category = ''woodwind''\<rparr>),
  (''super64_acc'',
    \<lparr>description = ''VCSL Super 64 accented. Strong attack harmonica.'', tags = [''harmonica'', ''chromatic'', ''accented''], category = ''woodwind''\<rparr>),
  (''super64_vib'',
    \<lparr>description = ''VCSL Super 64 vibrato. Chromatic harmonica with vibrato.'', tags = [''harmonica'', ''chromatic'', ''vibrato''], category = ''woodwind''\<rparr>),
  (''didgeridoo'',
    \<lparr>description = ''VCSL didgeridoo. Australian Aboriginal drone instrument. Deep, drone, circular breathing.'', tags = [''didgeridoo'', ''australian'', ''drone'', ''aboriginal''], category = ''world''\<rparr>),
  (''agogo'',
    \<lparr>description = ''VCSL agogo bells. Brazilian percussion bells. Latin, samba, bright.'', tags = [''agogo'', ''bells'', ''brazilian'', ''samba''], category = ''percussion''\<rparr>),
  (''anvil'',
    \<lparr>description = ''VCSL anvil. Metal anvil hit. Industrial, orchestral effect.'', tags = [''anvil'', ''metal'', ''industrial'', ''orchestral''], category = ''percussion''\<rparr>),
  (''kalimba'',
    \<lparr>description = ''VCSL kalimba. African thumb piano. Plucky, gentle, melodic.'', tags = [''kalimba'', ''thumb-piano'', ''african'', ''melodic''], category = ''percussion''\<rparr>),
  (''kalimba_pad'',
    \<lparr>description = ''VCSL kalimba pad. Sustained kalimba pad sound. Ambient, ethereal.'', tags = [''kalimba'', ''pad'', ''ambient'', ''ethereal''], category = ''percussion''\<rparr>),
  (''marimba'',
    \<lparr>description = ''VCSL marimba. Large wooden mallet percussion. Warm, resonant.'', tags = [''marimba'', ''mallet'', ''wooden'', ''warm''], category = ''percussion''\<rparr>),
  (''xylophone'',
    \<lparr>description = ''VCSL xylophone. Bright wooden mallet percussion. Crisp, piercing.'', tags = [''xylophone'', ''mallet'', ''bright'', ''crisp''], category = ''percussion''\<rparr>),
  (''xylophone_hard'',
    \<lparr>description = ''VCSL xylophone hard mallets. Brighter, more attack.'', tags = [''xylophone'', ''hard'', ''bright'', ''attack''], category = ''percussion''\<rparr>),
  (''trainwhistle'',
    \<lparr>description = ''VCSL train whistle. Steam locomotive whistle. Nostalgic, effect.'', tags = [''train'', ''whistle'', ''steam'', ''nostalgic''], category = ''sfx''\<rparr>),
  (''siren'',
    \<lparr>description = ''VCSL siren. Emergency siren sound. Alert, urgent.'', tags = [''siren'', ''emergency'', ''alert'', ''urgent''], category = ''sfx''\<rparr>),
  (''wineglass'',
    \<lparr>description = ''VCSL wineglass. Singing glass rim. Ethereal, glass harmonica-like.'', tags = [''wineglass'', ''glass'', ''ethereal'', ''singing''], category = ''sfx''\<rparr>),
  (''wineglass_slow'',
    \<lparr>description = ''VCSL wineglass slow. Slowly bowed wineglass. Sustained, haunting.'', tags = [''wineglass'', ''slow'', ''sustained'', ''haunting''], category = ''sfx''\<rparr>)
]\<close>

text \<open>The wavetables.\<close>

definition wavetables :: "(string \<times> sample_data) list" where
\<open>wavetables = [
  (''wt_01'',
    \<lparr>description = ''Wavetable waveform 01. Basic synthesis texture. Evolving, complex.'', tags = [''wavetable'', ''basic'', ''synthesis'', ''evolving''], category = ''wavetable''\<rparr>),
  (''wt_02'',
    \<lparr>description = ''Wavetable waveform 02. Basic synthesis texture variant 2.'', tags = [''wavetable'', ''basic'', ''synthesis''], category = ''wavetable''\<rparr>),
  (''wt_03'',
    \<lparr>description = ''Wavetable waveform 03. Basic synthesis texture variant 3.'', tags = [''wavetable'', ''basic'', ''synthesis''], category = ''wavetable''\<rparr>),
  (''wt_04'',
    \<lparr>description = ''Wavetable waveform 04. Basic synthesis texture variant 4.'', tags = [''wavetable'', ''basic'', ''synthesis''], category = ''wavetable''\<rparr>),
  (''wt_05'',
    \<lparr>description = ''Wavetable waveform 05. Basic synthesis texture variant 5.'', tags = [''wavetable'', ''basic'', ''synthesis''], category = ''wavetable''\<rparr>),
  (''wt_06'',
    \<lparr>description = ''Wavetable waveform 06. Basic synthesis texture variant 6.'', tags = [''wavetable'', ''basic'', ''synthesis''], category = ''wavetable''\<rparr>),
  (''wt_07'',
    \<lparr>description = ''Wavetable waveform 07. Basic synthesis texture variant 7.'', tags = [''wavetable'', ''basic'', ''synthesis''], category = ''wavetable''\<rparr>),
  (''wt_08'',
    \<lparr>description = ''Wavetable waveform 08. Basic synthesis texture variant 8.'', tags = [''wavetable'', ''basic'', ''synthesis''], category = ''wavetable''\<rparr>),
  (''wt_09'',
    \<lparr>description = ''Wavetable waveform 09. Basic synthesis texture variant 9.'', tags = [''wavetable'', ''basic'', ''synthesis''], category = ''wavetable''\<rparr>),
  (''wt_10'',
    \<lparr>description = ''Wavetable waveform 10. Basic synthesis texture variant 10.'', tags = [''wavetable'', ''basic'', ''synthesis''], category = ''wavetable''\<rparr>),
  (''wt_11'',
    \<lparr>description = ''Wavetable waveform 11. Basic synthesis texture variant 11.'', tags = [''wavetable'', ''basic'', ''synthesis''], category = ''wavetable''\<rparr>),
  (''wt_12'',
    \<lparr>description = ''Wavetable waveform 12. Basic synthesis texture variant 12.'', tags = [''wavetable'', ''basic'', ''synthesis''], category = ''wavetable''\<rparr>),
  (''wt_13'',
    \<lparr>description = ''Wavetable waveform 13. Basic synthesis texture variant 13.'', tags = [''wavetable'', ''basic'', ''synthesis''], category = ''wavetable''\<rparr>),
  (''wt_14'',
    \<lparr>description = ''Wavetable waveform 14. Basic synthesis texture variant 14.'', tags = [''wavetable'', ''basic'', ''synthesis''], category = ''wavetable''\<rparr>),
  (''wt_15'',
    \<lparr>description = ''Wavetable waveform 15. Basic synthesis texture variant 15.'', tags = [''wavetable'', ''basic'', ''synthesis''], category = ''wavetable''\<rparr>),
  (''wt_16'',
    \<lparr>description = ''Wavetable waveform 16. Basic synthesis texture variant 16.'', tags = [''wavetable'', ''basic'', ''synthesis''], category = ''wavetable''\<rparr>),
  (''wt_17'',
    \<lparr>description = ''Wavetable waveform 17. Basic synthesis texture variant 17.'', tags = [''wavetable'', ''basic'', ''synthesis''], category = ''wavetable''\<rparr>),
  (''wt_18'',
    \<lparr>description = ''Wavetable waveform 18. Basic synthesis texture variant 18.'', tags = [''wavetable'', ''basic'', ''synthesis''], category = ''wavetable''\<rparr>),
  (''wt_19'',
    \<lparr>description = ''Wavetable waveform 19. Basic synthesis texture variant 19.'', tags = [''wavetable'', ''basic'', ''synthesis''], category = ''wavetable''\<rparr>),
  (''wt_20'',
    \<lparr>description = ''Wavetable waveform 20. Basic synthesis texture variant 20.'', tags = [''wavetable'', ''basic'', ''synthesis''], category = ''wavetable''\<rparr>),
  (''wt_aguitar'',
    \<lparr>description = ''Wavetable acoustic guitar. Guitar harmonic content as wavetable. Organic, plucky.'', tags = [''wavetable'', ''guitar'', ''acoustic'', ''organic''], category = ''wavetable''\<rparr>),
  (''wt_altosax'',
    \<lparr>description = ''Wavetable alto saxophone. Sax timbre as wavetable. Reedy, expressive.'', tags = [''wavetable'', ''saxophone'', ''alto'', ''reedy''], category = ''wavetable''\<rparr>),
  (''wt_cello'',
    \<lparr>description = ''Wavetable cello. Cello harmonics as wavetable. Rich, bowed, strings.'', tags = [''wavetable'', ''cello'', ''strings'', ''bowed''], category = ''wavetable''\<rparr>),
  (''wt_clarinett'',
    \<lparr>description = ''Wavetable clarinet. Clarinet timbre as wavetable. Woody, warm.'', tags = [''wavetable'', ''clarinet'', ''woody'', ''warm''], category = ''wavetable''\<rparr>),
  (''wt_clavinet'',
    \<lparr>description = ''Wavetable clavinet. Funky clavinet as wavetable. Percussive, funky.'', tags = [''wavetable'', ''clavinet'', ''funky'', ''percussive''], category = ''wavetable''\<rparr>),
  (''wt_dbass'',
    \<lparr>description = ''Wavetable double bass. Upright bass as wavetable. Deep, woody, organic.'', tags = [''wavetable'', ''bass'', ''double-bass'', ''woody''], category = ''wavetable''\<rparr>),
  (''wt_ebass'',
    \<lparr>description = ''Wavetable electric bass. Electric bass as wavetable. Punchy, round.'', tags = [''wavetable'', ''bass'', ''electric'', ''punchy''], category = ''wavetable''\<rparr>),
  (''wt_eguitar'',
    \<lparr>description = ''Wavetable electric guitar. Electric guitar as wavetable. Versatile, harmonic.'', tags = [''wavetable'', ''guitar'', ''electric'', ''harmonic''], category = ''wavetable''\<rparr>),
  (''wt_eorgan'',
    \<lparr>description = ''Wavetable electric organ. Organ drawbars as wavetable. Classic, keys.'', tags = [''wavetable'', ''organ'', ''electric'', ''drawbar''], category = ''wavetable''\<rparr>),
  (''wt_epiano'',
    \<lparr>description = ''Wavetable electric piano. Rhodes-style as wavetable. Warm, bell-like.'', tags = [''wavetable'', ''piano'', ''electric'', ''rhodes''], category = ''wavetable''\<rparr>),
  (''wt_flute'',
    \<lparr>description = ''Wavetable flute. Flute timbre as wavetable. Airy, breathy.'', tags = [''wavetable'', ''flute'', ''airy'', ''breathy''], category = ''wavetable''\<rparr>),
  (''wt_oboe'',
    \<lparr>description = ''Wavetable oboe. Oboe as wavetable. Nasal, expressive, reedy.'', tags = [''wavetable'', ''oboe'', ''nasal'', ''reedy''], category = ''wavetable''\<rparr>),
  (''wt_piano'',
    \<lparr>description = ''Wavetable piano. Piano harmonics as wavetable. Bright, rich.'', tags = [''wavetable'', ''piano'', ''acoustic'', ''rich''], category = ''wavetable''\<rparr>),
  (''wt_theremin'',
    \<lparr>description = ''Wavetable theremin. Theremin-style wavetable. Eerie, vocal-like, sci-fi.'', tags = [''wavetable'', ''theremin'', ''eerie'', ''sci-fi''], category = ''wavetable''\<rparr>),
  (''wt_violin'',
    \<lparr>description = ''Wavetable violin. Violin as wavetable. Expressive, bowed, strings.'', tags = [''wavetable'', ''violin'', ''strings'', ''bowed''], category = ''wavetable''\<rparr>),
  (''wt_fmsynth'',
    \<lparr>description = ''Wavetable FM synthesis. FM synth textures. Digital, bell-like, metallic.'', tags = [''wavetable'', ''fm'', ''digital'', ''metallic''], category = ''wavetable''\<rparr>),
  (''wt_distorted'',
    \<lparr>description = ''Wavetable distorted. Heavy distortion wavetable. Aggressive, saturated.'', tags = [''wavetable'', ''distortion'', ''aggressive'', ''saturated''], category = ''wavetable''\<rparr>),
  (''wt_granular'',
    \<lparr>description = ''Wavetable granular. Granular synthesis texture. Textural, fragmented.'', tags = [''wavetable'', ''granular'', ''textural'', ''fragmented''], category = ''wavetable''\<rparr>),
  (''wt_birds'',
    \<lparr>description = ''Wavetable birds. Bird-like textures. Nature, chirping, organic.'', tags = [''wavetable'', ''birds'', ''nature'', ''organic''], category = ''wavetable''\<rparr>),
  (''wt_bitreduced'',
    \<lparr>description = ''Wavetable bit-reduced. Lo-fi, crushed. 8-bit, retro, crunchy.'', tags = [''wavetable'', ''bitcrush'', ''lo-fi'', ''8-bit''], category = ''wavetable''\<rparr>),
  (''wt_hdrawn'',
    \<lparr>description = ''Wavetable hand-drawn. Custom drawn waveforms. Unique, experimental.'', tags = [''wavetable'', ''hand-drawn'', ''custom'', ''experimental''], category = ''wavetable''\<rparr>),
  (''wt_hvoice'',
    \<lparr>description = ''Wavetable harmonic voice. Vocal harmonics. Choir-like, ethereal.'', tags = [''wavetable'', ''voice'', ''harmonic'', ''ethereal''], category = ''wavetable''\<rparr>),
  (''wt_linear'',
    \<lparr>description = ''Wavetable linear. Linear waveform morphing. Smooth, evolving.'', tags = [''wavetable'', ''linear'', ''smooth'', ''morphing''], category = ''wavetable''\<rparr>),
  (''wt_oscchip'',
    \<lparr>description = ''Wavetable oscillator chip. Chip-style waveforms. 8-bit, chiptune, retro.'', tags = [''wavetable'', ''chip'', ''8-bit'', ''chiptune''], category = ''wavetable''\<rparr>),
  (''wt_overtone'',
    \<lparr>description = ''Wavetable overtone. Rich overtone content. Harmonic, complex.'', tags = [''wavetable'', ''overtone'', ''harmonic'', ''complex''], category = ''wavetable''\<rparr>),
  (''wt_pluckalgo'',
    \<lparr>description = ''Wavetable pluck algorithm. Karplus-Strong style. Plucky, string-like.'', tags = [''wavetable'', ''pluck'', ''karplus-strong'', ''string''], category = ''wavetable''\<rparr>),
  (''wt_raw'',
    \<lparr>description = ''Wavetable raw. Unprocessed raw waveforms. Pure, fundamental.'', tags = [''wavetable'', ''raw'', ''pure'', ''unprocessed''], category = ''wavetable''\<rparr>),
  (''wt_sinharm'',
    \<lparr>description = ''Wavetable sine harmonic. Additive sine harmonics. Clean, pure, harmonic.'', tags = [''wavetable'', ''sine'', ''harmonic'', ''additive''], category = ''wavetable''\<rparr>),
  (''wt_snippets'',
    \<lparr>description = ''Wavetable snippets. Short audio snippets as wavetable. Glitchy, textural.'', tags = [''wavetable'', ''snippets'', ''glitch'', ''textural''], category = ''wavetable''\<rparr>),
  (''wt_stereo'',
    \<lparr>description = ''Wavetable stereo. Wide stereo wavetables. Spacious, wide.'', tags = [''wavetable'', ''stereo'', ''wide'', ''spacious''], category = ''wavetable''\<rparr>),
  (''wt_stringbox'',
    \<lparr>description = ''Wavetable string box. String ensemble wavetable. Lush, ensemble.'', tags = [''wavetable'', ''strings'', ''ensemble'', ''lush''], category = ''wavetable''\<rparr>),
  (''wt_symetric'',
    \<lparr>description = ''Wavetable symmetric. Symmetric waveforms. Balanced, clean.'', tags = [''wavetable'', ''symmetric'', ''balanced'', ''clean''], category = ''wavetable''\<rparr>),
  (''wt_vgame'',
    \<lparr>description = ''Wavetable video game. Video game sound textures. Retro, game, 8-bit.'', tags = [''wavetable'', ''video-game'', ''retro'', ''8-bit''], category = ''wavetable''\<rparr>),
  (''wt_vgamebasic'',
    \<lparr>description = ''Wavetable video game basic. Simple game waveforms. Chiptune, simple.'', tags = [''wavetable'', ''video-game'', ''basic'', ''chiptune''], category = ''wavetable''\<rparr>),
  (''wt_c604'',
    \<lparr>description = ''Wavetable C604. C64-style chip waveforms. Commodore, SID, 8-bit.'', tags = [''wavetable'', ''c64'', ''sid'', ''commodore''], category = ''wavetable''\<rparr>),
  (''wt_saw'',
    \<lparr>description = ''Wavetable sawtooth. Band-limited saw wave. Classic synth, aliasing-free.'', tags = [''wavetable'', ''sawtooth'', ''band-limited'', ''classic''], category = ''wavetable''\<rparr>),
  (''wt_square'',
    \<lparr>description = ''Wavetable square. Band-limited square wave. Hollow, punchy.'', tags = [''wavetable'', ''square'', ''band-limited'', ''hollow''], category = ''wavetable''\<rparr>),
  (''wt_triangle'',
    \<lparr>description = ''Wavetable triangle. Band-limited triangle wave. Soft, mellow.'', tags = [''wavetable'', ''triangle'', ''band-limited'', ''mellow''], category = ''wavetable''\<rparr>),
  (''wt_sine'',
    \<lparr>description = ''Wavetable sine. Pure sine as wavetable. Pure, fundamental, sub.'', tags = [''wavetable'', ''sine'', ''pure'', ''fundamental''], category = ''wavetable''\<rparr>)
]\<close>

text \<open>Standard kit sounds each drum machine supports.\<close>

definition kit_sounds :: "string list" where
  "kit_sounds = [''bd'', ''sd'', ''hh'', ''oh'', ''cp'', ''lt'', ''mt'', ''ht'', ''cy'', ''cb'', ''rs'', ''cr'']"

text \<open>
  The dictionary that each of the six loops of \<^verbatim>\<open>build_catalog\<close> appends to
  \<^verbatim>\<open>sounds\<close>, for the entry \<open>name\<close>, \<open>data\<close> of its table.
\<close>

definition gm_soundfont_sound :: "string \<Rightarrow> synth_data \<Rightarrow> 'f dict" where
  "gm_soundfont_sound name data =
     [(''id'', JStr name),
      (''name'', JStr name),
      (''description'', JStr (description data)),
      (''source'', JStr ''soundfonts''),
      (''category'', JStr (category data)),
      (''tags'', JArr (map JStr (tags data))),
      (''example'', JStr (example data))]"

definition dirt_sample_sound :: "string \<Rightarrow> sample_data \<Rightarrow> 'f dict" where
\<open>dirt_sample_sound name data =
     [(''id'', JStr name),
      (''name'', JStr name),
      (''description'', JStr (description data)),
      (''source'', JStr ''dirt-samples''),
      (''category'', JStr (category data)),
      (''tags'', JArr (map JStr (tags data))),
      (''example'', JStr (''s("'' @ name @ ''")''))]\<close>

definition builtin_synth_sound :: "string \<Rightarrow> synth_data \<Rightarrow> 'f dict" where
  "builtin_synth_sound name data =
     [(''id'', JStr name),
      (''name'', JStr name),
      (''description'', JStr (description data)),
      (''source'', JStr ''builtin''),
      (''category'', JStr (category data)),
      (''tags'', JArr (map JStr (tags data))),
      (''example'', JStr (example data))]"

definition drum_machine_sound :: "string \<Rightarrow> machine_data \<Rightarrow> 'f dict" where
\<open>drum_machine_sound machine_name data =
     [(''id'', JStr (lower machine_name)),
      (''name'', JStr machine_name),
      (''description'',
         JStr (description data @ '' Kit includes: '' @ join '', '' kit_sounds @ ''.'')),
      (''source'', JStr ''drum-machines''),
      (''category'', JStr ''drum_machine''),
      (''tags'', JArr (map JStr (tags data @ [''drum-machine'', ''kit'']))),
      (''example'', JStr (''s("bd sd hh hh").bank("'' @ machine_name @ ''")''))]\<close>

definition vcsl_instrument_sound :: "string \<Rightarrow> sample_data \<Rightarrow> 'f dict" where
\<open>vcsl_instrument_sound name data =
     [(''id'', JStr (''vcsl_'' @ name)),
      (''name'', JStr name),
      (''description'', JStr (description data)),
      (''source'', JStr ''vcsl''),
      (''category'', JStr (category data)),
      (''tags'', JArr (map JStr (tags data @ [''vcsl'', ''acoustic'', ''sample-library'']))),
      (''example'', JStr (''note("c4 e4 g4").s("'' @ name @ ''")''))]\<close>

definition wavetable_sound :: "string \<Rightarrow> sample_data \<Rightarrow> 'f dict" where
\<open>wavetable_sound name data =
     [(''id'', JStr name),
      (''name'', JStr name),
      (''description'', JStr (description data)),
      (''source'', JStr ''wavetables''),
      (''category'', JStr (category data)),
      (''tags'', JArr (map JStr (tags data @ [''looping'', ''synthesis'']))),
      (''example'', JStr (''note("c4 e4 g4").s("'' @ name @ ''").clip(2)''))]\<close>

text \<open>
  \<^verbatim>\<open>build_catalog()\<close>: \<^verbatim>\<open>sounds\<close> starts empty and each loop appends one record
  per entry of its table, the tables in the order of the source. The function takes no
  argument; here it takes the unit value.
\<close>

definition build_catalog :: "unit \<Rightarrow> 'f dict list" where
  "build_catalog u =
     (let sounds = [];
          sounds = sounds @ map (\<lambda>(name, data). gm_soundfont_sound name data) gm_soundfonts;
          sounds = sounds @ map (\<lambda>(name, data). dirt_sample_sound name data) dirt_samples;
          sounds = sounds @ map (\<lambda>(name, data). builtin_synth_sound name data) builtin_synths;
          sounds = sounds @ map (\<lambda>(machine_name, data). drum_machine_sound machine_name data) drum_machines;
          sounds = sounds @ map (\<lambda>(name, data). vcsl_instrument_sound name data) vcsl_instruments;
          sounds = sounds @ map (\<lambda>(name, data). wavetable_sound name data) wavetables
      in sounds)"

section \<open>Stage 2: the embedding generator\<close>

text \<open>
  The embedding libraries are outside the repository: what they do is a parameter of
  the model.
  \<^item> \<open>BGEM3FlagModel\<close>: what the \<^verbatim>\<open>try\<close> block of \<^verbatim>\<open>load_bge_m3\<close> gets from
    \<^verbatim>\<open>from FlagEmbedding import BGEM3FlagModel\<close> and
    \<^verbatim>\<open>BGEM3FlagModel("BAAI/bge-m3", use_fp16=True)\<close>: a model handle, or the
    exception that one of the two raises.
  \<^item> \<open>SentenceTransformer\<close>: the same for
    \<^verbatim>\<open>from sentence_transformers import SentenceTransformer\<close> and
    \<^verbatim>\<open>SentenceTransformer("BAAI/bge-m3")\<close>.
  \<^item> \<open>flag_encode model texts batch_size max_length\<close>: the rows of
    \<^verbatim>\<open>model.encode(texts, batch_size=..., max_length=..., return_dense=True,
    return_sparse=False, return_colbert_vecs=False)["dense_vecs"]\<close>, or the exception.
  \<^item> \<open>st_encode model texts batch_size\<close>: the rows of
    \<^verbatim>\<open>model.encode(texts, batch_size=..., show_progress_bar=True,
    normalize_embeddings=True)\<close>, or the exception.
  \<^item> \<open>str_of\<close>: Python's \<^verbatim>\<open>str\<close> on a JSON value that is not a string, which an
    f-string applies to such a value.
\<close>

record ('m, 'f) env =
  BGEM3FlagModel :: "exn + 'm"
  SentenceTransformer :: "exn + 'm"
  flag_encode :: "'m \<Rightarrow> string list \<Rightarrow> nat \<Rightarrow> nat \<Rightarrow> exn + 'f list list"
  st_encode :: "'m \<Rightarrow> string list \<Rightarrow> nat \<Rightarrow> exn + 'f list list"
  str_of :: "'f json \<Rightarrow> string"

text \<open>
  \<^verbatim>\<open>load_bge_m3\<close>: FlagEmbedding first; \<^verbatim>\<open>except ImportError\<close> goes on to
  sentence-transformers, whose exceptions nothing catches. An exception of the first
  attempt that is no \<^verbatim>\<open>ImportError\<close> is not caught either.
\<close>

definition load_bge_m3 :: "('m, 'f) env \<Rightarrow> exn + ('m \<times> string)" where
  "load_bge_m3 env =
     (case BGEM3FlagModel env of
        Inr model \<Rightarrow> Inr (model, ''flagembedding'')
      | Inl e \<Rightarrow>
          if e = ImportError
          then (case SentenceTransformer env of
                  Inl e' \<Rightarrow> Inl e'
                | Inr model \<Rightarrow> Inr (model, ''sentence-transformers''))
          else Inl e)"

text \<open>\<^verbatim>\<open>emb.tolist()\<close>: a row of the array is already a list here.\<close>

definition tolist :: "'f list \<Rightarrow> 'f list" where
  "tolist emb = emb"

definition generate_embeddings_flagembedding ::
  "('m, 'f) env \<Rightarrow> 'm \<Rightarrow> string list \<Rightarrow> exn + 'f list list" where
  "generate_embeddings_flagembedding env model texts =
     (case flag_encode env model texts 32 512 of
        Inl e \<Rightarrow> Inl e
      | Inr embeddings \<Rightarrow> Inr (map tolist embeddings))"

definition generate_embeddings_sentence_transformers ::
  "('m, 'f) env \<Rightarrow> 'm \<Rightarrow> string list \<Rightarrow> exn + 'f list list" where
  "generate_embeddings_sentence_transformers env model texts =
     (case st_encode env model texts 32 of
        Inl e \<Rightarrow> Inl e
      | Inr embeddings \<Rightarrow> Inr (map tolist embeddings))"

subsection \<open>The single-text entry point and its cache\<close>

text \<open>
  \<^verbatim>\<open>_model_cache = {"model": None, "backend": None}\<close> is the module's state. The
  state of a process is the cache and, for the claims about the loader, the number of
  times \<^verbatim>\<open>load_bge_m3\<close> has been called from \<^verbatim>\<open>generate_embedding\<close>.
\<close>

record 'm process =
  cache_model :: "'m option"
  cache_backend :: "string option"
  loader_runs :: nat

definition initial_process :: "'m process" where
  "initial_process = \<lparr>cache_model = None, cache_backend = None, loader_runs = 0\<rparr>"

text \<open>
  The second half of \<^verbatim>\<open>generate_embedding\<close>: the backend is chosen by the tag, the
  batch function is run on the one-element list, and \<^verbatim>\<open>embeddings[0]\<close> is returned
  (an empty result raises \<^verbatim>\<open>IndexError\<close>).
\<close>

definition embed_single ::
  "('m, 'f) env \<Rightarrow> 'm \<Rightarrow> string option \<Rightarrow> string \<Rightarrow> exn + 'f list" where
  "embed_single env model backend text =
     (case (if backend = Some ''flagembedding''
            then generate_embeddings_flagembedding env model [text]
            else generate_embeddings_sentence_transformers env model [text]) of
        Inl e \<Rightarrow> Inl e
      | Inr embeddings \<Rightarrow>
          (case embeddings of [] \<Rightarrow> Inl IndexError | emb # _ \<Rightarrow> Inr emb))"

text \<open>
  \<^verbatim>\<open>generate_embedding\<close>: with an empty cache the loader is called; the tuple
  assignment to the cache happens only when the loader returns, so an exception of the
  loader leaves the cache as it was. The result is the value or the exception of the
  call, and the state after it.
\<close>

definition generate_embedding ::
  "('m, 'f) env \<Rightarrow> 'm process \<Rightarrow> string \<Rightarrow> (exn + 'f list) \<times> 'm process" where
  "generate_embedding env p text =
     (case cache_model p of
        None \<Rightarrow>
          (case load_bge_m3 env of
             Inl e \<Rightarrow> (Inl e, p\<lparr>loader_runs := Suc (loader_runs p)\<rparr>)
           | Inr (model, backend) \<Rightarrow>
               (embed_single env model (Some backend) text,
                p\<lparr>cache_model := Some model, cache_backend := Some backend,
                  loader_runs := Suc (loader_runs p)\<rparr>))
      | Some model \<Rightarrow> (embed_single env model (cache_backend p) text, p))"

text \<open>
  A sequence of calls in one process, one call for each text, each on the state the
  call before it has left. A call that raises does not end the sequence: the caller may
  handle the exception and call again.
\<close>

fun calls ::
  "('m, 'f) env \<Rightarrow> 'm process \<Rightarrow> string list \<Rightarrow> (exn + 'f list) list \<times> 'm process" where
  "calls env p [] = ([], p)"
| "calls env p (text # texts) =
     (case generate_embedding env p text of
        (r, p') \<Rightarrow> (case calls env p' texts of (rs, p'') \<Rightarrow> (r # rs, p'')))"

subsection \<open>The search text\<close>

text \<open>
  An f-string field \<^verbatim>\<open>{v}\<close>: a string stands for itself, any other value for its
  \<^verbatim>\<open>str\<close>.
\<close>

definition format_value :: "('m, 'f) env \<Rightarrow> 'f json \<Rightarrow> string" where
  "format_value env v = (case v of JStr s \<Rightarrow> s | _ \<Rightarrow> str_of env v)"

text \<open>
  \<^verbatim>\<open>', '.join(v)\<close> on a JSON value: a list must hold strings only; a string is
  iterated character by character and a dictionary key by key; anything else is not
  iterable.
\<close>

fun str_items :: "'f json list \<Rightarrow> exn + string list" where
  "str_items [] = Inr []"
| "str_items (JStr s # vs) =
     (case str_items vs of Inl e \<Rightarrow> Inl e | Inr ss \<Rightarrow> Inr (s # ss))"
| "str_items (_ # vs) = Inl TypeError"

definition join_value :: "string \<Rightarrow> 'f json \<Rightarrow> exn + string" where
  "join_value sep v =
     (case v of
        JArr vs \<Rightarrow> (case str_items vs of Inl e \<Rightarrow> Inl e | Inr ss \<Rightarrow> Inr (join sep ss))
      | JStr s \<Rightarrow> Inr (join sep (map (\<lambda>c. [c]) s))
      | JObj kvs \<Rightarrow> Inr (join sep (map fst kvs))
      | _ \<Rightarrow> Inl TypeError)"

text \<open>
  \<^verbatim>\<open>build_search_text\<close>: the list \<^verbatim>\<open>parts\<close> is built from left to right, so the
  five keys are looked up in the order name, description, category, source, tags, and
  the tags are joined before \<^verbatim>\<open>" | ".join(parts)\<close> runs; that last join needs the
  name and the description to be strings.
\<close>

definition build_search_text :: "('m, 'f) env \<Rightarrow> 'f dict \<Rightarrow> exn + string" where
  "build_search_text env sound =
     (case getitem sound ''name'' of Inl e \<Rightarrow> Inl e | Inr v_name \<Rightarrow>
     (case getitem sound ''description'' of Inl e \<Rightarrow> Inl e | Inr v_description \<Rightarrow>
     (case getitem sound ''category'' of Inl e \<Rightarrow> Inl e | Inr v_category \<Rightarrow>
     (case getitem sound ''source'' of Inl e \<Rightarrow> Inl e | Inr v_source \<Rightarrow>
     (case getitem sound ''tags'' of Inl e \<Rightarrow> Inl e | Inr v_tags \<Rightarrow>
     (case join_value '', '' v_tags of Inl e \<Rightarrow> Inl e | Inr joined \<Rightarrow>
        join_value '' | ''
          (JArr [v_name,
                 v_description,
                 JStr (''Category: '' @ format_value env v_category),
                 JStr (''Source: '' @ format_value env v_source),
                 JStr (''Tags: '' @ joined)])))))))"

subsection \<open>The batch run\<close>

text \<open>
  \<^verbatim>\<open>[build_search_text(sound) for sound in sounds]\<close>: the first exception ends the
  comprehension.
\<close>

fun build_texts :: "('m, 'f) env \<Rightarrow> 'f dict list \<Rightarrow> exn + string list" where
  "build_texts env [] = Inr []"
| "build_texts env (sound # sounds) =
     (case build_search_text env sound of
        Inl e \<Rightarrow> Inl e
      | Inr text \<Rightarrow>
          (case build_texts env sounds of Inl e \<Rightarrow> Inl e | Inr texts \<Rightarrow> Inr (text # texts)))"

text \<open>
  The loop \<^verbatim>\<open>for i, sound in enumerate(sounds)\<close> from index \<open>i\<close> on: an index
  beyond the end of \<^verbatim>\<open>embeddings\<close> or \<^verbatim>\<open>texts\<close> raises \<^verbatim>\<open>IndexError\<close>.
\<close>

fun add_embeddings ::
  "nat \<Rightarrow> 'f list list \<Rightarrow> string list \<Rightarrow> 'f dict list \<Rightarrow> exn + 'f dict list" where
  "add_embeddings i embeddings texts [] = Inr []"
| "add_embeddings i embeddings texts (sound # sounds) =
     (if i < length embeddings \<and> i < length texts
      then (let sound = setitem sound ''embedding'' (JArr (map JNum (embeddings ! i)));
                sound = setitem sound ''search_text'' (JStr (texts ! i))
            in case add_embeddings (Suc i) embeddings texts sounds of
                 Inl e \<Rightarrow> Inl e
               | Inr sounds' \<Rightarrow> Inr (sound # sounds'))
      else Inl IndexError)"

text \<open>
  \<^verbatim>\<open>main\<close>, from the catalog that \<^verbatim>\<open>json.load\<close> has read (a list of
  dictionaries) to the list that \<^verbatim>\<open>json.dump\<close> writes to the output file. The file
  is written after the last record has its two new keys, so \<open>Inl\<close> means that no
  output was written. The sample print reads \<^verbatim>\<open>texts[0]\<close> and the dimension print
  \<^verbatim>\<open>embeddings[0]\<close>: each raises \<^verbatim>\<open>IndexError\<close> on an empty list.
\<close>

definition main :: "('m, 'f) env \<Rightarrow> 'f dict list \<Rightarrow> exn + 'f dict list" where
  "main env sounds =
     (case load_bge_m3 env of Inl e \<Rightarrow> Inl e | Inr (model, backend) \<Rightarrow>
     (case build_texts env sounds of Inl e \<Rightarrow> Inl e | Inr texts \<Rightarrow>
        if texts = [] then Inl IndexError
        else (case (if backend = ''flagembedding''
                    then generate_embeddings_flagembedding env model texts
                    else generate_embeddings_sentence_transformers env model texts) of
                Inl e \<Rightarrow> Inl e
              | Inr embeddings \<Rightarrow>
                  if embeddings = [] then Inl IndexError
                  else add_embeddings 0 embeddings texts sounds)))"

section \<open>Terms of the specification\<close>

text \<open>
  Removing the two keys that stage 2 adds, as \<^verbatim>\<open>del sound["embedding"]\<close> and
  \<^verbatim>\<open>del sound["search_text"]\<close> would (here a key that is absent is not an error).
\<close>

definition strip :: "'f dict \<Rightarrow> 'f dict" where
  "strip sound = AList.delete ''search_text'' (AList.delete ''embedding'' sound)"

text \<open>
  The keys that \<^verbatim>\<open>build_search_text\<close> reads, in the order in which it reads them,
  and the first of them that a record lacks.
\<close>

definition read_keys :: "string list" where
  "read_keys = [''name'', ''description'', ''category'', ''source'', ''tags'']"

definition first_missing :: "'f dict \<Rightarrow> string option" where
  "first_missing sound = find (\<lambda>k. map_of sound k = None) read_keys"

section \<open>Substitute backends and sample records\<close>

text \<open>
  Concrete environments, with natural numbers as model handles and integers as the
  numbers of a vector: a backend embeds a text as the one-element vector of its length.
  In \<open>both_env\<close> both libraries load, in \<open>fallback_env\<close> only
  sentence-transformers is installed, in \<open>no_backend_env\<close> neither is.
\<close>

definition both_env :: "(nat, int) env" where
  "both_env =
     \<lparr>BGEM3FlagModel = Inr 0,
      SentenceTransformer = Inr 1,
      flag_encode = (\<lambda>model texts batch_size max_length. Inr (map (\<lambda>t. [int (length t)]) texts)),
      st_encode = (\<lambda>model texts batch_size. Inr (map (\<lambda>t. [- int (length t)]) texts)),
      str_of = (\<lambda>v. ''?'')\<rparr>"

definition fallback_env :: "(nat, int) env" where
  "fallback_env = both_env\<lparr>BGEM3FlagModel := Inl ImportError\<rparr>"

definition no_backend_env :: "(nat, int) env" where
  "no_backend_env =
     both_env\<lparr>BGEM3FlagModel := Inl ImportError, SentenceTransformer := Inl ImportError\<rparr>"

text \<open>The record of the scenario in the specification, and a second one.\<close>

definition sine_sound :: "int dict" where
\<open>sine_sound =
     [(''id'', JStr ''sine''),
      (''name'', JStr ''sine''),
      (''description'', JStr ''pure tone''),
      (''source'', JStr ''builtin''),
      (''category'', JStr ''oscillator''),
      (''tags'', JArr [JStr ''pure'']),
      (''example'', JStr ''s("sine")'')]\<close>

definition saw_sound :: "int dict" where
\<open>saw_sound =
     [(''id'', JStr ''saw''),
      (''name'', JStr ''saw''),
      (''description'', JStr ''bright tone''),
      (''source'', JStr ''builtin''),
      (''category'', JStr ''oscillator''),
      (''tags'', JArr [JStr ''bright'', JStr ''buzzy'']),
      (''example'', JStr ''s("saw")'')]\<close>

text \<open>What stage 2 writes for these two records with \<open>both_env\<close>.\<close>

definition sine_embedded :: "int dict" where
  "sine_embedded =
     sine_sound
     @ [(''embedding'', JArr [JNum 70]),
        (''search_text'',
         JStr ''sine | pure tone | Category: oscillator | Source: builtin | Tags: pure'')]"

definition saw_embedded :: "int dict" where
  "saw_embedded =
     saw_sound
     @ [(''embedding'', JArr [JNum 80]),
        (''search_text'',
         JStr ''saw | bright tone | Category: oscillator | Source: builtin | Tags: bright, buzzy'')]"

text \<open>The first record without its \<^verbatim>\<open>id\<close>, and without its \<^verbatim>\<open>name\<close>.\<close>

definition sine_without_id :: "int dict" where
\<open>sine_without_id =
     [(''name'', JStr ''sine''),
      (''description'', JStr ''pure tone''),
      (''source'', JStr ''builtin''),
      (''category'', JStr ''oscillator''),
      (''tags'', JArr [JStr ''pure'']),
      (''example'', JStr ''s("sine")'')]\<close>

definition sine_without_name :: "int dict" where
\<open>sine_without_name =
     [(''id'', JStr ''sine''),
      (''description'', JStr ''pure tone''),
      (''source'', JStr ''builtin''),
      (''category'', JStr ''oscillator''),
      (''tags'', JArr [JStr ''pure'']),
      (''example'', JStr ''s("sine")'')]\<close>

section \<open>Facts about the tables and the catalog\<close>

lemma length_gm_soundfonts: "length gm_soundfonts = 115"
  unfolding gm_soundfonts_def by simp

lemma length_dirt_samples: "length dirt_samples = 219"
  unfolding dirt_samples_def by simp

lemma length_builtin_synths: "length builtin_synths = 6"
  unfolding builtin_synths_def by simp

lemma length_drum_machines: "length drum_machines = 72"
  unfolding drum_machines_def by simp

lemma length_vcsl_instruments: "length vcsl_instruments = 80"
  unfolding vcsl_instruments_def by simp

lemma length_wavetables: "length wavetables = 59"
  unfolding wavetables_def by simp

lemma join_kit_sounds:
  "join '', '' kit_sounds = ''bd, sd, hh, oh, cp, lt, mt, ht, cy, cb, rs, cr''"
  by (simp add: kit_sounds_def)

text \<open>The catalog is the concatenation of the six tables' records, in this order.\<close>

lemma build_catalog_append:
  "build_catalog () =
     map (\<lambda>(name, data). gm_soundfont_sound name data) gm_soundfonts
     @ map (\<lambda>(name, data). dirt_sample_sound name data) dirt_samples
     @ map (\<lambda>(name, data). builtin_synth_sound name data) builtin_synths
     @ map (\<lambda>(machine_name, data). drum_machine_sound machine_name data) drum_machines
     @ map (\<lambda>(name, data). vcsl_instrument_sound name data) vcsl_instruments
     @ map (\<lambda>(name, data). wavetable_sound name data) wavetables"
  by (simp add: build_catalog_def)

lemma length_build_catalog: "length (build_catalog ()) = 551"
  by (simp add: build_catalog_append length_gm_soundfonts length_dirt_samples
      length_builtin_synths length_drum_machines length_vcsl_instruments length_wavetables)

text \<open>The first drum machine and the first sample-library instrument of the source.\<close>

lemma hd_drum_machines:
  "hd drum_machines =
     (''AJKPercusyn'',
      \<lparr>description = ''AJK Percusyn drum synth. Analog percussion synthesizer. Unique electronic drums.'',
       tags = [''percusyn'', ''analog'', ''synth-drums'', ''electronic'']\<rparr>)"
  unfolding drum_machines_def by (simp only: list.sel)

lemma hd_vcsl_instruments:
  "hd vcsl_instruments =
     (''ballwhistle'',
      \<lparr>description = ''Ball whistle percussion. Sports referee whistle. Shrill, attention-getting.'',
       tags = [''whistle'', ''ball'', ''sports'', ''sfx''],
       category = ''percussion''\<rparr>)"
  unfolding vcsl_instruments_def by (simp only: list.sel)

lemma drum_machines_in_catalog:
  "take 72 (drop 340 (build_catalog ())) =
     map (\<lambda>(machine_name, data). drum_machine_sound machine_name data) drum_machines"
  by (simp add: build_catalog_append length_gm_soundfonts length_dirt_samples
      length_builtin_synths length_drum_machines)

lemma vcsl_instruments_in_catalog:
  "take 80 (drop 412 (build_catalog ())) =
     map (\<lambda>(name, data). vcsl_instrument_sound name data) vcsl_instruments"
  by (simp add: build_catalog_append length_gm_soundfonts length_dirt_samples
      length_builtin_synths length_drum_machines length_vcsl_instruments)

text \<open>The records at the positions where these two tables start.\<close>

lemma build_catalog_340:
  "(build_catalog () :: 'f dict list) ! 340
     = drum_machine_sound (fst (hd drum_machines)) (snd (hd drum_machines))"
proof -
  have "drum_machines \<noteq> []"
    using length_drum_machines by auto
  then have first: "map (\<lambda>(machine_name, data). drum_machine_sound machine_name data) drum_machines ! 0
      = (drum_machine_sound (fst (hd drum_machines)) (snd (hd drum_machines)) :: 'f dict)"
    by (simp add: hd_conv_nth case_prod_unfold)
  have "(build_catalog () :: 'f dict list) ! 340 = take 72 (drop 340 (build_catalog ())) ! 0"
    by (simp add: length_build_catalog)
  also have "\<dots> = map (\<lambda>(machine_name, data). drum_machine_sound machine_name data) drum_machines ! 0"
    by (simp only: drum_machines_in_catalog)
  finally show ?thesis
    using first by simp
qed

lemma build_catalog_412:
  "(build_catalog () :: 'f dict list) ! 412
     = vcsl_instrument_sound (fst (hd vcsl_instruments)) (snd (hd vcsl_instruments))"
proof -
  have "vcsl_instruments \<noteq> []"
    using length_vcsl_instruments by auto
  then have first: "map (\<lambda>(name, data). vcsl_instrument_sound name data) vcsl_instruments ! 0
      = (vcsl_instrument_sound (fst (hd vcsl_instruments)) (snd (hd vcsl_instruments)) :: 'f dict)"
    by (simp add: hd_conv_nth case_prod_unfold)
  have "(build_catalog () :: 'f dict list) ! 412 = take 80 (drop 412 (build_catalog ())) ! 0"
    by (simp add: length_build_catalog)
  also have "\<dots> = map (\<lambda>(name, data). vcsl_instrument_sound name data) vcsl_instruments ! 0"
    by (simp only: vcsl_instruments_in_catalog)
  finally show ?thesis
    using first by simp
qed

text \<open>
  No table repeats a key, so every entry of a literal is an entry of the dictionary.
\<close>

lemma distinct_gm_soundfonts: "distinct (map fst gm_soundfonts)"
  unfolding gm_soundfonts_def by simp

lemma distinct_dirt_samples: "distinct (map fst dirt_samples)"
  unfolding dirt_samples_def by simp

lemma distinct_builtin_synths: "distinct (map fst builtin_synths)"
  unfolding builtin_synths_def by simp

lemma distinct_drum_machines: "distinct (map fst drum_machines)"
  unfolding drum_machines_def by simp

lemma distinct_vcsl_instruments: "distinct (map fst vcsl_instruments)"
  unfolding vcsl_instruments_def by simp

lemma distinct_wavetables: "distinct (map fst wavetables)"
  unfolding wavetables_def by simp

section \<open>Facts about stage 2\<close>

subsection \<open>Dictionaries\<close>

lemma getitem_setitem:
  "getitem (setitem d k v) k' = (if k' = k then Inr v else getitem d k')"
  by (simp add: getitem_def setitem_def update_conv')

lemma strip_setitem:
  assumes "''embedding'' \<notin> fst ` set sound" and "''search_text'' \<notin> fst ` set sound"
  shows "strip (setitem (setitem sound ''embedding'' v) ''search_text'' w) = sound"
proof -
  have "AList.delete ''embedding'' (AList.update ''search_text'' w (AList.update ''embedding'' v sound))
      = AList.update ''search_text'' w (AList.delete ''embedding'' (AList.update ''embedding'' v sound))"
    by (rule delete_update) simp
  also have "AList.delete ''embedding'' (AList.update ''embedding'' v sound) = sound"
    using assms(1) by (simp add: delete_update_same)
  finally show ?thesis
    using assms(2) by (simp add: strip_def setitem_def delete_update_same)
qed

subsection \<open>The search texts\<close>

lemma str_items_map_JStr: "str_items (map JStr ss) = Inr ss"
  by (induction ss) simp_all

lemma build_texts_length:
  "build_texts env sounds = Inr texts \<Longrightarrow> length texts = length sounds"
  by (induction sounds arbitrary: texts) (auto split: sum.splits)

lemma build_texts_nth:
  "build_texts env sounds = Inr texts \<Longrightarrow> i < length sounds
   \<Longrightarrow> build_search_text env (sounds ! i) = Inr (texts ! i)"
proof (induction sounds arbitrary: texts i)
  case Nil
  then show ?case by simp
next
  case (Cons sound sounds)
  then show ?case
    by (cases i) (auto split: sum.splits)
qed

text \<open>The comprehension raises what the first failing record raises.\<close>

lemma build_texts_first_error:
  assumes "i < length sounds"
    and "build_search_text env (sounds ! i) = Inl e"
    and "\<forall>j<i. isl (build_search_text env (sounds ! j)) = False"
  shows "build_texts env sounds = Inl e"
  using assms
proof (induction sounds arbitrary: i)
  case Nil
  then show ?case by simp
next
  case (Cons sound sounds)
  show ?case
  proof (cases i)
    case 0
    with Cons.prems show ?thesis by simp
  next
    case (Suc i')
    from Cons.prems(3) Suc have "isl (build_search_text env sound) = False"
      by (metis nth_Cons_0 zero_less_Suc)
    then obtain t where t: "build_search_text env sound = Inr t"
      by (cases "build_search_text env sound") auto
    have "\<forall>j<i'. isl (build_search_text env (sounds ! j)) = False"
      using Cons.prems(3) Suc by (metis Suc_less_eq nth_Cons_Suc)
    with Cons.IH [of i'] Cons.prems(1,2) Suc have "build_texts env sounds = Inl e"
      by simp
    with t show ?thesis by simp
  qed
qed

lemma build_texts_error:
  assumes "i < length sounds" and "isl (build_search_text env (sounds ! i))"
  shows "isl (build_texts env sounds)"
  using assms
proof (induction sounds arbitrary: i)
  case Nil
  then show ?case by simp
next
  case (Cons sound sounds)
  then show ?case
    by (cases i) (auto split: sum.splits)
qed

lemma build_texts_total:
  "\<forall>sound\<in>set sounds. isl (build_search_text env sound) = False
   \<Longrightarrow> isl (build_texts env sounds) = False"
  by (induction sounds) (auto split: sum.splits)

subsection \<open>Attaching the vectors\<close>

lemma add_embeddings_length:
  "add_embeddings i embeddings texts sounds = Inr out \<Longrightarrow> length out = length sounds"
  by (induction sounds arbitrary: i out) (auto simp: Let_def split: if_splits sum.splits)

lemma add_embeddings_nth:
  "add_embeddings i embeddings texts sounds = Inr out \<Longrightarrow> j < length sounds
   \<Longrightarrow> out ! j =
       setitem (setitem (sounds ! j) ''embedding'' (JArr (map JNum (embeddings ! (i + j)))))
         ''search_text'' (JStr (texts ! (i + j)))"
proof (induction sounds arbitrary: i j out)
  case Nil
  then show ?case by simp
next
  case (Cons sound sounds)
  then show ?case
    by (cases j) (auto simp: Let_def split: if_splits sum.splits)
qed

lemma add_embeddings_strip:
  assumes "add_embeddings i embeddings texts sounds = Inr out"
    and "\<forall>sound\<in>set sounds. ''embedding'' \<notin> fst ` set sound \<and> ''search_text'' \<notin> fst ` set sound"
  shows "map strip out = sounds"
  using assms
proof (induction sounds arbitrary: i out)
  case Nil
  then show ?case by simp
next
  case (Cons sound sounds)
  from Cons.prems(1) obtain out' where
    rest: "add_embeddings (Suc i) embeddings texts sounds = Inr out'" and
    out: "out = setitem (setitem sound ''embedding'' (JArr (map JNum (embeddings ! i))))
                  ''search_text'' (JStr (texts ! i)) # out'"
    by (auto simp: Let_def split: if_splits sum.splits)
  have "map strip out' = sounds"
    using Cons.IH [OF rest] Cons.prems(2) by simp
  moreover have "strip (setitem (setitem sound ''embedding'' (JArr (map JNum (embeddings ! i))))
                  ''search_text'' (JStr (texts ! i))) = sound"
    using Cons.prems(2) by (intro strip_setitem) simp_all
  ultimately show ?case
    using out by simp
qed

lemma add_embeddings_total:
  "i + length sounds \<le> length embeddings \<Longrightarrow> i + length sounds \<le> length texts
   \<Longrightarrow> isl (add_embeddings i embeddings texts sounds) = False"
proof (induction sounds arbitrary: i)
  case Nil
  then show ?case by simp
next
  case (Cons sound sounds)
  from Cons.prems have "isl (add_embeddings (Suc i) embeddings texts sounds) = False"
    by (intro Cons.IH) simp_all
  with Cons.prems show ?case
    by (cases "add_embeddings (Suc i) embeddings texts sounds") (simp_all add: Let_def)
qed

subsection \<open>The batch run\<close>

text \<open>What a run that writes its output has gone through.\<close>

lemma main_InrD:
  assumes "main env sounds = Inr out"
  obtains model backend texts embeddings where
    "load_bge_m3 env = Inr (model, backend)"
    "build_texts env sounds = Inr texts"
    "texts \<noteq> []"
    "(if backend = ''flagembedding''
      then generate_embeddings_flagembedding env model texts
      else generate_embeddings_sentence_transformers env model texts) = Inr embeddings"
    "embeddings \<noteq> []"
    "add_embeddings 0 embeddings texts sounds = Inr out"
proof -
  from assms obtain model backend where l: "load_bge_m3 env = Inr (model, backend)"
    by (cases "load_bge_m3 env") (auto simp: main_def)
  from assms l obtain texts where t: "build_texts env sounds = Inr texts"
    by (cases "build_texts env sounds") (auto simp: main_def)
  from assms l t have ne: "texts \<noteq> []"
    by (auto simp: main_def split: if_splits)
  let ?batch = "if backend = ''flagembedding''
      then generate_embeddings_flagembedding env model texts
      else generate_embeddings_sentence_transformers env model texts"
  from assms l t ne obtain embeddings where b: "?batch = Inr embeddings"
    by (cases ?batch) (auto simp: main_def)
  from assms l t ne b have e: "embeddings \<noteq> []" and a: "add_embeddings 0 embeddings texts sounds = Inr out"
    by (auto simp: main_def split: if_splits)
  from l t ne b e a show thesis by (rule that)
qed

text \<open>No output is written when a search text cannot be built.\<close>

lemma main_fails_when_texts_fail:
  "isl (build_texts env sounds) \<Longrightarrow> isl (main env sounds)"
  by (auto simp: main_def split: sum.splits prod.splits)

lemma main_raises_text_error:
  "load_bge_m3 env = Inr mb \<Longrightarrow> build_texts env sounds = Inl e \<Longrightarrow> main env sounds = Inl e"
  by (cases mb) (simp add: main_def)

text \<open>
  A run completes on a catalog that is not empty and whose records all yield a search
  text, when a backend loads and returns at least one vector for each text.
\<close>

lemma main_completes:
  assumes "load_bge_m3 env = Inr (model, backend)"
    and "sounds \<noteq> []"
    and "\<forall>sound\<in>set sounds. isl (build_search_text env sound) = False"
    and "\<forall>texts. length texts = length sounds
           \<longrightarrow> (\<exists>vectors.
                 (if backend = ''flagembedding''
                  then generate_embeddings_flagembedding env model texts
                  else generate_embeddings_sentence_transformers env model texts) = Inr vectors
                 \<and> length texts \<le> length vectors)"
  shows "isl (main env sounds) = False"
proof -
  from assms(3) obtain texts where t: "build_texts env sounds = Inr texts"
    using build_texts_total [of sounds env] by (cases "build_texts env sounds") auto
  then have len: "length texts = length sounds"
    by (rule build_texts_length)
  with assms(2) have ne: "texts \<noteq> []" by auto
  from assms(4) len obtain vectors where
    v: "(if backend = ''flagembedding''
         then generate_embeddings_flagembedding env model texts
         else generate_embeddings_sentence_transformers env model texts) = Inr vectors"
    and vlen: "length texts \<le> length vectors"
    by blast
  from vlen ne have vne: "vectors \<noteq> []" by auto
  have "isl (add_embeddings 0 vectors texts sounds) = False"
    using vlen len by (intro add_embeddings_total) simp_all
  then show ?thesis
    using assms(1) v t ne vne by (simp add: main_def)
qed

subsection \<open>A run on two records, missing keys, and calls on a loaded cache\<close>

lemma main_sine_saw: "main both_env [sine_sound, saw_sound] = Inr [sine_embedded, saw_embedded]"
  by (simp add: main_def load_bge_m3_def both_env_def build_search_text_def sine_sound_def
      saw_sound_def getitem_def join_value_def format_value_def
      generate_embeddings_flagembedding_def tolist_def setitem_def sine_embedded_def
      saw_embedded_def)

text \<open>A record that lacks a key that is read raises \<^verbatim>\<open>KeyError\<close> for the first such key.\<close>

lemma first_missing_KeyError:
  "first_missing sound = Some k \<Longrightarrow> build_search_text env sound = Inl (KeyError k)"
  by (auto simp: first_missing_def read_keys_def build_search_text_def getitem_def
      split: if_splits option.splits)

text \<open>
  With a model in the cache no call changes the state; from an empty cache a load that
  fails leaves it empty, and a load that succeeds fills it on the first call.
\<close>

lemma calls_loaded:
  "cache_model p = Some model
   \<Longrightarrow> calls env p texts = (map (embed_single env model (cache_backend p)) texts, p)"
  by (induction texts) (simp_all add: generate_embedding_def)

lemma calls_load_fails:
  "cache_model p = None \<Longrightarrow> load_bge_m3 env = Inl e
   \<Longrightarrow> calls env p texts
       = (map (\<lambda>t. Inl e) texts, p\<lparr>loader_runs := loader_runs p + length texts\<rparr>)"
  by (induction texts arbitrary: p) (simp_all add: generate_embedding_def)

lemma calls_load_once:
  assumes "cache_model p = None" and "load_bge_m3 env = Inr (model, backend)"
  shows "snd (calls env p (t # texts))
     = p\<lparr>cache_model := Some model, cache_backend := Some backend,
         loader_runs := Suc (loader_runs p)\<rparr>"
  using assms by (simp add: generate_embedding_def calls_loaded split: prod.splits)


section \<open>Stage 2 on the output of stage 1\<close>

text \<open>\<^verbatim>\<open>lower\<close> on the name of the first drum machine.\<close>

lemma lower_AJKPercusyn: "lower ''AJKPercusyn'' = ''ajkpercusyn''"
  by (simp add: lower_def lower_char_def char_of_eq_iff)

text \<open>
  Every record of the catalog has the seven keys of \<^verbatim>\<open>SoundEntry\<close>, in the order
  of the source, and no other.
\<close>

lemma sound_keys:
  "map fst (gm_soundfont_sound name ydata)
     = [''id'', ''name'', ''description'', ''source'', ''category'', ''tags'', ''example'']"
  "map fst (dirt_sample_sound name sdata)
     = [''id'', ''name'', ''description'', ''source'', ''category'', ''tags'', ''example'']"
  "map fst (builtin_synth_sound name ydata)
     = [''id'', ''name'', ''description'', ''source'', ''category'', ''tags'', ''example'']"
  "map fst (drum_machine_sound name mdata)
     = [''id'', ''name'', ''description'', ''source'', ''category'', ''tags'', ''example'']"
  "map fst (vcsl_instrument_sound name sdata)
     = [''id'', ''name'', ''description'', ''source'', ''category'', ''tags'', ''example'']"
  "map fst (wavetable_sound name sdata)
     = [''id'', ''name'', ''description'', ''source'', ''category'', ''tags'', ''example'']"
  by (simp_all add: gm_soundfont_sound_def dirt_sample_sound_def builtin_synth_sound_def
      drum_machine_sound_def vcsl_instrument_sound_def wavetable_sound_def)

lemma build_catalog_keys:
  assumes "sound \<in> set (build_catalog ())"
  shows "map fst sound
     = [''id'', ''name'', ''description'', ''source'', ''category'', ''tags'', ''example'']"
  using assms by (auto simp: build_catalog_append sound_keys)

lemma build_catalog_no_stage2_keys:
  assumes "sound \<in> set (build_catalog ())"
  shows "''embedding'' \<notin> fst ` set sound \<and> ''search_text'' \<notin> fst ` set sound"
proof -
  have "fst ` set sound = set (map fst sound)"
    by simp
  then show ?thesis
    by (simp only: build_catalog_keys [OF assms]) simp
qed

text \<open>Every record of the catalog yields a search text.\<close>

lemma str_items_map_JStr_append:
  "str_items (map JStr ss @ vs)
     = (case str_items vs of Inl e \<Rightarrow> Inl e | Inr ts \<Rightarrow> Inr (ss @ ts))"
  by (induction ss) (simp_all split: sum.splits)

lemma sound_search_text:
  "isl (build_search_text env (gm_soundfont_sound name ydata)) = False"
  "isl (build_search_text env (dirt_sample_sound name sdata)) = False"
  "isl (build_search_text env (builtin_synth_sound name ydata)) = False"
  "isl (build_search_text env (drum_machine_sound name mdata)) = False"
  "isl (build_search_text env (vcsl_instrument_sound name sdata)) = False"
  "isl (build_search_text env (wavetable_sound name sdata)) = False"
  by (simp_all add: build_search_text_def getitem_def join_value_def str_items_map_JStr
      str_items_map_JStr_append gm_soundfont_sound_def dirt_sample_sound_def builtin_synth_sound_def
      drum_machine_sound_def vcsl_instrument_sound_def wavetable_sound_def)

lemma build_catalog_search_text:
  "sound \<in> set (build_catalog ()) \<Longrightarrow> isl (build_search_text env sound) = False"
  by (auto simp: build_catalog_append sound_search_text)

text \<open>
  Stage 2 on the output of stage 1: when a backend loads and returns at least one vector
  for each text, the run writes its output, and removing the two new keys from it gives
  the catalog of stage 1 back.
\<close>

lemma stage2_on_stage1_output:
  assumes "load_bge_m3 env = Inr (model, backend)"
    and "\<forall>texts. length texts = length (build_catalog () :: 'f dict list)
           \<longrightarrow> (\<exists>vectors.
                 (if backend = ''flagembedding''
                  then generate_embeddings_flagembedding env model texts
                  else generate_embeddings_sentence_transformers env model texts) = Inr vectors
                 \<and> length texts \<le> length vectors)"
  shows "\<exists>out. main (env :: ('m, 'f) env) (build_catalog ()) = Inr out
               \<and> map strip out = build_catalog ()"
proof -
  have "length (build_catalog () :: 'f dict list) = 551"
    by (rule length_build_catalog)
  then have ne: "(build_catalog () :: 'f dict list) \<noteq> []"
    by auto
  have texts: "\<forall>sound\<in>set (build_catalog ()). isl (build_search_text env sound) = False"
    by (simp add: build_catalog_search_text)
  have "isl (main env (build_catalog ())) = False"
    by (rule main_completes [OF assms(1) ne texts assms(2)])
  then obtain out where out: "main env (build_catalog ()) = Inr out"
    by (cases "main env (build_catalog ())") auto
  then obtain m b texts embeddings where
    "add_embeddings 0 embeddings texts (build_catalog ()) = Inr out"
    by (rule main_InrD)
  then have "map strip out = build_catalog ()"
    by (rule add_embeddings_strip) (simp add: build_catalog_no_stage2_keys)
  with out show ?thesis by simp
qed

section \<open>The claims about stage 1\<close>

text \<open>
  Claim C3, as the specification states it: the number of records of the catalog is the
  sum of the numbers of entries of five tables (built-in synths, sample banks, drum
  machines, sample-library instruments, wavetables). It does not hold: the catalog has
  551 records and these five tables have 436 entries; the 115 soundfonts come first in
  the catalog.
\<close>

theorem five_tables_counterexample:
  "length (build_catalog () :: 'f dict list) = 551
   \<and> length builtin_synths + length dirt_samples + length drum_machines
       + length vcsl_instruments + length wavetables = 436
   \<and> length (build_catalog () :: 'f dict list)
       \<noteq> length builtin_synths + length dirt_samples + length drum_machines
         + length vcsl_instruments + length wavetables"
  by (simp add: length_build_catalog length_dirt_samples length_builtin_synths
      length_drum_machines length_vcsl_instruments length_wavetables)

text \<open>
  Claim C3, amended. The number of records of the catalog is the sum of the numbers of
  entries of six tables: the soundfonts, the sample banks, the built-in synths, the drum
  machines, the sample-library instruments and the wavetables.
\<close>

theorem catalog_count_is_sum_of_six_tables:
  "length (build_catalog () :: 'f dict list)
     = length gm_soundfonts + length dirt_samples + length builtin_synths
       + length drum_machines + length vcsl_instruments + length wavetables"
  by (simp add: build_catalog_append)

text \<open>
  Claim C4, as the specification states it: the drum machines are the only table whose
  records have an \<^verbatim>\<open>id\<close> other than the key of the entry. It does not hold: the
  record of the sample-library instrument \<^verbatim>\<open>ballwhistle\<close>, at position 412 of the
  catalog, has the \<^verbatim>\<open>id\<close> \<^verbatim>\<open>vcsl_ballwhistle\<close>.
\<close>

theorem vcsl_id_counterexample:
  "fst (hd vcsl_instruments) = ''ballwhistle''
   \<and> (build_catalog () :: 'f dict list) ! 412
     = vcsl_instrument_sound ''ballwhistle'' (snd (hd vcsl_instruments))
   \<and> getitem ((build_catalog () :: 'f dict list) ! 412) ''id'' = Inr (JStr ''vcsl_ballwhistle'')
   \<and> getitem ((build_catalog () :: 'f dict list) ! 412) ''id'' \<noteq> Inr (JStr ''ballwhistle'')"
  by (simp add: build_catalog_412 hd_vcsl_instruments vcsl_instrument_sound_def getitem_def)

text \<open>
  Claim C4, amended. The \<^verbatim>\<open>id\<close> of a drum-machine record is the machine name in
  lower case; the \<^verbatim>\<open>id\<close> of a sample-library record is the key with the prefix
  \<^verbatim>\<open>vcsl_\<close>; the \<^verbatim>\<open>id\<close> of a record of any of the four other tables is the
  key itself.
\<close>

theorem record_ids:
  "getitem (drum_machine_sound machine_name mdata :: 'f dict) ''id''
     = Inr (JStr (lower machine_name))
   \<and> getitem (vcsl_instrument_sound name sdata :: 'f dict) ''id'' = Inr (JStr (''vcsl_'' @ name))
   \<and> getitem (gm_soundfont_sound name ydata :: 'f dict) ''id'' = Inr (JStr name)
   \<and> getitem (dirt_sample_sound name sdata :: 'f dict) ''id'' = Inr (JStr name)
   \<and> getitem (builtin_synth_sound name ydata :: 'f dict) ''id'' = Inr (JStr name)
   \<and> getitem (wavetable_sound name sdata :: 'f dict) ''id'' = Inr (JStr name)"
  by (simp add: getitem_def drum_machine_sound_def vcsl_instrument_sound_def
      gm_soundfont_sound_def dirt_sample_sound_def builtin_synth_sound_def wavetable_sound_def)

text \<open>
  Claim C5, as the specification states it: the tags of a drum-machine record are the
  tags of the entry followed by the twelve kit-piece abbreviations. It does not hold: the
  record of the first drum machine, \<^verbatim>\<open>AJKPercusyn\<close>, at position 340 of the catalog,
  has the four tags of its entry followed by \<^verbatim>\<open>drum-machine\<close> and \<^verbatim>\<open>kit\<close>.
\<close>

theorem drum_machine_tags_counterexample:
  "fst (hd drum_machines) = ''AJKPercusyn''
   \<and> (build_catalog () :: 'f dict list) ! 340
     = drum_machine_sound ''AJKPercusyn'' (snd (hd drum_machines))
   \<and> getitem ((build_catalog () :: 'f dict list) ! 340) ''tags''
     = Inr (JArr [JStr ''percusyn'', JStr ''analog'', JStr ''synth-drums'', JStr ''electronic'',
                  JStr ''drum-machine'', JStr ''kit''])
   \<and> getitem ((build_catalog () :: 'f dict list) ! 340) ''tags''
     \<noteq> Inr (JArr (map JStr (tags (snd (hd drum_machines)) @ kit_sounds)))"
  by (simp add: build_catalog_340 hd_drum_machines drum_machine_sound_def getitem_def
      kit_sounds_def)

text \<open>
  Claim C5, amended. The tags of a drum-machine record are the tags of the entry followed
  by the two tags \<^verbatim>\<open>drum-machine\<close> and \<^verbatim>\<open>kit\<close>.
\<close>

theorem drum_machine_tags:
  "getitem (drum_machine_sound machine_name data) ''tags''
     = Inr (JArr (map JStr (tags data @ [''drum-machine'', ''kit''])))"
  by (simp add: getitem_def drum_machine_sound_def)

text \<open>
  Claim C6. The description of a drum-machine record is the description of the entry
  followed by \<^verbatim>\<open>" Kit includes: "\<close>, the twelve kit-piece abbreviations bd, sd, hh,
  oh, cp, lt, mt, ht, cy, cb, rs, cr joined with \<^verbatim>\<open>", "\<close>, and a full stop. This
  holds for the record of any entry, and so for the 72 drum-machine records of the
  catalog, which stand at the positions from 340 on.
\<close>

theorem drum_machine_description:
  "getitem (drum_machine_sound machine_name data :: 'f dict) ''description''
     = Inr (JStr (description data
                  @ '' Kit includes: bd, sd, hh, oh, cp, lt, mt, ht, cy, cb, rs, cr.''))
   \<and> ''bd, sd, hh, oh, cp, lt, mt, ht, cy, cb, rs, cr''
     = join '', '' [''bd'', ''sd'', ''hh'', ''oh'', ''cp'', ''lt'', ''mt'', ''ht'', ''cy'', ''cb'', ''rs'', ''cr'']
   \<and> kit_sounds = [''bd'', ''sd'', ''hh'', ''oh'', ''cp'', ''lt'', ''mt'', ''ht'', ''cy'', ''cb'', ''rs'', ''cr'']
   \<and> map (\<lambda>sound. getitem sound ''description'')
         (take 72 (drop 340 (build_catalog () :: 'f dict list)))
     = map (\<lambda>(machine_name, data).
              Inr (JStr (description data
                         @ '' Kit includes: bd, sd, hh, oh, cp, lt, mt, ht, cy, cb, rs, cr.'')))
         drum_machines"
proof -
  have one: "getitem (drum_machine_sound m d :: 'f dict) ''description''
     = Inr (JStr (description d
                  @ '' Kit includes: bd, sd, hh, oh, cp, lt, mt, ht, cy, cb, rs, cr.''))"
    for m :: string and d :: machine_data
    by (simp add: getitem_def drum_machine_sound_def join_kit_sounds)
  have "map (\<lambda>sound. getitem (sound :: 'f dict) ''description'')
          (map (\<lambda>(machine_name, data). drum_machine_sound machine_name data) drum_machines)
     = map (\<lambda>(machine_name, data).
              Inr (JStr (description data
                         @ '' Kit includes: bd, sd, hh, oh, cp, lt, mt, ht, cy, cb, rs, cr.'')))
         drum_machines"
    by (simp add: one case_prod_unfold)
  then show ?thesis
    by (simp add: one drum_machines_in_catalog kit_sounds_def)
qed

section \<open>The claims about stage 2\<close>

text \<open>
  Claim C1. For a record whose \<^verbatim>\<open>name\<close>, \<^verbatim>\<open>description\<close>, \<^verbatim>\<open>category\<close> and
  \<^verbatim>\<open>source\<close> are strings and whose \<^verbatim>\<open>tags\<close> is a list of strings, the search
  text is the join with \<^verbatim>\<open>" | "\<close> of the name, the description,
  \<^verbatim>\<open>"Category: "\<close> and the category, \<^verbatim>\<open>"Source: "\<close> and the source,
  \<^verbatim>\<open>"Tags: "\<close> and the tags joined with \<^verbatim>\<open>", "\<close>; and this is the
  \<^verbatim>\<open>search_text\<close> that a run of stage 2 attaches to the record, at whatever position
  of the catalog it stands.
\<close>

theorem search_text_is_ordered_join:
  assumes "map_of sound ''name'' = Some (JStr n)"
    and "map_of sound ''description'' = Some (JStr d)"
    and "map_of sound ''category'' = Some (JStr c)"
    and "map_of sound ''source'' = Some (JStr s)"
    and "map_of sound ''tags'' = Some (JArr (map JStr ts))"
  shows "build_search_text env sound
           = Inr (join '' | '' [n, d, ''Category: '' @ c, ''Source: '' @ s,
                                ''Tags: '' @ join '', '' ts])
         \<and> (\<forall>sounds out i. main env sounds = Inr out \<and> i < length sounds \<and> sounds ! i = sound
               \<longrightarrow> getitem (out ! i) ''search_text''
                     = Inr (JStr (join '' | '' [n, d, ''Category: '' @ c, ''Source: '' @ s,
                                                ''Tags: '' @ join '', '' ts])))"
proof -
  let ?text = "join '' | '' [n, d, ''Category: '' @ c, ''Source: '' @ s, ''Tags: '' @ join '', '' ts]"
  have built: "build_search_text env sound = Inr ?text"
    using assms
    by (simp add: build_search_text_def getitem_def join_value_def format_value_def
        str_items_map_JStr)
  have attached: "getitem (out ! i) ''search_text'' = Inr (JStr ?text)"
    if run: "main env sounds = Inr out" and i: "i < length sounds" and at: "sounds ! i = sound"
    for sounds out i
  proof -
    from run obtain model backend texts embeddings where
      texts: "build_texts env sounds = Inr texts" and
      added: "add_embeddings 0 embeddings texts sounds = Inr out"
      by (rule main_InrD)
    from build_texts_nth [OF texts i] at built have "texts ! i = ?text"
      by simp
    with add_embeddings_nth [OF added i] show ?thesis
      by (simp add: getitem_setitem)
  qed
  show ?thesis
  proof (intro conjI allI impI)
    show "build_search_text env sound = Inr ?text"
      by (rule built)
  next
    fix sounds out i
    assume "main env sounds = Inr out \<and> i < length sounds \<and> sounds ! i = sound"
    then have "main env sounds = Inr out" and "i < length sounds" and "sounds ! i = sound"
      by simp_all
    then show "getitem (out ! i) ''search_text'' = Inr (JStr ?text)"
      by (rule attached)
  qed
qed

theorem search_text_is_ordered_join_witness:
  "build_search_text both_env sine_sound
     = Inr ''sine | pure tone | Category: oscillator | Source: builtin | Tags: pure''
   \<and> main both_env [sine_sound, saw_sound] = Inr [sine_embedded, saw_embedded]
   \<and> getitem ([sine_embedded, saw_embedded] ! 0) ''search_text''
     = Inr (JStr ''sine | pure tone | Category: oscillator | Source: builtin | Tags: pure'')"
proof -
  have fields:
    "map_of sine_sound ''name'' = Some (JStr ''sine'')"
    "map_of sine_sound ''description'' = Some (JStr ''pure tone'')"
    "map_of sine_sound ''category'' = Some (JStr ''oscillator'')"
    "map_of sine_sound ''source'' = Some (JStr ''builtin'')"
    "map_of sine_sound ''tags'' = Some (JArr (map JStr [''pure'']))"
    by (simp_all add: sine_sound_def)
  note claim = search_text_is_ordered_join [OF fields, of both_env]
  from claim have "build_search_text both_env sine_sound
     = Inr ''sine | pure tone | Category: oscillator | Source: builtin | Tags: pure''"
    by simp
  moreover from claim
  have "main both_env [sine_sound, saw_sound] = Inr [sine_embedded, saw_embedded]
          \<and> 0 < length [sine_sound, saw_sound] \<and> [sine_sound, saw_sound] ! 0 = sine_sound
        \<longrightarrow> getitem ([sine_embedded, saw_embedded] ! 0) ''search_text''
            = Inr (JStr (join '' | '' [''sine'', ''pure tone'', ''Category: '' @ ''oscillator'',
                                       ''Source: '' @ ''builtin'', ''Tags: '' @ join '', '' [''pure'']]))"
    by (elim conjE allE)
  with main_sine_saw
  have "getitem ([sine_embedded, saw_embedded] ! 0) ''search_text''
     = Inr (JStr ''sine | pure tone | Category: oscillator | Source: builtin | Tags: pure'')"
    by simp
  ultimately show ?thesis
    using main_sine_saw by simp
qed

text \<open>
  Claim C2. Take a catalog whose records carry no \<^verbatim>\<open>embedding\<close> and no
  \<^verbatim>\<open>search_text\<close> key (a catalog file, as stage 1 writes it). Whenever stage 2
  writes its output for it, removing these two keys from every record of the output gives
  the catalog back: as many records, in the same order, each with its keys in their order
  and their values; in particular every other key reads in the output as it does in the
  input. And stage 2 does write its output when the catalog is not empty, each record
  yields its search text, and a backend loads and returns at least one vector for each
  text.
\<close>

theorem stripping_stage2_output_gives_catalog:
  assumes "\<forall>sound\<in>set sounds. ''embedding'' \<notin> fst ` set sound \<and> ''search_text'' \<notin> fst ` set sound"
  shows "(main env sounds = Inr out
            \<longrightarrow> map strip out = sounds
                \<and> length out = length sounds
                \<and> (\<forall>i k. i < length sounds \<and> k \<noteq> ''embedding'' \<and> k \<noteq> ''search_text''
                      \<longrightarrow> getitem (out ! i) k = getitem (sounds ! i) k))
         \<and> (load_bge_m3 env = Inr (model, backend)
              \<and> sounds \<noteq> []
              \<and> (\<forall>sound\<in>set sounds. isl (build_search_text env sound) = False)
              \<and> (\<forall>texts. length texts = length sounds
                    \<longrightarrow> (\<exists>vectors.
                          (if backend = ''flagembedding''
                           then generate_embeddings_flagembedding env model texts
                           else generate_embeddings_sentence_transformers env model texts)
                            = Inr vectors
                          \<and> length texts \<le> length vectors))
            \<longrightarrow> (\<exists>written. main env sounds = Inr written \<and> map strip written = sounds))"
proof (rule conjI; rule impI)
  assume run: "main env sounds = Inr out"
  then obtain m b texts embeddings where
    added: "add_embeddings 0 embeddings texts sounds = Inr out"
    by (rule main_InrD)
  show "map strip out = sounds
        \<and> length out = length sounds
        \<and> (\<forall>i k. i < length sounds \<and> k \<noteq> ''embedding'' \<and> k \<noteq> ''search_text''
              \<longrightarrow> getitem (out ! i) k = getitem (sounds ! i) k)"
  proof (intro conjI allI impI)
    show "map strip out = sounds"
      using added assms by (rule add_embeddings_strip)
  next
    show "length out = length sounds"
      using added by (rule add_embeddings_length)
  next
    fix i k
    assume "i < length sounds \<and> k \<noteq> ''embedding'' \<and> k \<noteq> ''search_text''"
    then have i: "i < length sounds" and k: "k \<noteq> ''embedding''" "k \<noteq> ''search_text''"
      by simp_all
    show "getitem (out ! i) k = getitem (sounds ! i) k"
      using add_embeddings_nth [OF added i] k by (simp add: getitem_setitem)
  qed
next
  assume able: "load_bge_m3 env = Inr (model, backend)
              \<and> sounds \<noteq> []
              \<and> (\<forall>sound\<in>set sounds. isl (build_search_text env sound) = False)
              \<and> (\<forall>texts. length texts = length sounds
                    \<longrightarrow> (\<exists>vectors.
                          (if backend = ''flagembedding''
                           then generate_embeddings_flagembedding env model texts
                           else generate_embeddings_sentence_transformers env model texts)
                            = Inr vectors
                          \<and> length texts \<le> length vectors))"
  then have "isl (main env sounds) = False"
    by (intro main_completes [of env model backend sounds]) simp_all
  then obtain written where w: "main env sounds = Inr written"
    by (cases "main env sounds") auto
  then obtain m b texts embeddings where
    "add_embeddings 0 embeddings texts sounds = Inr written"
    by (rule main_InrD)
  then have "map strip written = sounds"
    using assms by (rule add_embeddings_strip)
  with w show "\<exists>written. main env sounds = Inr written \<and> map strip written = sounds"
    by simp
qed

theorem stripping_stage2_output_gives_catalog_witness:
  "main both_env [sine_sound, saw_sound] = Inr [sine_embedded, saw_embedded]
   \<and> map strip [sine_embedded, saw_embedded] = [sine_sound, saw_sound]
   \<and> getitem ([sine_embedded, saw_embedded] ! 1) ''id'' = getitem ([sine_sound, saw_sound] ! 1) ''id''
   \<and> (\<exists>written. main both_env [sine_sound, saw_sound] = Inr written
                  \<and> map strip written = [sine_sound, saw_sound])"
proof -
  have nokeys: "\<forall>sound\<in>set [sine_sound, saw_sound].
          ''embedding'' \<notin> fst ` set sound \<and> ''search_text'' \<notin> fst ` set sound"
    by (simp add: sine_sound_def saw_sound_def)
  note claim = stripping_stage2_output_gives_catalog
    [OF nokeys, of both_env "[sine_embedded, saw_embedded]" 0 "''flagembedding''"]
  from claim main_sine_saw
  have stripped: "map strip [sine_embedded, saw_embedded] = [sine_sound, saw_sound]"
    and kept: "\<forall>i k. i < length [sine_sound, saw_sound] \<and> k \<noteq> ''embedding'' \<and> k \<noteq> ''search_text''
               \<longrightarrow> getitem ([sine_embedded, saw_embedded] ! i) k
                   = getitem ([sine_sound, saw_sound] ! i) k"
    by simp_all
  from kept have "1 < length [sine_sound, saw_sound] \<and> ''id'' \<noteq> ''embedding'' \<and> ''id'' \<noteq> ''search_text''
       \<longrightarrow> getitem ([sine_embedded, saw_embedded] ! 1) ''id''
           = getitem ([sine_sound, saw_sound] ! 1) ''id''"
    by (elim allE)
  then have same_id: "getitem ([sine_embedded, saw_embedded] ! 1) ''id''
           = getitem ([sine_sound, saw_sound] ! 1) ''id''"
    by simp
  have loaded: "load_bge_m3 both_env = Inr (0, ''flagembedding'')"
    by (simp add: load_bge_m3_def both_env_def)
  have texts: "\<forall>sound\<in>set [sine_sound, saw_sound]. isl (build_search_text both_env sound) = False"
    by (simp add: build_search_text_def sine_sound_def saw_sound_def getitem_def join_value_def
        format_value_def)
  have vectors: "\<forall>texts. length texts = length [sine_sound, saw_sound]
           \<longrightarrow> (\<exists>vectors.
                 (if ''flagembedding'' = ''flagembedding''
                  then generate_embeddings_flagembedding both_env 0 texts
                  else generate_embeddings_sentence_transformers both_env 0 texts) = Inr vectors
                 \<and> length texts \<le> length vectors)"
    by (simp add: generate_embeddings_flagembedding_def both_env_def tolist_def)
  have able: "load_bge_m3 both_env = Inr (0, ''flagembedding'')
              \<and> [sine_sound, saw_sound] \<noteq> []
              \<and> (\<forall>sound\<in>set [sine_sound, saw_sound]. isl (build_search_text both_env sound) = False)
              \<and> (\<forall>texts. length texts = length [sine_sound, saw_sound]
                    \<longrightarrow> (\<exists>vectors.
                          (if ''flagembedding'' = ''flagembedding''
                           then generate_embeddings_flagembedding both_env 0 texts
                           else generate_embeddings_sentence_transformers both_env 0 texts)
                            = Inr vectors
                          \<and> length texts \<le> length vectors))"
    using loaded texts vectors by (intro conjI) simp_all
  have "\<exists>written. main both_env [sine_sound, saw_sound] = Inr written
                  \<and> map strip written = [sine_sound, saw_sound]"
    by (rule mp [OF conjunct2 [OF claim] able])
  with stripped same_id main_sine_saw show ?thesis by simp
qed



text \<open>
  Claim C8, as the specification states it: a record that lacks any expected field makes
  stage 2 fail with a key-lookup error. It does not hold: stage 2 never reads
  \<^verbatim>\<open>id\<close> (nor \<^verbatim>\<open>example\<close>), so a record without its \<^verbatim>\<open>id\<close> goes through and
  the output is written; and the model is loaded before any record is read, so with no
  backend installed a record without its \<^verbatim>\<open>name\<close> ends the run with the loader's
  \<^verbatim>\<open>ImportError\<close>, not with a key-lookup error.
\<close>

theorem missing_field_counterexample:
  "map_of sine_without_id ''id'' = None
   \<and> main both_env [sine_without_id]
     = Inr [sine_without_id
            @ [(''embedding'', JArr [JNum 70]),
               (''search_text'',
                JStr ''sine | pure tone | Category: oscillator | Source: builtin | Tags: pure'')]]
   \<and> map_of sine_without_name ''name'' = None
   \<and> main no_backend_env [sine_without_name] = Inl ImportError"
  by (simp add: main_def load_bge_m3_def both_env_def no_backend_env_def build_search_text_def
      sine_without_id_def sine_without_name_def getitem_def join_value_def format_value_def
      generate_embeddings_flagembedding_def tolist_def setitem_def)

text \<open>
  Claim C8, amended. When a record of the catalog lacks one of the five keys that stage 2
  reads (name, description, category, source, tags), \<^verbatim>\<open>build_search_text\<close> raises
  \<^verbatim>\<open>KeyError\<close> for the first of them that is missing, in the order in which it reads
  them, and stage 2 writes no output. When moreover the model has loaded and every record
  before that one yields its search text, this \<^verbatim>\<open>KeyError\<close> is the exception that ends
  stage 2. (A record that lacks \<^verbatim>\<open>id\<close> or \<^verbatim>\<open>example\<close> only is not detected.)
\<close>

theorem missing_read_key_aborts:
  assumes "i < length sounds" and "first_missing (sounds ! i) = Some k"
  shows "build_search_text env (sounds ! i) = Inl (KeyError k)
         \<and> isl (main env sounds)
         \<and> ((\<exists>mb. load_bge_m3 env = Inr mb)
              \<and> (\<forall>j<i. isl (build_search_text env (sounds ! j)) = False)
            \<longrightarrow> main env sounds = Inl (KeyError k))"
proof -
  have raised: "build_search_text env (sounds ! i) = Inl (KeyError k)"
    using assms(2) by (rule first_missing_KeyError)
  then have "isl (build_texts env sounds)"
    using assms(1) by (intro build_texts_error [of i]) simp_all
  then have "isl (main env sounds)"
    by (rule main_fails_when_texts_fail)
  moreover have "main env sounds = Inl (KeyError k)"
    if "load_bge_m3 env = Inr mb" and "\<forall>j<i. isl (build_search_text env (sounds ! j)) = False"
    for mb
    using that(1) build_texts_first_error [OF assms(1) raised that(2)]
    by (rule main_raises_text_error)
  ultimately show ?thesis
    using raised by blast
qed

theorem missing_read_key_aborts_witness:
  "first_missing ([sine_sound, sine_without_name] ! 1) = Some ''name''
   \<and> build_search_text both_env ([sine_sound, sine_without_name] ! 1) = Inl (KeyError ''name'')
   \<and> isl (main both_env [sine_sound, sine_without_name])
   \<and> main both_env [sine_sound, sine_without_name] = Inl (KeyError ''name'')"
proof -
  have missing: "first_missing ([sine_sound, sine_without_name] ! 1) = Some ''name''"
    by (simp add: first_missing_def read_keys_def sine_without_name_def)
  have loaded: "\<exists>mb. load_bge_m3 both_env = Inr mb"
    by (simp add: load_bge_m3_def both_env_def)
  have before: "\<forall>j<1. isl (build_search_text both_env ([sine_sound, sine_without_name] ! j)) = False"
    by (simp add: build_search_text_def sine_sound_def getitem_def join_value_def
        format_value_def)
  have "(1::nat) < length [sine_sound, sine_without_name]"
    by simp
  from missing_read_key_aborts [OF this missing, of both_env] missing loaded before
  show ?thesis by blast
qed

text \<open>
  Claim C9, as the specification states it: over any sequence of calls in one process the
  loader runs at most once. It does not hold: a load that raises leaves the cache empty,
  so with no backend installed a second call runs the loader a second time.
\<close>

theorem loader_runs_twice_counterexample:
  "snd (calls no_backend_env initial_process [''kick'', ''snare''])
     = \<lparr>cache_model = None, cache_backend = None, loader_runs = 2\<rparr>
   \<and> \<not> loader_runs (snd (calls no_backend_env initial_process [''kick'', ''snare''])) \<le> 1"
  by (simp add: generate_embedding_def load_bge_m3_def no_backend_env_def both_env_def
      initial_process_def)

text \<open>
  Claim C9, amended. \<^verbatim>\<open>generate_embedding\<close> calls the loader exactly when it finds
  the cache empty. Once the cache holds a model handle, every later call embeds with that
  handle and the cached tag, and leaves the state as it is: the loader does not run and
  the cache is not written again. A load that succeeds fills the cache, so from an empty
  cache the loader runs at most once over any sequence of calls if it succeeds; a load
  that raises leaves the cache empty, and then every call of the sequence runs the
  loader.
\<close>

theorem model_cache_reuse:
  "(cache_model p = Some model
      \<longrightarrow> generate_embedding env p text = (embed_single env model (cache_backend p) text, p)
          \<and> calls env p texts = (map (embed_single env model (cache_backend p)) texts, p))
   \<and> (cache_model p = None
      \<longrightarrow> loader_runs (snd (generate_embedding env p text)) = Suc (loader_runs p))
   \<and> (cache_model p = None \<and> load_bge_m3 env = Inr (model, backend)
      \<longrightarrow> snd (generate_embedding env p text)
            = p\<lparr>cache_model := Some model, cache_backend := Some backend,
                loader_runs := Suc (loader_runs p)\<rparr>
          \<and> loader_runs (snd (calls env p texts)) \<le> Suc (loader_runs p))
   \<and> (load_bge_m3 env = Inr (model, backend)
      \<longrightarrow> loader_runs (snd (calls env initial_process texts)) \<le> 1)
   \<and> (cache_model p = None \<and> load_bge_m3 env = Inl e
      \<longrightarrow> snd (calls env p texts) = p\<lparr>loader_runs := loader_runs p + length texts\<rparr>)"
proof -
  have once: "loader_runs (snd (calls env q texts)) \<le> Suc (loader_runs q)"
    if "cache_model q = None" and "load_bge_m3 env = Inr (model, backend)" for q
  proof (cases texts)
    case Nil
    then show ?thesis by simp
  next
    case (Cons t ts)
    with calls_load_once [OF that, of t ts] show ?thesis by simp
  qed
  have "loader_runs (snd (generate_embedding env p text)) = Suc (loader_runs p)"
    if "cache_model p = None"
    using that by (simp add: generate_embedding_def split: sum.splits prod.splits)
  moreover have "snd (generate_embedding env p text)
            = p\<lparr>cache_model := Some model, cache_backend := Some backend,
                loader_runs := Suc (loader_runs p)\<rparr>"
    if "cache_model p = None" and "load_bge_m3 env = Inr (model, backend)"
    using that by (simp add: generate_embedding_def)
  moreover have "loader_runs (snd (calls env initial_process texts)) \<le> 1"
    if "load_bge_m3 env = Inr (model, backend)"
    using once [of initial_process] that by (simp add: initial_process_def)
  moreover have "generate_embedding env p text = (embed_single env model (cache_backend p) text, p)"
    if "cache_model p = Some model"
    using that by (simp add: generate_embedding_def)
  ultimately show ?thesis
    using once [of p] by (simp add: calls_loaded calls_load_fails)
qed

theorem model_cache_reuse_witness:
  "snd (calls fallback_env initial_process [''kick'', ''snare''])
     = \<lparr>cache_model = Some 1, cache_backend = Some ''sentence-transformers'', loader_runs = 1\<rparr>
   \<and> loader_runs (snd (calls fallback_env initial_process [''kick'', ''snare''])) \<le> 1
   \<and> calls fallback_env
       \<lparr>cache_model = Some 1, cache_backend = Some ''sentence-transformers'', loader_runs = 1\<rparr>
       [''hat'']
     = ([embed_single fallback_env 1 (Some ''sentence-transformers'') ''hat''],
        \<lparr>cache_model = Some 1, cache_backend = Some ''sentence-transformers'', loader_runs = 1\<rparr>)
   \<and> snd (calls no_backend_env initial_process [''kick'', ''snare''])
     = initial_process\<lparr>loader_runs := 2\<rparr>"
proof -
  let ?p = "\<lparr>cache_model = Some (1::nat), cache_backend = Some ''sentence-transformers'',
             loader_runs = 1\<rparr>"
  have loaded: "load_bge_m3 fallback_env = Inr (1, ''sentence-transformers'')"
    by (simp add: load_bge_m3_def fallback_env_def both_env_def)
  have failed: "load_bge_m3 no_backend_env = Inl ImportError"
    by (simp add: load_bge_m3_def no_backend_env_def both_env_def)
  have empty: "cache_model (initial_process :: nat process) = None"
    by (simp add: initial_process_def)
  have first: "snd (calls fallback_env initial_process [''kick'', ''snare''])
     = \<lparr>cache_model = Some 1, cache_backend = Some ''sentence-transformers'', loader_runs = 1\<rparr>"
    using calls_load_once [OF empty loaded, of "''kick''" "[''snare'']"]
    by (simp add: initial_process_def)
  from model_cache_reuse [of initial_process 1 fallback_env "''kick''" "[''kick'', ''snare'']"
      "''sentence-transformers''"] loaded
  have "loader_runs (snd (calls fallback_env initial_process [''kick'', ''snare''])) \<le> 1"
    by blast
  moreover
  from model_cache_reuse [of ?p 1 fallback_env "''hat''" "[''hat'']"]
  have "calls fallback_env ?p [''hat'']
     = ([embed_single fallback_env 1 (Some ''sentence-transformers'') ''hat''], ?p)"
    by simp
  moreover
  from model_cache_reuse [of initial_process _ no_backend_env _ "[''kick'', ''snare'']" _ ImportError]
    empty failed
  have "snd (calls no_backend_env initial_process [''kick'', ''snare''])
     = initial_process\<lparr>loader_runs := 2\<rparr>"
    by (simp add: initial_process_def)
  ultimately show ?thesis
    using first by simp
qed

text \<open>
  Claim C10. With a backend loaded (its handle and tag in the cache, or just returned by
  the loader on an empty cache), \<^verbatim>\<open>generate_embedding\<close> on a text returns the first
  element of what the batch function of that backend returns on the list of that one
  text, raises what that batch function raises, and raises \<^verbatim>\<open>IndexError\<close> on an
  empty result; when the backend gives one vector for each text, as it is trusted to,
  the element returned is the only one.
\<close>

theorem single_text_is_first_of_batch:
  assumes "cache_model p = Some model \<and> cache_backend p = Some backend
           \<or> cache_model p = None \<and> load_bge_m3 env = Inr (model, backend)"
  shows "fst (generate_embedding env p text)
           = (case (if backend = ''flagembedding''
                    then generate_embeddings_flagembedding env model [text]
                    else generate_embeddings_sentence_transformers env model [text]) of
                Inl e \<Rightarrow> Inl e
              | Inr embeddings \<Rightarrow>
                  if embeddings = [] then Inl IndexError else Inr (embeddings ! 0))
         \<and> ((if backend = ''flagembedding''
              then generate_embeddings_flagembedding env model [text]
              else generate_embeddings_sentence_transformers env model [text]) = Inr embeddings
             \<and> length embeddings = length [text]
            \<longrightarrow> fst (generate_embedding env p text) = Inr (embeddings ! 0)
                \<and> embeddings = [embeddings ! 0])"
proof -
  let ?batch = "if backend = ''flagembedding''
                then generate_embeddings_flagembedding env model [text]
                else generate_embeddings_sentence_transformers env model [text]"
  have single: "embed_single env model (Some backend) text
           = (case ?batch of
                Inl e \<Rightarrow> Inl e
              | Inr embeddings \<Rightarrow>
                  if embeddings = [] then Inl IndexError else Inr (embeddings ! 0))"
    by (simp add: embed_single_def split: sum.splits list.splits)
  from assms have "fst (generate_embedding env p text) = embed_single env model (Some backend) text"
    by (auto simp: generate_embedding_def)
  with single have first: "fst (generate_embedding env p text)
           = (case ?batch of
                Inl e \<Rightarrow> Inl e
              | Inr embeddings \<Rightarrow>
                  if embeddings = [] then Inl IndexError else Inr (embeddings ! 0))"
    by simp
  have "fst (generate_embedding env p text) = Inr (embeddings ! 0) \<and> embeddings = [embeddings ! 0]"
    if "?batch = Inr embeddings" and "length embeddings = length [text]"
  proof -
    from that(2) obtain emb where "embeddings = [emb]"
      by (cases embeddings) auto
    with first that(1) show ?thesis by simp
  qed
  with first show ?thesis by simp
qed

theorem single_text_is_first_of_batch_witness:
  "generate_embeddings_flagembedding both_env 0 [''warm pad''] = Inr [[8]]
   \<and> fst (generate_embedding both_env initial_process ''warm pad'') = Inr ([[8]] ! 0)
   \<and> generate_embeddings_sentence_transformers fallback_env 1 [''warm pad''] = Inr [[- 8]]
   \<and> fst (generate_embedding fallback_env
             \<lparr>cache_model = Some 1, cache_backend = Some ''sentence-transformers'', loader_runs = 1\<rparr>
             ''warm pad'') = Inr ([[- 8]] ! 0)"
proof -
  have flag: "generate_embeddings_flagembedding both_env 0 [''warm pad''] = Inr [[8]]"
    by (simp add: generate_embeddings_flagembedding_def both_env_def tolist_def)
  have st: "generate_embeddings_sentence_transformers fallback_env 1 [''warm pad''] = Inr [[- 8]]"
    by (simp add: generate_embeddings_sentence_transformers_def fallback_env_def both_env_def
        tolist_def)
  have "cache_model (initial_process :: nat process) = None
        \<and> load_bge_m3 both_env = Inr (0, ''flagembedding'')"
    by (simp add: initial_process_def load_bge_m3_def both_env_def)
  then have "fst (generate_embedding both_env initial_process ''warm pad'') = Inr ([[8]] ! 0)"
    using single_text_is_first_of_batch
      [of initial_process 0 "''flagembedding''" both_env "''warm pad''" "[[8]]"] flag
    by (simp del: nth_Cons_0)
  moreover
  have "fst (generate_embedding fallback_env
             \<lparr>cache_model = Some 1, cache_backend = Some ''sentence-transformers'', loader_runs = 1\<rparr>
             ''warm pad'') = Inr ([[- 8]] ! 0)"
    using single_text_is_first_of_batch
      [of "\<lparr>cache_model = Some 1, cache_backend = Some ''sentence-transformers'', loader_runs = 1\<rparr>"
          1 "''sentence-transformers''" fallback_env "''warm pad''" "[[- 8]]"] st
    by (simp del: nth_Cons_0)
  ultimately show ?thesis
    using flag st by (simp del: nth_Cons_0)
qed

end
